theory Spec2Isabelle
  imports Main "HOL-Library.AList" "HOL-Library.Sublist" "HOL-Library.Word"
begin

section \<open>Clipboard synchronisation of the iron-remote-desktop web component\<close>

text \<open>
  A shallow embedding of the clipboard code of
  \<^verbatim>\<open>web-client/iron-remote-desktop/src/iron-remote-desktop.svelte\<close>: the focus gate
  (\<^verbatim>\<open>runWhenWindowFocused\<close>, \<^verbatim>\<open>focusEventHandler\<close>), capability detection
  (\<^verbatim>\<open>initClipboard\<close>), the standard polling loop (\<^verbatim>\<open>onMonitorClipboard\<close>,
  \<^verbatim>\<open>onRemoteClipboardChanged\<close>) and the Firefox bridge (\<^verbatim>\<open>ffOnPasteHandler\<close>,
  \<^verbatim>\<open>ffWaitForRemoteClipboardDataSet\<close>, \<^verbatim>\<open>captureKeys\<close>,
  \<^verbatim>\<open>ffSimulateDelayedKeyEvents\<close>, \<^verbatim>\<open>keyboardEvent\<close>).

  The component is single-threaded JavaScript. Its module-level \<^verbatim>\<open>let\<close> variables become
  fields of state records that every handler takes and returns; what a handler does to the
  outside (a call of the remote module, a clipboard write, a \<^verbatim>\<open>setTimeout\<close>) is appended
  to a log field or returned beside the state; what it reads from the outside
  (\<^verbatim>\<open>document.hasFocus()\<close>, the result of \<^verbatim>\<open>navigator.clipboard.read()\<close>) is an
  argument or a field the environment sets. A JavaScript exception is the outcome
  \<open>Threw\<close>, returned together with the state as it stood when the exception left the function.
\<close>

subsection \<open>The focus gate\<close>

datatype outcome = Returned | Threw

text \<open>
  \<^verbatim>\<open>runWhenFocusedQueue: (() => void)[]\<close> holds closures. A closure is a value of an arbitrary
  type \<open>'f\<close>; what calling it does is given by an interpretation \<open>call\<close>, which may change
  any part of the state (the queue included) and may throw. \<open>hasFocus\<close> is what
  \<^verbatim>\<open>document.hasFocus()\<close> returns. The record is extensible, so the same gate serves the
  component state below.
\<close>

record 'f gate =
  runWhenFocusedQueue :: "'f list"
  hasFocus :: bool

type_synonym ('f, 'z) closure_call =
  "'f \<Rightarrow> ('f, 'z) gate_scheme \<Rightarrow> outcome \<times> ('f, 'z) gate_scheme"

text \<open>
  \<^verbatim>\<open>
  function runWhenWindowFocused(fn: () => void) {
      if (document.hasFocus()) { fn(); } else { runWhenFocusedQueue.push(fn); }
  }
  \<close>
\<close>

definition runWhenWindowFocused ::
  "('f, 'z) closure_call \<Rightarrow> 'f \<Rightarrow> ('f, 'z) gate_scheme \<Rightarrow> outcome \<times> ('f, 'z) gate_scheme" where
  "runWhenWindowFocused call fn s =
     (if hasFocus s then call fn s
      else (Returned, s\<lparr>runWhenFocusedQueue := runWhenFocusedQueue s @ [fn]\<rparr>))"

text \<open>
  \<^verbatim>\<open>
  function focusEventHandler() {
      while (runWhenFocusedQueue.length > 0) {
          const fn = runWhenFocusedQueue.shift();
          fn?.();
      }
  }
  \<close>
  The loop has no \<^verbatim>\<open>try\<close>: an exception of \<^verbatim>\<open>fn\<close> leaves the handler. A closure may
  push closures, so the loop need not end: it is a partial function, \<open>None\<close> when it runs
  forever. Beside the outcome and the state it returns the closures it invoked, in the order of
  invocation; this list is a ghost trace, no branch reads it.
\<close>

partial_function (option) focusEventHandler_while ::
  "('f, 'z) closure_call \<Rightarrow> 'f list \<Rightarrow> ('f, 'z) gate_scheme
     \<Rightarrow> (outcome \<times> ('f, 'z) gate_scheme \<times> 'f list) option" where
  "focusEventHandler_while call invoked s =
     (case runWhenFocusedQueue s of
        [] \<Rightarrow> Some (Returned, s, invoked)
      | fn # rest \<Rightarrow>
          (case call fn (s\<lparr>runWhenFocusedQueue := rest\<rparr>) of
             (Threw, s') \<Rightarrow> Some (Threw, s', invoked @ [fn])
           | (Returned, s') \<Rightarrow> focusEventHandler_while call (invoked @ [fn]) s'))"

declare focusEventHandler_while.simps [code]

definition focusEventHandler ::
  "('f, 'z) closure_call \<Rightarrow> ('f, 'z) gate_scheme
     \<Rightarrow> (outcome \<times> ('f, 'z) gate_scheme \<times> 'f list) option" where
  "focusEventHandler call s = focusEventHandler_while call [] s"

text \<open>
  \<open>ends_with call fn out\<close>: in whatever state the closure \<open>fn\<close> is called, it ends with the
  outcome \<open>out\<close> and has left the pending queue as it found it.
\<close>

definition ends_with :: "('f, 'z) closure_call \<Rightarrow> 'f \<Rightarrow> outcome \<Rightarrow> bool" where
  "ends_with call fn out \<longleftrightarrow>
     (\<forall>s. fst (call fn s) = out \<and>
          runWhenFocusedQueue (snd (call fn s)) = runWhenFocusedQueue s)"

text \<open>
  Three notions used to state what a drain has done. \<open>run_in_order call fns s\<close> is the state
  after the actions \<open>fns\<close> have been called one after the other from the state \<open>s\<close>, each with
  the head of the pending queue removed before the call. \<open>appended_by call fns s\<close> lists the
  actions that these calls have appended to the queue, in the order of appending.
  \<open>only_pushes call\<close>: whatever else an action does, the only thing it does to the queue is
  to push onto it.
\<close>

fun run_in_order ::
  "('f, 'z) closure_call \<Rightarrow> 'f list \<Rightarrow> ('f, 'z) gate_scheme \<Rightarrow> ('f, 'z) gate_scheme" where
  "run_in_order call [] s = s"
| "run_in_order call (fn # fns) s =
     run_in_order call fns
       (snd (call fn (s\<lparr>runWhenFocusedQueue := tl (runWhenFocusedQueue s)\<rparr>)))"

fun appended_by ::
  "('f, 'z) closure_call \<Rightarrow> 'f list \<Rightarrow> ('f, 'z) gate_scheme \<Rightarrow> 'f list" where
  "appended_by call [] s = []"
| "appended_by call (fn # fns) s =
     (let s1 = snd (call fn (s\<lparr>runWhenFocusedQueue := tl (runWhenFocusedQueue s)\<rparr>))
      in drop (length (tl (runWhenFocusedQueue s))) (runWhenFocusedQueue s1)
         @ appended_by call fns s1)"

definition only_pushes :: "('f, 'z) closure_call \<Rightarrow> bool" where
  "only_pushes call \<longleftrightarrow>
     (\<forall>fn s. prefix (runWhenFocusedQueue s) (runWhenFocusedQueue (snd (call fn s))))"

text \<open>
  An interpretation of closures numbered by naturals, used as a concrete input: under
  \<open>failing_first\<close> closure 0 throws and every other closure returns.
\<close>

definition failing_first :: "(nat, 'z) closure_call" where
  "failing_first fn s = (if fn = 0 then Threw else Returned, s)"




subsection \<open>Clipboard values and the remote module's clipboard data\<close>

text \<open>
  A clipboard value is \<^verbatim>\<open>string | Uint8Array\<close>. A \<^verbatim>\<open>Record<string, ...>\<close> is an association
  list in insertion order; \<open>AList.update\<close> assigns a key as JavaScript does for such keys:
  in place when the key exists, at the end when it is new. \<open>map_of\<close> reads a key, \<open>None\<close>
  being \<^verbatim>\<open>undefined\<close>.
\<close>

type_synonym bytes = "8 word list"

datatype clip_value = Text string | Binary bytes

type_synonym js_record = "(string \<times> clip_value) list"

datatype clipboard_item = ClipboardItem (mimeType: string) (itemValue: clip_value)

text \<open>
  Modelled from the spec: the remote module's \<^verbatim>\<open>ClipboardData\<close> class is not part of the
  component's source. The spec lists its primitives: create, add-text(mime, string),
  add-binary(mime, bytes), is-empty, enumerate items (each exposing its MIME type and value); an
  object with zero added entries is empty. A fresh object under construction is the list of its
  items. A handle the component has been given is \<open>ClipboardData\<close> of its items, or
  \<open>Detached\<close>: the source notes (at \<^verbatim>\<open>TODO(Fix)\<close>) that a handle whose ownership the module
  has taken is a null pointer. A call on such a handle is taken to throw; this is the failure
  that the \<^verbatim>\<open>try\<close> blocks around \<^verbatim>\<open>data.items()\<close> catch.
\<close>

datatype clipboard_data = ClipboardData "clipboard_item list" | Detached

fun items :: "clipboard_data \<Rightarrow> clipboard_item list option" where
  "items (ClipboardData its) = Some its"
| "items Detached = None"

definition addText :: "string \<Rightarrow> string \<Rightarrow> clipboard_item list \<Rightarrow> clipboard_item list" where
  "addText mime txt d = d @ [ClipboardItem mime (Text txt)]"

definition addBinary :: "string \<Rightarrow> bytes \<Rightarrow> clipboard_item list \<Rightarrow> clipboard_item list" where
  "addBinary mime bin d = d @ [ClipboardItem mime (Binary bin)]"

definition isEmpty :: "clipboard_item list \<Rightarrow> bool" where
  "isEmpty d \<longleftrightarrow> d = []"

text \<open>
  \<^verbatim>\<open>
  function clipboardDataToRecord(data: ClipboardData): Record<string, Blob> {
      let result = {};
      for (const item of data.items()) {
          let mime = item.mimeType();
          result[mime] = new Blob([item.value()], { type: mime });
      }
      return result;
  }
  \<close>
  and \<^verbatim>\<open>clipboardDataToClipboardItemsRecord\<close>, the same loop with
  \<^verbatim>\<open>result[mime] = item.value()\<close>. A blob is modelled by the value it was made from.
  Both are \<open>None\<close> when \<^verbatim>\<open>data.items()\<close> throws.
\<close>

definition clipboardDataToRecord :: "clipboard_data \<Rightarrow> js_record option" where
  "clipboardDataToRecord d =
     map_option
       (foldl (\<lambda>result it. AList.update (mimeType it) (itemValue it) result) [])
       (items d)"

definition clipboardDataToClipboardItemsRecord :: "clipboard_data \<Rightarrow> js_record option" where
  "clipboardDataToClipboardItemsRecord d =
     map_option
       (foldl (\<lambda>result it. AList.update (mimeType it) (itemValue it) result) [])
       (items d)"

subsection \<open>Capability detection\<close>

text \<open>
  What \<^verbatim>\<open>initClipboard\<close> reads from the browser: the user agent string and which members of
  \<^verbatim>\<open>navigator.clipboard\<close> are defined.
  \<^verbatim>\<open>
  let isFirefox = navigator.userAgent.toLowerCase().indexOf('firefox') > -1;
  \<close>
  The user agent is taken as an ASCII string, so \<^verbatim>\<open>toLowerCase\<close> changes the letters A to Z
  only.
\<close>

record navigator =
  userAgent :: string
  clipboard_defined :: bool
  clipboard_read_defined :: bool
  clipboard_write_defined :: bool
  clipboard_writeText_defined :: bool

definition toLowerCase :: "string \<Rightarrow> string" where
  "toLowerCase str =
     map (\<lambda>c. if 65 \<le> (of_char c :: nat) \<and> (of_char c :: nat) \<le> 90
              then char_of ((of_char c :: nat) + 32) else c) str"

definition isFirefox :: "navigator \<Rightarrow> bool" where
  "isFirefox nav \<longleftrightarrow> sublist ''firefox'' (toLowerCase (userAgent nav))"

text \<open>
  \<^verbatim>\<open>
  function initClipboard() {
      if (!isFirefox && navigator.clipboard != undefined) {
          if (navigator.clipboard.read != undefined && navigator.clipboard.write != undefined) {
              isClipboardApiSupported = true;
          }
      }
      if (isFirefox) {
          remoteDesktopService.setOnRemoteClipboardChanged(ffOnRemoteClipboardChanged);
          remoteDesktopService.setOnRemoteReceivedFormatList(ffOnRemoteReceivedFormatList);
          remoteDesktopService.setOnForceClipboardUpdate(onForceClipboardUpdate);
      } else if (isClipboardApiSupported) {
          remoteDesktopService.setOnRemoteClipboardChanged(onRemoteClipboardChanged);
          remoteDesktopService.setOnForceClipboardUpdate(onForceClipboardUpdate);
          setTimeout(onMonitorClipboard, CLIPBOARD_MONITORING_INTERVAL);
      } else { /* nothing is registered */ }
  }
  \<close>
  The result records the handlers registered with the remote module and whether the monitoring
  loop was started.
\<close>

datatype remote_clipboard_handler = Use_ffOnRemoteClipboardChanged | Use_onRemoteClipboardChanged

record clipboard_setup =
  isClipboardApiSupported :: bool
  remoteClipboardChanged_handler :: "remote_clipboard_handler option"
  remoteReceivedFormatList_handler :: bool
  forceClipboardUpdate_handler :: bool
  monitoring_started :: bool

definition initClipboard :: "navigator \<Rightarrow> clipboard_setup" where
  "initClipboard nav =
     (let supported = (\<not> isFirefox nav \<and> clipboard_defined nav
                        \<and> clipboard_read_defined nav \<and> clipboard_write_defined nav)
      in if isFirefox nav then
           \<lparr>isClipboardApiSupported = supported,
            remoteClipboardChanged_handler = Some Use_ffOnRemoteClipboardChanged,
            remoteReceivedFormatList_handler = True,
            forceClipboardUpdate_handler = True,
            monitoring_started = False\<rparr>
         else if supported then
           \<lparr>isClipboardApiSupported = supported,
            remoteClipboardChanged_handler = Some Use_onRemoteClipboardChanged,
            remoteReceivedFormatList_handler = False,
            forceClipboardUpdate_handler = True,
            monitoring_started = True\<rparr>
         else
           \<lparr>isClipboardApiSupported = supported,
            remoteClipboardChanged_handler = None,
            remoteReceivedFormatList_handler = False,
            forceClipboardUpdate_handler = False,
            monitoring_started = False\<rparr>)"

text \<open>
  The three modes, in the spec's words: standard is the full polling sync, degraded the
  paste/copy event and retry-wait sync, unsupported no clipboard integration. \<open>mode_of\<close> reads
  the mode off what \<open>initClipboard\<close> set up.
\<close>

datatype clipboard_mode = Standard | Degraded | Unsupported

definition mode_of :: "clipboard_setup \<Rightarrow> clipboard_mode" where
  "mode_of setup =
     (case remoteClipboardChanged_handler setup of
        Some Use_onRemoteClipboardChanged \<Rightarrow> Standard
      | Some Use_ffOnRemoteClipboardChanged \<Rightarrow> Degraded
      | None \<Rightarrow> Unsupported)"

text \<open>Two browsers used as concrete inputs; neither has \<^verbatim>\<open>clipboard.read\<close> or \<^verbatim>\<open>clipboard.write\<close>.\<close>

definition legacy_chromium :: navigator where
  "legacy_chromium =
     \<lparr>userAgent = ''Mozilla/5.0 (X11; Linux x86_64) AppleWebKit/537.36 (KHTML, like Gecko) Chrome/60.0 Safari/537.36'',
      clipboard_defined = True, clipboard_read_defined = False, clipboard_write_defined = False,
      clipboard_writeText_defined = True\<rparr>"

definition firefox_115 :: navigator where
  "firefox_115 =
     \<lparr>userAgent = ''Mozilla/5.0 (X11; Linux x86_64; rv:115.0) Gecko/20100101 Firefox/115.0'',
      clipboard_defined = True, clipboard_read_defined = False, clipboard_write_defined = False,
      clipboard_writeText_defined = True\<rparr>"

subsection \<open>The standard clipboard synchronisation\<close>

text \<open>
  What a \<^verbatim>\<open>throw\<close> or a rejected promise carries: an object that is an instance of
  \<^verbatim>\<open>Error\<close> (the platform rejects with a \<^verbatim>\<open>DOMException\<close> or a \<^verbatim>\<open>TypeError\<close>), given by
  what its \<^verbatim>\<open>toString()\<close> returns, or a value that is no instance of \<^verbatim>\<open>Error\<close> (the remote
  module may reject with any value).
\<close>

datatype thrown = Error_object string | Other_value

text \<open>
  What the platform clipboard returns. A promise either resolves with a value or rejects.
  \<^verbatim>\<open>navigator.clipboard.read()\<close> resolves with a list of platform items; a platform item lists,
  for each of its \<^verbatim>\<open>types\<close>, what \<^verbatim>\<open>getType\<close> resolves with. A blob gives both of its
  readings: \<^verbatim>\<open>blob.text()\<close> and \<^verbatim>\<open>new Uint8Array(await blob.arrayBuffer())\<close>; a rejection of
  either reading is a rejection of \<open>getType\<close>.
\<close>

record blob =
  blob_text :: string
  blob_arrayBuffer :: bytes

datatype 'a promised = Resolves 'a | Rejects thrown

type_synonym platform_item = "(string \<times> blob promised) list"

definition types :: "platform_item \<Rightarrow> string list" where
  "types item = map fst item"

definition getType :: "platform_item \<Rightarrow> string \<Rightarrow> blob promised" where
  "getType item kind =
     (case map_of item kind of
        Some r \<Rightarrow> r
      | None \<Rightarrow> Rejects (Error_object ''NotFoundError''))"

text \<open>
  \<^verbatim>\<open>onMonitorClipboard\<close> is an \<^verbatim>\<open>async\<close> function. At each \<^verbatim>\<open>await\<close> it is suspended, and
  the event loop may run other handlers of the component before it resumes. The handlers that
  write a variable the function reads are these three events: the remote module reports a
  clipboard change (\<^verbatim>\<open>onRemoteClipboardChanged(data)\<close>), the window gets its \<^verbatim>\<open>focus\<close>
  event (\<^verbatim>\<open>focusEventHandler\<close>), and \<^verbatim>\<open>document.hasFocus()\<close> changes its value.
\<close>

datatype sync_event =
    Remote_clipboard_changed clipboard_data
  | Window_focus
  | Document_focus bool

text \<open>
  The environment of one run of \<^verbatim>\<open>onMonitorClipboard\<close>: what the clipboard read gives;
  whether \<^verbatim>\<open>remoteDesktopService.onClipboardChanged\<close> resolves; the platform's
  \<^verbatim>\<open>ClipboardItem\<close> constructor (see \<^verbatim>\<open>onRemoteClipboardChanged\<close> below), used by the
  handlers that run meanwhile; and \<open>meanwhile\<close>, the events handled at the successive
  \<^verbatim>\<open>await\<close>s of the run, one list for each \<^verbatim>\<open>await\<close> in the order in which the run reaches
  them (no list, or the empty list, where nothing is handled).
\<close>

record monitor_env =
  clipboard_read :: "platform_item list promised"
  onClipboardChanged_result :: "unit promised"
  clipboardItem_constructor :: "js_record \<Rightarrow> js_record option"
  meanwhile :: "sync_event list list"

text \<open>
  The only closure the component passes to \<^verbatim>\<open>runWhenWindowFocused\<close> is the arrow function
  in \<^verbatim>\<open>onRemoteClipboardChanged\<close>; it captures \<^verbatim>\<open>data\<close> and \<^verbatim>\<open>clipboard_item\<close>.
\<close>

datatype closure = WriteToClipboard clipboard_data js_record

text \<open>
  The module-level variables of the standard path, added to the gate, and three logs:
  \<open>sentToRemote\<close> the arguments of \<^verbatim>\<open>remoteDesktopService.onClipboardChanged\<close>,
  \<open>clipboardWritten\<close> the items given to \<^verbatim>\<open>navigator.clipboard.write\<close>, \<open>consoleErrors\<close> the
  \<^verbatim>\<open>console.error\<close> lines.
\<close>

record sync_state = "closure gate" +
  lastClientClipboardItems :: js_record
  lastReceivedClipboardData :: js_record
  lastSentClipboardData :: "clipboard_data option"
  lastClipboardMonitorLoopError :: "string option"
  componentDestroyed :: bool
  sentToRemote :: "clipboard_data list"
  clipboardWritten :: "js_record list"
  consoleErrors :: "string list"

text \<open>
  \<^verbatim>\<open>
  () => {
      lastReceivedClipboardData = clipboardDataToClipboardItemsRecord(data);
      navigator.clipboard.write([clipboard_item]).then(...).catch(...);
  }
  \<close>
  A rejected write is caught by the promise chain; the closure throws only when
  \<^verbatim>\<open>data.items()\<close> does.
\<close>

fun call_closure :: "closure \<Rightarrow> sync_state \<Rightarrow> outcome \<times> sync_state" where
  "call_closure (WriteToClipboard d clipboard_item) s =
     (case clipboardDataToClipboardItemsRecord d of
        None \<Rightarrow> (Threw, s)
      | Some r \<Rightarrow>
          (Returned, s\<lparr>lastReceivedClipboardData := r,
                        clipboardWritten := clipboardWritten s @ [clipboard_item]\<rparr>))"

text \<open>
  \<^verbatim>\<open>
  function onRemoteClipboardChanged(data: ClipboardData) {
      try {
          const items = data.items();
          ...
          const mime_formats = clipboardDataToRecord(data);
          const clipboard_item = new ClipboardItem(mime_formats);
          runWhenWindowFocused(() => { ... });
      } catch (err) {
          console.error('[CLIPBOARD] Failed to set client clipboard:', err);
      }
  }
  \<close>
  The platform constructor \<^verbatim>\<open>new ClipboardItem\<close> is a parameter: it returns the item, or
  \<open>None\<close> when it throws (as it does for an empty record).
\<close>

definition onRemoteClipboardChanged ::
  "(js_record \<Rightarrow> js_record option) \<Rightarrow> clipboard_data \<Rightarrow> sync_state \<Rightarrow> sync_state" where
  "onRemoteClipboardChanged newClipboardItem d s =
     (let caught = s\<lparr>consoleErrors :=
                       consoleErrors s @ [''[CLIPBOARD] Failed to set client clipboard:'']\<rparr>
      in case clipboardDataToRecord d of
           None \<Rightarrow> caught
         | Some mime_formats \<Rightarrow>
             (case newClipboardItem mime_formats of
                None \<Rightarrow> caught
              | Some clipboard_item \<Rightarrow>
                  (case runWhenWindowFocused call_closure (WriteToClipboard d clipboard_item) s of
                     (Returned, s') \<Rightarrow> s'
                   | (Threw, s') \<Rightarrow>
                       s'\<lparr>consoleErrors :=
                            consoleErrors s' @ [''[CLIPBOARD] Failed to set client clipboard:'']\<rparr>)))"

text \<open>
  What the event loop does with one event, and with the events handled at one \<^verbatim>\<open>await\<close>:
  \<open>at_await\<close> takes the state and the lists of events still to come, and returns the state in
  which the suspended function resumes, with the remaining lists. An exception of the focus
  handler ends that handler and nothing else. The component's closures push nothing, so the
  focus handler always ends; the branch for \<open>None\<close> is never taken.
\<close>

definition handle_event ::
  "(js_record \<Rightarrow> js_record option) \<Rightarrow> sync_event \<Rightarrow> sync_state \<Rightarrow> sync_state" where
  "handle_event newClipboardItem ev s =
     (case ev of
        Remote_clipboard_changed d \<Rightarrow> onRemoteClipboardChanged newClipboardItem d s
      | Window_focus \<Rightarrow>
          (case focusEventHandler call_closure s of
             Some (out, s', invoked) \<Rightarrow> s'
           | None \<Rightarrow> s)
      | Document_focus b \<Rightarrow> s\<lparr>hasFocus := b\<rparr>)"

definition at_await ::
  "monitor_env \<Rightarrow> sync_state \<times> sync_event list list \<Rightarrow> sync_state \<times> sync_event list list" where
  "at_await env sa =
     (case snd sa of
        [] \<Rightarrow> sa
      | evs # later \<Rightarrow>
          (foldl (\<lambda>s ev. handle_event (clipboardItem_constructor env) ev s) (fst sa) evs, later))"

text \<open>
  The comparison inside the loop of \<^verbatim>\<open>onMonitorClipboard\<close>:
  \<^verbatim>\<open>
  const is_equal = blobIsString
      ? function (a, b) { return a === b; }
      : function (a, b) {
            if (!(a instanceof Uint8Array) || !(b instanceof Uint8Array)) { return false; }
            return a != undefined && b != undefined && a.length === b.length
                && a.every((v, i) => v === b[i]);
        };
  \<close>
  The second argument is always the value just read, so it is never \<^verbatim>\<open>undefined\<close>. For
  \<^verbatim>\<open>===\<close>: two strings are equal when their characters are; a \<^verbatim>\<open>Uint8Array\<close> just created
  is identical to no stored value.
\<close>

definition is_equal :: "bool \<Rightarrow> clip_value option \<Rightarrow> clip_value \<Rightarrow> bool" where
  "is_equal blobIsString a b =
     (if blobIsString then
        (case b of Text y \<Rightarrow> a = Some (Text y) | Binary y \<Rightarrow> False)
      else
        (case (a, b) of
           (Some (Binary x), Binary y) \<Rightarrow> length x = length y \<and> list_all2 (=) x y
         | _ \<Rightarrow> False))"

text \<open>
  \<^verbatim>\<open>
  const blobIsString = kind.startsWith('text/');
  const blob = await item.getType(kind);
  const value = blobIsString ? await blob.text() : new Uint8Array(await blob.arrayBuffer());
  \<close>
\<close>

definition decode :: "string \<Rightarrow> blob \<Rightarrow> clip_value" where
  "decode kind b =
     (if prefix ''text/'' kind then Text (blob_text b) else Binary (blob_arrayBuffer b))"

text \<open>
  The body of the loop \<^verbatim>\<open>for (const kind of item.types)\<close> behind its \<^verbatim>\<open>await\<close>s: it reads
  and assigns into the object \<^verbatim>\<open>lastClientClipboardItems\<close>, reads
  \<^verbatim>\<open>lastReceivedClipboardData\<close>, and may clear the local \<^verbatim>\<open>sameValue\<close>.
  \<^verbatim>\<open>
      const previousValue = lastClientClipboardItems[kind];
      if (!is_equal(previousValue, value)) {
          if (is_equal(lastReceivedClipboardData[kind], value)) {
              lastClientClipboardItems[kind] = lastReceivedClipboardData[kind];
          } else {
              sameValue = false;
          }
      }
  \<close>
  Where the inner test holds, \<^verbatim>\<open>lastReceivedClipboardData[kind]\<close> is defined, since
  \<open>is_equal\<close> is false of \<^verbatim>\<open>undefined\<close>; the branch for \<open>None\<close> there is never taken.
\<close>

definition compare_kind :: "string \<Rightarrow> clip_value \<Rightarrow> sync_state \<times> bool \<Rightarrow> sync_state \<times> bool" where
  "compare_kind kind v st =
     (let s = fst st;
          sameValue = snd st;
          blobIsString = prefix ''text/'' kind;
          previousValue = map_of (lastClientClipboardItems s) kind
      in if \<not> is_equal blobIsString previousValue v then
           (if is_equal blobIsString (map_of (lastReceivedClipboardData s) kind) v then
              (case map_of (lastReceivedClipboardData s) kind of
                 Some r \<Rightarrow>
                   (s\<lparr>lastClientClipboardItems :=
                        AList.update kind r (lastClientClipboardItems s)\<rparr>,
                    sameValue)
               | None \<Rightarrow> (s, sameValue))
            else (s, False))
         else (s, sameValue))"

text \<open>
  A comparison the loop has made: the kind, the value read, and the entries of
  \<^verbatim>\<open>lastClientClipboardItems\<close> and of \<^verbatim>\<open>lastReceivedClipboardData\<close> for that kind as they
  stood when the value was compared. The loop returns the comparisons it made, in order; this
  list is a ghost trace, no branch reads it.
\<close>

record comparison =
  kind_compared :: string
  value_read :: clip_value
  snapshot_entry :: "clip_value option"
  received_entry :: "clip_value option"

text \<open>
  The loop. Each round has two \<^verbatim>\<open>await\<close>s, then the body above, then
  \<^verbatim>\<open>values[kind] = value\<close>:
  \<^verbatim>\<open>
  for (const kind of item.types) {
      const blobIsString = kind.startsWith('text/');
      const blob = await item.getType(kind);
      const value = blobIsString ? await blob.text() : new Uint8Array(await blob.arrayBuffer());
      ...
      values[kind] = value;
  }
  \<close>
  Its state is the component state with the events still to come, the local \<^verbatim>\<open>values\<close>, the
  local \<^verbatim>\<open>sameValue\<close>, and the trace. A rejected read leaves the loop with what was thrown and
  the state as it stands; the rejection is taken at the first of the two \<^verbatim>\<open>await\<close>s of the
  round.
\<close>

fun for_each_kind ::
  "monitor_env \<Rightarrow> platform_item \<Rightarrow> string list
     \<Rightarrow> (sync_state \<times> sync_event list list) \<times> js_record \<times> bool \<times> comparison list
     \<Rightarrow> thrown option \<times> (sync_state \<times> sync_event list list) \<times> js_record \<times> bool
         \<times> comparison list" where
  "for_each_kind env item [] st = (None, st)"
| "for_each_kind env item (kind # kinds) (sa, vals, sameValue, compared) =
     (let sa1 = at_await env sa in
      case getType item kind of
        Rejects err \<Rightarrow> (Some err, sa1, vals, sameValue, compared)
      | Resolves b \<Rightarrow>
          (let sa2 = at_await env sa1;
               v = decode kind b;
               st = compare_kind kind v (fst sa2, sameValue)
           in for_each_kind env item kinds
                ((fst st, snd sa2), AList.update kind v vals, snd st,
                 compared @
                   [\<lparr>kind_compared = kind, value_read = v,
                     snapshot_entry = map_of (lastClientClipboardItems (fst sa2)) kind,
                     received_entry = map_of (lastReceivedClipboardData (fst sa2)) kind\<rparr>])))"

text \<open>
  \<^verbatim>\<open>
  let clipboardData = new module.ClipboardData();
  Object.entries(values).forEach(([key, value]) => {
      if (value == null || value == undefined) { return; }
      if (key.startsWith('text/') && typeof value === 'string') {
          clipboardData.addText(key, value);
      } else if (key.startsWith('image/') && value instanceof Uint8Array) {
          clipboardData.addBinary(key, value);
      } else { /* skipped */ }
  });
  \<close>
\<close>

definition buildClipboardData :: "js_record \<Rightarrow> clipboard_item list" where
  "buildClipboardData vals =
     foldl (\<lambda>clipboardData (key, v).
              (case v of
                 Text txt \<Rightarrow>
                   if prefix ''text/'' key then addText key txt clipboardData else clipboardData
               | Binary bin \<Rightarrow>
                   if prefix ''image/'' key then addBinary key bin clipboardData
                   else clipboardData))
       [] vals"

text \<open>
  \<^verbatim>\<open>onMonitorClipboard\<close> is \<open>monitor_try\<close> (the body of its \<^verbatim>\<open>try\<close>, returning what was
  thrown, if anything, the state at that point and the trace of the loop), then
  \<open>monitor_catch\<close>, then the \<^verbatim>\<open>finally\<close> block, whose \<^verbatim>\<open>setTimeout\<close> is the boolean
  returned. The \<^verbatim>\<open>await\<close>s are those of \<^verbatim>\<open>navigator.clipboard.read()\<close>, the two of each round
  of the loop, and that of \<^verbatim>\<open>remoteDesktopService.onClipboardChanged\<close>.
  \<^verbatim>\<open>
  try {
      if (!document.hasFocus()) { return; }
      var value = await navigator.clipboard.read();
      if (value.length == 0) { return; }
      var item = value[0];
      if (!item.types.some((type) => type.startsWith('text/') || type.startsWith('image/png'))) {
          return;
      }
      var values = {};
      var sameValue = true;
      for (const kind of item.types) { ... }
      if (!sameValue) {
          lastClientClipboardItems = values;
          let clipboardData = ...;
          if (!clipboardData.isEmpty()) {
              lastSentClipboardData = clipboardData;
              await remoteDesktopService.onClipboardChanged(clipboardData);
          }
      }
  }
  \<close>
\<close>

definition monitor_try ::
  "monitor_env \<Rightarrow> sync_state \<Rightarrow> thrown option \<times> sync_state \<times> comparison list" where
  "monitor_try env s =
     (if \<not> hasFocus s then (None, s, [])
      else
        (let sa1 = at_await env (s, meanwhile env) in
         case clipboard_read env of
           Rejects err \<Rightarrow> (Some err, fst sa1, [])
         | Resolves [] \<Rightarrow> (None, fst sa1, [])
         | Resolves (item # others) \<Rightarrow>
             if \<not> list_ex (\<lambda>t. prefix ''text/'' t \<or> prefix ''image/png'' t) (types item)
             then (None, fst sa1, [])
             else
               (case for_each_kind env item (types item) (sa1, [], True, []) of
                  (Some err, sa2, vals, sameValue, compared) \<Rightarrow> (Some err, fst sa2, compared)
                | (None, sa2, vals, sameValue, compared) \<Rightarrow>
                    if sameValue then (None, fst sa2, compared)
                    else
                      (let s3 = (fst sa2)\<lparr>lastClientClipboardItems := vals\<rparr>;
                           clipboardData = buildClipboardData vals
                       in if isEmpty clipboardData then (None, s3, compared)
                          else
                            (let s4 = s3\<lparr>lastSentClipboardData := Some (ClipboardData clipboardData),
                                         sentToRemote :=
                                           sentToRemote s3 @ [ClipboardData clipboardData]\<rparr>;
                                 sa5 = at_await env (s4, snd sa2)
                             in case onClipboardChanged_result env of
                                  Resolves u \<Rightarrow> (None, fst sa5, compared)
                                | Rejects err \<Rightarrow> (Some err, fst sa5, compared))))))"

text \<open>
  \<^verbatim>\<open>
  catch (err) {
      if (err instanceof Error) {
          const printError = lastClipboardMonitorLoopError === null ||
              lastClipboardMonitorLoopError.toString() !== err.toString();
          if (printError) { console.error('Clipboard monitoring error: ' + err); }
          lastClipboardMonitorLoopError = err;
      }
  } finally {
      if (!componentDestroyed) { setTimeout(onMonitorClipboard, CLIPBOARD_MONITORING_INTERVAL); }
  }
  \<close>
  \<^verbatim>\<open>lastClipboardMonitorLoopError\<close> is kept as what its \<^verbatim>\<open>toString()\<close> returns.
\<close>

definition monitor_catch :: "thrown option \<times> sync_state \<Rightarrow> sync_state" where
  "monitor_catch r =
     (case r of
        (None, s) \<Rightarrow> s
      | (Some Other_value, s) \<Rightarrow> s
      | (Some (Error_object err), s) \<Rightarrow>
          (let printError = (lastClipboardMonitorLoopError s = None
                             \<or> lastClipboardMonitorLoopError s \<noteq> Some err)
           in s\<lparr>consoleErrors :=
                  (if printError then consoleErrors s @ [''Clipboard monitoring error: '' @ err]
                   else consoleErrors s),
                lastClipboardMonitorLoopError := Some err\<rparr>))"

definition onMonitorClipboard ::
  "monitor_env \<Rightarrow> sync_state \<Rightarrow> sync_state \<times> bool \<times> comparison list" where
  "onMonitorClipboard env s =
     (let r = monitor_try env s;
          s' = monitor_catch (fst r, fst (snd r))
      in (s', \<not> componentDestroyed s', snd (snd r)))"

definition comparisons :: "monitor_env \<Rightarrow> sync_state \<Rightarrow> comparison list" where
  "comparisons env s = snd (snd (onMonitorClipboard env s))"

text \<open>
  Predicates and functions used to state the properties of the loop. For a kind of the item
  read, with the snapshot \<open>client\<close> and the last received record \<open>received\<close>:
  \<open>adopts\<close> holds when the value read differs from the snapshot and equals the received value
  (the loop then stores the received value in the snapshot), \<open>flags\<close> when it differs from
  both (the loop then clears \<open>sameValue\<close>). \<open>observed_values\<close> is the record of the values
  read, which the loop builds in \<^verbatim>\<open>values\<close>.
\<close>

definition adopts :: "platform_item \<Rightarrow> js_record \<Rightarrow> js_record \<Rightarrow> string \<Rightarrow> bool" where
  "adopts item received client kind \<longleftrightarrow>
     (case getType item kind of
        Resolves b \<Rightarrow>
          \<not> is_equal (prefix ''text/'' kind) (map_of client kind) (decode kind b)
          \<and> is_equal (prefix ''text/'' kind) (map_of received kind) (decode kind b)
      | Rejects err \<Rightarrow> False)"

definition flags :: "platform_item \<Rightarrow> js_record \<Rightarrow> js_record \<Rightarrow> string \<Rightarrow> bool" where
  "flags item received client kind \<longleftrightarrow>
     (case getType item kind of
        Resolves b \<Rightarrow>
          \<not> is_equal (prefix ''text/'' kind) (map_of client kind) (decode kind b)
          \<and> \<not> is_equal (prefix ''text/'' kind) (map_of received kind) (decode kind b)
      | Rejects err \<Rightarrow> False)"

definition observed_values :: "platform_item \<Rightarrow> js_record" where
  "observed_values item =
     foldl (\<lambda>vals kind.
              (case getType item kind of
                 Resolves b \<Rightarrow> AList.update kind (decode kind b) vals
               | Rejects err \<Rightarrow> vals))
       [] (types item)"

text \<open>
  The same two notions for a comparison of the trace, where the entries are those the loop
  compared the value with: the comparison is \<open>adopted\<close> when the value read differs from
  the snapshot entry and equals the received entry, \<open>flagged\<close> when it differs from both.
\<close>

definition adopted :: "comparison \<Rightarrow> bool" where
  "adopted c \<longleftrightarrow>
     \<not> is_equal (prefix ''text/'' (kind_compared c)) (snapshot_entry c) (value_read c)
     \<and> is_equal (prefix ''text/'' (kind_compared c)) (received_entry c) (value_read c)"

definition flagged :: "comparison \<Rightarrow> bool" where
  "flagged c \<longleftrightarrow>
     \<not> is_equal (prefix ''text/'' (kind_compared c)) (snapshot_entry c) (value_read c)
     \<and> \<not> is_equal (prefix ''text/'' (kind_compared c)) (received_entry c) (value_read c)"

text \<open>
  Concrete inputs. \<open>sync_initial\<close> is the component as it starts, with focus.
  \<open>stale_html_state\<close> is reached from it when a poll reads a local copy with a plain and an
  HTML representation and the remote side then sends the plain text b. \<open>after_remote_hello\<close>
  is reached when a poll reads the plain text a and the remote side then sends the plain text
  hello. \<open>hello_unwritten\<close> is reached when a poll reads the plain text a, the document
  loses focus, the remote side sends the plain text hello, and the document has focus again
  while the window's \<^verbatim>\<open>focus\<close> event has not been handled yet: the write of hello is
  still queued. \<open>construct\<close> is a \<^verbatim>\<open>ClipboardItem\<close> constructor that throws on the empty
  record only. The polls have nothing handled at their \<^verbatim>\<open>await\<close>s, except
  \<open>hello_read_meanwhile\<close>, where the remote side sends the plain text hello while the
  clipboard read is in progress.
\<close>

definition construct :: "js_record \<Rightarrow> js_record option" where
  "construct mime_formats = (if mime_formats = [] then None else Some mime_formats)"

definition sync_initial :: sync_state where
  "sync_initial =
     \<lparr>runWhenFocusedQueue = [], hasFocus = True,
      lastClientClipboardItems = [], lastReceivedClipboardData = [],
      lastSentClipboardData = None, lastClipboardMonitorLoopError = None,
      componentDestroyed = False, sentToRemote = [], clipboardWritten = [],
      consoleErrors = []\<rparr>"

definition b_data :: clipboard_data where
  "b_data = ClipboardData [ClipboardItem ''text/plain'' (Text ''b'')]"

definition hello_data :: clipboard_data where
  "hello_data = ClipboardData [ClipboardItem ''text/plain'' (Text ''hello'')]"

definition world_data :: clipboard_data where
  "world_data = ClipboardData [ClipboardItem ''text/plain'' (Text ''world'')]"

definition rich_a_read :: monitor_env where
  "rich_a_read =
     \<lparr>clipboard_read = Resolves
        [[(''text/plain'', Resolves \<lparr>blob_text = ''a'', blob_arrayBuffer = [97]\<rparr>),
          (''text/html'',
           Resolves \<lparr>blob_text = ''<b>a</b>'',
                     blob_arrayBuffer = [60, 98, 62, 97, 60, 47, 98, 62]\<rparr>)]],
      onClipboardChanged_result = Resolves (),
      clipboardItem_constructor = construct, meanwhile = []\<rparr>"

definition plain_a_read :: monitor_env where
  "plain_a_read =
     \<lparr>clipboard_read = Resolves
        [[(''text/plain'', Resolves \<lparr>blob_text = ''a'', blob_arrayBuffer = [97]\<rparr>)]],
      onClipboardChanged_result = Resolves (),
      clipboardItem_constructor = construct, meanwhile = []\<rparr>"

definition stale_html_state :: sync_state where
  "stale_html_state =
     \<lparr>runWhenFocusedQueue = [], hasFocus = True,
      lastClientClipboardItems = [(''text/plain'', Text ''a''), (''text/html'', Text ''<b>a</b>'')],
      lastReceivedClipboardData = [(''text/plain'', Text ''b'')],
      lastSentClipboardData =
        Some (ClipboardData [ClipboardItem ''text/plain'' (Text ''a''),
                             ClipboardItem ''text/html'' (Text ''<b>a</b>'')]),
      lastClipboardMonitorLoopError = None,
      componentDestroyed = False,
      sentToRemote =
        [ClipboardData [ClipboardItem ''text/plain'' (Text ''a''),
                        ClipboardItem ''text/html'' (Text ''<b>a</b>'')]],
      clipboardWritten = [[(''text/plain'', Text ''b'')]],
      consoleErrors = []\<rparr>"

definition plain_b_item :: platform_item where
  "plain_b_item = [(''text/plain'', Resolves \<lparr>blob_text = ''b'', blob_arrayBuffer = [98]\<rparr>)]"

definition plain_b_read :: monitor_env where
  "plain_b_read =
     \<lparr>clipboard_read = Resolves [plain_b_item], onClipboardChanged_result = Resolves (),
      clipboardItem_constructor = construct, meanwhile = []\<rparr>"

definition after_remote_hello :: sync_state where
  "after_remote_hello =
     \<lparr>runWhenFocusedQueue = [], hasFocus = True,
      lastClientClipboardItems = [(''text/plain'', Text ''a'')],
      lastReceivedClipboardData = [(''text/plain'', Text ''hello'')],
      lastSentClipboardData = Some (ClipboardData [ClipboardItem ''text/plain'' (Text ''a'')]),
      lastClipboardMonitorLoopError = None,
      componentDestroyed = False,
      sentToRemote = [ClipboardData [ClipboardItem ''text/plain'' (Text ''a'')]],
      clipboardWritten = [[(''text/plain'', Text ''hello'')]],
      consoleErrors = []\<rparr>"




definition hello_unwritten :: sync_state where
  "hello_unwritten =
     \<lparr>runWhenFocusedQueue = [WriteToClipboard hello_data [(''text/plain'', Text ''hello'')]],
      hasFocus = True,
      lastClientClipboardItems = [(''text/plain'', Text ''a'')],
      lastReceivedClipboardData = [],
      lastSentClipboardData = Some (ClipboardData [ClipboardItem ''text/plain'' (Text ''a'')]),
      lastClipboardMonitorLoopError = None,
      componentDestroyed = False,
      sentToRemote = [ClipboardData [ClipboardItem ''text/plain'' (Text ''a'')]],
      clipboardWritten = [],
      consoleErrors = []\<rparr>"

subsection \<open>The paste handler of the Firefox bridge\<close>

text \<open>
  An item of \<^verbatim>\<open>evt.clipboardData.items\<close>: its \<^verbatim>\<open>type\<close>; the string that
  \<^verbatim>\<open>getAsString\<close> passes to its callback (\<open>None\<close> when the item is not of the string kind,
  so that the callback is never called); and what \<^verbatim>\<open>getAsFile\<close> returns (\<open>None\<close> for
  \<^verbatim>\<open>null\<close>, otherwise what the file's \<^verbatim>\<open>arrayBuffer()\<close> promise does). An event is its
  \<^verbatim>\<open>clipboardData\<close>: \<open>None\<close> for \<^verbatim>\<open>null\<close>, otherwise the items.
\<close>

record data_transfer_item =
  item_mime :: string
  getAsString :: "string option"
  getAsFile :: "bytes promised option"

type_synonym clipboard_event = "data_transfer_item list option"

text \<open>
  What the handler does to the outside: whether \<^verbatim>\<open>evt.preventDefault()\<close> was called, and the
  arguments of \<^verbatim>\<open>remoteDesktopService.onClipboardChanged\<close>, made by the callbacks the handler
  has set up.
\<close>

record paste_effects =
  defaultPrevented :: bool
  sentOnPaste :: "clipboard_data list"

text \<open>
  \<^verbatim>\<open>
  for (var clipItem of evt.clipboardData.items) {
      let mime = clipItem.type;
      if (mime.startsWith('text/')) {
          clipItem.getAsString((str: string) => {
              clipboardData.addText(mime, str);
              if (!clipboardData.isEmpty()) { remoteDesktopService.onClipboardChanged(clipboardData); }
          });
          break;
      }
      if (mime.startsWith('image/')) {
          let file = clipItem.getAsFile();
          if (file == null) { continue; }
          file.arrayBuffer().then((buffer: ArrayBuffer) => {
              const strict_buffer = new Uint8Array(buffer);
              clipboardData.addBinary(mime, strict_buffer);
              if (!clipboardData.isEmpty()) { remoteDesktopService.onClipboardChanged(clipboardData); }
          });
          break;
      }
  }
  \<close>
  \<^verbatim>\<open>clipboardData\<close> is the object made by \<^verbatim>\<open>new module.ClipboardData()\<close> before the loop;
  at most one callback is set up, so it is empty when the callback runs.
\<close>

fun paste_for_each :: "data_transfer_item list \<Rightarrow> clipboard_data list" where
  "paste_for_each [] = []"
| "paste_for_each (clipItem # others) =
     (let mime = item_mime clipItem in
      if prefix ''text/'' mime then
        (case getAsString clipItem of
           None \<Rightarrow> []
         | Some str \<Rightarrow>
             (let clipboardData = addText mime str []
              in if \<not> isEmpty clipboardData then [ClipboardData clipboardData] else []))
      else if prefix ''image/'' mime then
        (case getAsFile clipItem of
           None \<Rightarrow> paste_for_each others
         | Some (Rejects err) \<Rightarrow> []
         | Some (Resolves buffer) \<Rightarrow>
             (let clipboardData = addBinary mime buffer []
              in if \<not> isEmpty clipboardData then [ClipboardData clipboardData] else []))
      else paste_for_each others)"

text \<open>
  \<^verbatim>\<open>
  function ffOnPasteHandler(evt: ClipboardEvent) {
      evt.preventDefault();
      if (!isFirefox) { return; }
      try {
          let clipboardData = new module.ClipboardData();
          if (evt.clipboardData == null) { return; }
          for (var clipItem of evt.clipboardData.items) { ... }
      } catch (err) { console.error('Failed to update remote clipboard: ' + err); }
  }
  \<close>
\<close>

definition ffOnPasteHandler :: "navigator \<Rightarrow> clipboard_event \<Rightarrow> paste_effects" where
  "ffOnPasteHandler nav evt =
     \<lparr>defaultPrevented = True,
      sentOnPaste =
        (if \<not> isFirefox nav then []
         else (case evt of None \<Rightarrow> [] | Some clipItems \<Rightarrow> paste_for_each clipItems))\<rparr>"

text \<open>
  \<open>passed_over\<close>: the loop goes on to the next item, because this one is neither a text item
  nor an image item with a file. The four items are concrete inputs: a PNG file, a string of
  plain text, a string of a kind the loop does not handle, and a text file (an item of the
  file kind with a text type, for which \<^verbatim>\<open>getAsString\<close> never calls its callback).
\<close>

definition passed_over :: "data_transfer_item \<Rightarrow> bool" where
  "passed_over clipItem \<longleftrightarrow>
     \<not> prefix ''text/'' (item_mime clipItem)
     \<and> (prefix ''image/'' (item_mime clipItem) \<longrightarrow> getAsFile clipItem = None)"

definition png_item :: data_transfer_item where
  "png_item =
     \<lparr>item_mime = ''image/png'', getAsString = None,
      getAsFile = Some (Resolves [137, 80, 78, 71])\<rparr>"

definition abc_item :: data_transfer_item where
  "abc_item = \<lparr>item_mime = ''text/plain'', getAsString = Some ''abc'', getAsFile = None\<rparr>"

definition opaque_item :: data_transfer_item where
  "opaque_item =
     \<lparr>item_mime = ''application/x-moz-nativehtml'', getAsString = Some ''<p>abc</p>'',
      getAsFile = None\<rparr>"

definition file_named_item :: data_transfer_item where
  "file_named_item =
     \<lparr>item_mime = ''text/plain'', getAsString = None,
      getAsFile = Some (Resolves [97, 98, 99])\<rparr>"

subsection \<open>The Firefox bridge: pending remote data and postponed key events\<close>

text \<open>
  A keyboard event, as far as the component reads it. An event the component buffers also has
  its \<^verbatim>\<open>preventDefault()\<close> called; that effect is on the browser and is not recorded.
\<close>

record key_event =
  ctrlKey :: bool
  code :: string

definition isCopyKeyboardEvent :: "key_event \<Rightarrow> bool" where
  "isCopyKeyboardEvent evt \<longleftrightarrow>
     (ctrlKey evt \<and> code evt = ''KeyC'') \<or> (ctrlKey evt \<and> code evt = ''KeyX'')
     \<or> code evt = ''Copy'' \<or> code evt = ''Cut''"

definition isPasteKeyboardEvent :: "key_event \<Rightarrow> bool" where
  "isPasteKeyboardEvent evt \<longleftrightarrow> (ctrlKey evt \<and> code evt = ''KeyV'') \<or> code evt = ''Paste''"

definition FF_REMOTE_CLIPBOARD_DATA_SET_RETRY_INTERVAL :: nat where
  "FF_REMOTE_CLIPBOARD_DATA_SET_RETRY_INTERVAL = 100"

definition FF_REMOTE_CLIPBOARD_DATA_SET_MAX_RETRIES :: nat where
  "FF_REMOTE_CLIPBOARD_DATA_SET_MAX_RETRIES = 30"

definition FF_LOCAL_CLIPBOARD_COPY_TIMEOUT :: nat where
  "FF_LOCAL_CLIPBOARD_COPY_TIMEOUT = 1000"

text \<open>
  A call \<^verbatim>\<open>setTimeout(f, ms)\<close> is the pair of the function and the delay; a handler returns
  the calls it made, in order. The two functions the bridge schedules:
\<close>

datatype callback = Call_ffWaitForRemoteClipboardDataSet | Call_ffSimulateDelayedKeyEvents

type_synonym timeout = "callback \<times> nat"

text \<open>
  The Firefox-specific module-level variables, and three logs: \<open>textWritten\<close> the arguments of
  \<^verbatim>\<open>navigator.clipboard.writeText\<close>, \<open>keyboardEventsSent\<close> the events that
  \<^verbatim>\<open>remoteDesktopService.sendKeyboardEvent\<close> accepted, \<open>ffConsoleErrors\<close> the
  \<^verbatim>\<open>console.error\<close> lines.
\<close>

record ff_state =
  ffRemoteClipboardData :: "clipboard_data option"
  ffRemoteClipboardDataRetriesLeft :: nat
  ffPostponeKeyboardEvents :: bool
  ffDelayedKeyboardEvents :: "key_event list"
  textWritten :: "string list"
  keyboardEventsSent :: "key_event list"
  ffConsoleErrors :: "string list"

text \<open>
  \<^verbatim>\<open>
  const browserHasClipboardAccess =
      navigator.clipboard != undefined && navigator.clipboard.writeText != undefined;
  \<close>
\<close>

definition browserHasClipboardAccess :: "navigator \<Rightarrow> bool" where
  "browserHasClipboardAccess nav \<longleftrightarrow> clipboard_defined nav \<and> clipboard_writeText_defined nav"

text \<open>
  \<^verbatim>\<open>
  function ffOnRemoteClipboardChanged(data: ClipboardData) {
      const items = data.items();
      ...
      ffRemoteClipboardData = data;
  }
  \<close>
\<close>

definition ffOnRemoteClipboardChanged :: "clipboard_data \<Rightarrow> ff_state \<Rightarrow> outcome \<times> ff_state" where
  "ffOnRemoteClipboardChanged d s =
     (case items d of
        None \<Rightarrow> (Threw, s)
      | Some its \<Rightarrow> (Returned, s\<lparr>ffRemoteClipboardData := Some d\<rparr>))"

text \<open>
  \<^verbatim>\<open>
  function ffWaitForRemoteClipboardDataSet() {
      if (ffRemoteClipboardData) {
          try {
              let clipboard_data = ffRemoteClipboardData;
              ffRemoteClipboardData = null;
              const items = clipboard_data.items();
              for (const item of items) {
                  const mimeType = item.mimeType();
                  if (mimeType === 'text/plain') {
                      const value = item.value();
                      if (typeof value === 'string') {
                          navigator.clipboard.writeText(value).then(...).catch(...);
                      } else {
                          console.error('[CLIPBOARD-FF] Unexpected value type ...', typeof value);
                      }
                      break;
                  }
              }
          } catch (err) {
              console.error('[CLIPBOARD-FF] Failed to set client clipboard:', err);
          }
      } else if (ffRemoteClipboardDataRetriesLeft > 0) {
          ffRemoteClipboardDataRetriesLeft--;
          setTimeout(ffWaitForRemoteClipboardDataSet, FF_REMOTE_CLIPBOARD_DATA_SET_RETRY_INTERVAL);
      } else { /* gives up */ }
  }
  \<close>
\<close>

definition ffWaitForRemoteClipboardDataSet :: "ff_state \<Rightarrow> ff_state \<times> timeout list" where
  "ffWaitForRemoteClipboardDataSet s =
     (case ffRemoteClipboardData s of
        Some clipboard_data \<Rightarrow>
          (let s1 = s\<lparr>ffRemoteClipboardData := None\<rparr> in
           case items clipboard_data of
             None \<Rightarrow>
               (s1\<lparr>ffConsoleErrors :=
                     ffConsoleErrors s1 @ [''[CLIPBOARD-FF] Failed to set client clipboard:'']\<rparr>,
                [])
           | Some its \<Rightarrow>
               (case find (\<lambda>it. mimeType it = ''text/plain'') its of
                  None \<Rightarrow> (s1, [])
                | Some it \<Rightarrow>
                    (case itemValue it of
                       Text txt \<Rightarrow> (s1\<lparr>textWritten := textWritten s1 @ [txt]\<rparr>, [])
                     | Binary bin \<Rightarrow>
                         (s1\<lparr>ffConsoleErrors :=
                               ffConsoleErrors s1 @
                               [''[CLIPBOARD-FF] Unexpected value type for text/plain clipboard item:'']\<rparr>,
                          []))))
      | None \<Rightarrow>
          if ffRemoteClipboardDataRetriesLeft s > 0 then
            (s\<lparr>ffRemoteClipboardDataRetriesLeft := ffRemoteClipboardDataRetriesLeft s - 1\<rparr>,
             [(Call_ffWaitForRemoteClipboardDataSet, FF_REMOTE_CLIPBOARD_DATA_SET_RETRY_INTERVAL)])
          else (s, []))"

text \<open>
  \<^verbatim>\<open>
  function keyboardEvent(evt: KeyboardEvent) {
      const browserHasClipboardAccess = ...;
      if (isFirefox && browserHasClipboardAccess && isCopyKeyboardEvent(evt)) {
          ffRemoteClipboardDataRetriesLeft = FF_REMOTE_CLIPBOARD_DATA_SET_MAX_RETRIES;
          ffWaitForRemoteClipboardDataSet();
      }
      remoteDesktopService.sendKeyboardEvent(evt);
      return true;
  }
  \<close>
  \<^verbatim>\<open>sendKeyboardEvent\<close> belongs to the remote module and is a parameter: for each event it
  returns or throws. An event it throws on does not count as sent.
\<close>

definition keyboardEvent ::
  "navigator \<Rightarrow> (key_event \<Rightarrow> outcome) \<Rightarrow> key_event \<Rightarrow> ff_state
     \<Rightarrow> outcome \<times> ff_state \<times> timeout list" where
  "keyboardEvent nav sendKeyboardEvent evt s =
     (let (s1, timeouts) =
            (if isFirefox nav \<and> browserHasClipboardAccess nav \<and> isCopyKeyboardEvent evt then
               ffWaitForRemoteClipboardDataSet
                 (s\<lparr>ffRemoteClipboardDataRetriesLeft := FF_REMOTE_CLIPBOARD_DATA_SET_MAX_RETRIES\<rparr>)
             else (s, []))
      in case sendKeyboardEvent evt of
           Returned \<Rightarrow>
             (Returned, s1\<lparr>keyboardEventsSent := keyboardEventsSent s1 @ [evt]\<rparr>, timeouts)
         | Threw \<Rightarrow> (Threw, s1, timeouts))"

text \<open>
  \<^verbatim>\<open>
  function ffSimulateDelayedKeyEvents() {
      if (ffDelayedKeyboardEvents.length > 0) {
          for (const evt of ffDelayedKeyboardEvents) { keyboardEvent(evt); }
          ffDelayedKeyboardEvents = [];
      }
      ffPostponeKeyboardEvents = false;
  }
  \<close>
  An exception of \<^verbatim>\<open>keyboardEvent\<close> leaves the loop and the function: the buffer and the
  flag stay as they are.
\<close>

fun simulate_for_each ::
  "navigator \<Rightarrow> (key_event \<Rightarrow> outcome) \<Rightarrow> key_event list \<Rightarrow> ff_state \<times> timeout list
     \<Rightarrow> outcome \<times> ff_state \<times> timeout list" where
  "simulate_for_each nav sendKeyboardEvent [] (s, timeouts) = (Returned, s, timeouts)"
| "simulate_for_each nav sendKeyboardEvent (evt # evts) (s, timeouts) =
     (case keyboardEvent nav sendKeyboardEvent evt s of
        (Threw, s', ts) \<Rightarrow> (Threw, s', timeouts @ ts)
      | (Returned, s', ts) \<Rightarrow>
          simulate_for_each nav sendKeyboardEvent evts (s', timeouts @ ts))"

definition ffSimulateDelayedKeyEvents ::
  "navigator \<Rightarrow> (key_event \<Rightarrow> outcome) \<Rightarrow> ff_state \<Rightarrow> outcome \<times> ff_state \<times> timeout list" where
  "ffSimulateDelayedKeyEvents nav sendKeyboardEvent s =
     (case simulate_for_each nav sendKeyboardEvent (ffDelayedKeyboardEvents s) (s, []) of
        (Threw, s', ts) \<Rightarrow> (Threw, s', ts)
      | (Returned, s', ts) \<Rightarrow>
          (Returned, s'\<lparr>ffDelayedKeyboardEvents := [], ffPostponeKeyboardEvents := False\<rparr>, ts))"

text \<open>
  \<^verbatim>\<open>
  function ffOnRemoteReceivedFormatList() {
      try { ffSimulateDelayedKeyEvents(); }
      catch (err) { console.error('[CLIPBOARD-FF] Failed to send delayed keyboard events:', err); }
  }
  \<close>
\<close>

definition ffOnRemoteReceivedFormatList ::
  "navigator \<Rightarrow> (key_event \<Rightarrow> outcome) \<Rightarrow> ff_state \<Rightarrow> ff_state \<times> timeout list" where
  "ffOnRemoteReceivedFormatList nav sendKeyboardEvent s =
     (case ffSimulateDelayedKeyEvents nav sendKeyboardEvent s of
        (Returned, s', ts) \<Rightarrow> (s', ts)
      | (Threw, s', ts) \<Rightarrow>
          (s'\<lparr>ffConsoleErrors :=
                ffConsoleErrors s' @ [''[CLIPBOARD-FF] Failed to send delayed keyboard events:'']\<rparr>,
           ts))"

text \<open>
  \<^verbatim>\<open>
  function captureKeys(evt: KeyboardEvent) {
      if (capturingInputs()) {
          if (ffPostponeKeyboardEvents) {
              evt.preventDefault();
              ffDelayedKeyboardEvents.push(evt);
              return;
          }
          let isFirefoxPaste = isFirefox && isPasteKeyboardEvent(evt);
          if (isFirefoxPaste) {
              ffPostponeKeyboardEvents = true;
              ffDelayedKeyboardEvents = [];
              ffDelayedKeyboardEvents.push(evt);
              setTimeout(ffSimulateDelayedKeyEvents, FF_LOCAL_CLIPBOARD_COPY_TIMEOUT);
              return;
          }
          keyboardEvent(evt);
      }
  }
  \<close>
  What \<^verbatim>\<open>capturingInputs()\<close> returns is an argument.
\<close>

definition captureKeys ::
  "navigator \<Rightarrow> (key_event \<Rightarrow> outcome) \<Rightarrow> bool \<Rightarrow> key_event \<Rightarrow> ff_state
     \<Rightarrow> outcome \<times> ff_state \<times> timeout list" where
  "captureKeys nav sendKeyboardEvent capturingInputs evt s =
     (if capturingInputs then
        (if ffPostponeKeyboardEvents s then
           (Returned, s\<lparr>ffDelayedKeyboardEvents := ffDelayedKeyboardEvents s @ [evt]\<rparr>, [])
         else
           (let isFirefoxPaste = isFirefox nav \<and> isPasteKeyboardEvent evt in
            if isFirefoxPaste then
              (Returned,
               s\<lparr>ffPostponeKeyboardEvents := True, ffDelayedKeyboardEvents := [evt]\<rparr>,
               [(Call_ffSimulateDelayedKeyEvents, FF_LOCAL_CLIPBOARD_COPY_TIMEOUT)])
            else keyboardEvent nav sendKeyboardEvent evt s))
      else (Returned, s, []))"

text \<open>
  The browser's event loop around the bridge. The events are the key events
  (\<^verbatim>\<open>keydown\<close> and \<^verbatim>\<open>keyup\<close>, both bound to \<^verbatim>\<open>captureKeys\<close>), the two callbacks of the
  remote module, and the firing of a pending timer. Timers are never cancelled (the source has
  no \<^verbatim>\<open>clearTimeout\<close>). A pending timer is the \<^verbatim>\<open>setTimeout\<close> call with an origin: the
  number of the event during whose handling the call was made, or, for a call made by a timer
  callback, the origin of that timer. So the timers of one retry chain share the origin of the
  key event that started it. The origin is bookkeeping: no handler reads it. \<open>fired\<close> logs the
  timers that fired, \<open>handled\<close> counts the events. A timer that is not pending cannot fire.
  An exception that reaches the event loop ends the handler and nothing else.
\<close>

type_synonym pending_timer = "callback \<times> nat \<times> nat"

datatype ff_event =
    KeyEvent key_event bool
  | RemoteClipboardChanged clipboard_data
  | RemoteReceivedFormatList
  | TimerFires pending_timer

record ff_system =
  component :: ff_state
  pending :: "pending_timer list"
  fired :: "pending_timer list"
  handled :: nat

definition schedule :: "nat \<Rightarrow> timeout list \<Rightarrow> pending_timer list" where
  "schedule origin timeouts = map (\<lambda>(cb, ms). (cb, ms, origin)) timeouts"

fun ff_step ::
  "navigator \<Rightarrow> (key_event \<Rightarrow> outcome) \<Rightarrow> ff_system \<Rightarrow> ff_event \<Rightarrow> ff_system" where
  "ff_step nav send S (KeyEvent evt capturingInputs) =
     (case captureKeys nav send capturingInputs evt (component S) of
        (out, s', ts) \<Rightarrow>
          S\<lparr>component := s', pending := pending S @ schedule (handled S) ts,
            handled := handled S + 1\<rparr>)"
| "ff_step nav send S (RemoteClipboardChanged d) =
     S\<lparr>component := snd (ffOnRemoteClipboardChanged d (component S)),
       handled := handled S + 1\<rparr>"
| "ff_step nav send S RemoteReceivedFormatList =
     (case ffOnRemoteReceivedFormatList nav send (component S) of
        (s', ts) \<Rightarrow>
          S\<lparr>component := s', pending := pending S @ schedule (handled S) ts,
            handled := handled S + 1\<rparr>)"
| "ff_step nav send S (TimerFires (cb, ms, origin)) =
     (if (cb, ms, origin) \<in> set (pending S) then
        (case (case cb of
                 Call_ffWaitForRemoteClipboardDataSet \<Rightarrow>
                   ffWaitForRemoteClipboardDataSet (component S)
               | Call_ffSimulateDelayedKeyEvents \<Rightarrow>
                   snd (ffSimulateDelayedKeyEvents nav send (component S))) of
           (s', ts) \<Rightarrow>
             S\<lparr>component := s',
               pending := remove1 (cb, ms, origin) (pending S) @ schedule origin ts,
               fired := fired S @ [(cb, ms, origin)],
               handled := handled S + 1\<rparr>)
      else S)"

definition ff_run ::
  "navigator \<Rightarrow> (key_event \<Rightarrow> outcome) \<Rightarrow> ff_event list \<Rightarrow> ff_system \<Rightarrow> ff_system" where
  "ff_run nav send evs S = foldl (ff_step nav send) S evs"

text \<open>
  The timers the two mechanisms schedule, and the events that call
  \<^verbatim>\<open>ffSimulateDelayedKeyEvents\<close> (\<open>release_event\<close>): the format-list callback of the
  remote module, and a timer with that callback. Such an event is a release in a state
  (\<open>is_release\<close>) when it can happen there: the timer, if it is one, is pending.
\<close>

definition retry_timer :: "nat \<Rightarrow> pending_timer" where
  "retry_timer origin =
     (Call_ffWaitForRemoteClipboardDataSet, FF_REMOTE_CLIPBOARD_DATA_SET_RETRY_INTERVAL, origin)"

definition postpone_timer :: "nat \<Rightarrow> pending_timer" where
  "postpone_timer origin =
     (Call_ffSimulateDelayedKeyEvents, FF_LOCAL_CLIPBOARD_COPY_TIMEOUT, origin)"

fun release_event :: "ff_event \<Rightarrow> bool" where
  "release_event RemoteReceivedFormatList = True"
| "release_event (TimerFires (cb, ms, origin)) = (cb = Call_ffSimulateDelayedKeyEvents)"
| "release_event (KeyEvent evt capturingInputs) = False"
| "release_event (RemoteClipboardChanged d) = False"

definition is_release :: "ff_system \<Rightarrow> ff_event \<Rightarrow> bool" where
  "is_release S ev \<longleftrightarrow>
     release_event ev \<and> (case ev of TimerFires t \<Rightarrow> t \<in> set (pending S) | _ \<Rightarrow> True)"

text \<open>
  Concrete inputs: a remote module that accepts every key event and one that throws on the key
  A, the idle bridge, three keys, two event sequences (the \<^verbatim>\<open>keydown\<close> and \<^verbatim>\<open>keyup\<close> of one
  Ctrl+C followed by the firings of the two timers in turn; and a paste, the format-list signal,
  a second paste and the key A), and a payload without a plain-text item.
\<close>

definition delivers :: "key_event \<Rightarrow> outcome" where
  "delivers evt = Returned"

definition rejects_key_a :: "key_event \<Rightarrow> outcome" where
  "rejects_key_a evt = (if code evt = ''KeyA'' then Threw else Returned)"

definition ff_idle :: ff_system where
  "ff_idle =
     \<lparr>component =
        \<lparr>ffRemoteClipboardData = None, ffRemoteClipboardDataRetriesLeft = 0,
         ffPostponeKeyboardEvents = False, ffDelayedKeyboardEvents = [], textWritten = [],
         keyboardEventsSent = [], ffConsoleErrors = []\<rparr>,
      pending = [], fired = [], handled = 0\<rparr>"

definition ctrl_c :: key_event where
  "ctrl_c = \<lparr>ctrlKey = True, code = ''KeyC''\<rparr>"

definition ctrl_v :: key_event where
  "ctrl_v = \<lparr>ctrlKey = True, code = ''KeyV''\<rparr>"

definition key_a :: key_event where
  "key_a = \<lparr>ctrlKey = False, code = ''KeyA''\<rparr>"

definition ctrl_c_down_and_up :: "ff_event list" where
  "ctrl_c_down_and_up =
     [KeyEvent ctrl_c True, KeyEvent ctrl_c True]
     @ concat (replicate 15 [TimerFires (retry_timer 0), TimerFires (retry_timer 1)])"

definition paste_signal_paste :: "ff_event list" where
  "paste_signal_paste =
     [KeyEvent ctrl_v True, RemoteReceivedFormatList, KeyEvent ctrl_v True, KeyEvent key_a True]"

definition png_data :: clipboard_data where
  "png_data = ClipboardData [ClipboardItem ''image/png'' (Binary [137, 80, 78, 71])]"

subsection \<open>Properties of the focus gate\<close>

lemma ends_withD:
  assumes "ends_with call fn out" and "call fn s = (out', s')"
  shows "out' = out \<and> runWhenFocusedQueue s' = runWhenFocusedQueue s"
proof -
  from assms(1) have "fst (call fn s) = out \<and>
      runWhenFocusedQueue (snd (call fn s)) = runWhenFocusedQueue s"
    unfolding ends_with_def by (rule spec)
  with assms(2) show ?thesis by simp
qed

lemma while_empty:
  "runWhenFocusedQueue s = [] \<Longrightarrow> focusEventHandler_while call acc s = Some (Returned, s, acc)"
  by (subst focusEventHandler_while.simps) simp

lemma while_returned:
  "runWhenFocusedQueue s = fn # rest \<Longrightarrow>
   call fn (s\<lparr>runWhenFocusedQueue := rest\<rparr>) = (Returned, s') \<Longrightarrow>
   focusEventHandler_while call acc s = focusEventHandler_while call (acc @ [fn]) s'"
  by (subst focusEventHandler_while.simps) simp

lemma while_threw:
  "runWhenFocusedQueue s = fn # rest \<Longrightarrow>
   call fn (s\<lparr>runWhenFocusedQueue := rest\<rparr>) = (Threw, s') \<Longrightarrow>
   focusEventHandler_while call acc s = Some (Threw, s', acc @ [fn])"
  by (subst focusEventHandler_while.simps) simp

text \<open>A prefix of closures that return and leave the queue alone is invoked in queue order.\<close>

lemma while_quiet_prefix:
  assumes "\<forall>fn\<in>set fs. ends_with call fn Returned"
    and "runWhenFocusedQueue s = fs @ rest"
  shows "\<exists>s'. focusEventHandler_while call acc s = focusEventHandler_while call (acc @ fs) s'
            \<and> runWhenFocusedQueue s' = rest"
  using assms
proof (induction fs arbitrary: s acc)
  case Nil
  then show ?case by auto
next
  case (Cons fn fs)
  obtain out s1 where c: "call fn (s\<lparr>runWhenFocusedQueue := fs @ rest\<rparr>) = (out, s1)"
    by (cases "call fn (s\<lparr>runWhenFocusedQueue := fs @ rest\<rparr>)")
  from Cons.prems(1) have e: "ends_with call fn Returned" by simp
  from ends_withD[OF e c] have o: "out = Returned" and q: "runWhenFocusedQueue s1 = fs @ rest"
    by simp_all
  have step: "focusEventHandler_while call acc s = focusEventHandler_while call (acc @ [fn]) s1"
    using while_returned[of s fn "fs @ rest" call s1 acc] Cons.prems(2) c o by simp
  from Cons.IH[of s1 "acc @ [fn]"] Cons.prems(1) q
  obtain s' where
    "focusEventHandler_while call (acc @ [fn]) s1 = focusEventHandler_while call ((acc @ [fn]) @ fs) s'"
    and "runWhenFocusedQueue s' = rest" by auto
  with step show ?case by auto
qed


text \<open>
  C1, as the claim states it, fails. The queue holds closure 0, which throws, and then closure 1.
  The focus handler invokes closure 0, the exception leaves the handler, and closure 1 is
  neither invoked nor removed: the drain has halted at the failing action.
\<close>

theorem focusEventHandler_halts_at_exception:
  "focusEventHandler failing_first \<lparr>runWhenFocusedQueue = [0, 1], hasFocus = True\<rparr>
     = Some (Threw, \<lparr>runWhenFocusedQueue = [1], hasFocus = True\<rparr>, [0])"
  by (simp add: focusEventHandler_def while_threw failing_first_def)

text \<open>
  C1, amended. On a focus-gain event the handler invokes the queued actions in FIFO order,
  removing each one before it is invoked, so that none is invoked twice or re-queued. If every
  queued action returns, all of them are invoked, each once, and the queue is left empty. If an
  action throws, the exception leaves the handler: the actions before it and the failing action
  have been invoked once each, and the actions behind it stay in the queue, not invoked.
  (The queued actions here leave the queue alone; C9 is about those that push.)
\<close>

theorem focusEventHandler_fifo_until_exception:
  assumes "runWhenFocusedQueue s = pre @ rest"
    and "\<forall>fn\<in>set pre. ends_with call fn Returned"
  shows "(rest = [] \<longrightarrow>
           (\<exists>s'. focusEventHandler call s = Some (Returned, s', pre)
                \<and> runWhenFocusedQueue s' = []))
       \<and> (\<forall>fn post. rest = fn # post \<and> ends_with call fn Threw \<longrightarrow>
           (\<exists>s'. focusEventHandler call s = Some (Threw, s', pre @ [fn])
                \<and> runWhenFocusedQueue s' = post))"
proof -
  from while_quiet_prefix[OF assms(2) assms(1), of "[]"]
  obtain s1 where d: "focusEventHandler_while call [] s = focusEventHandler_while call pre s1"
    and q: "runWhenFocusedQueue s1 = rest"
    by auto
  have a: "rest = [] \<longrightarrow>
           (\<exists>s'. focusEventHandler call s = Some (Returned, s', pre)
                \<and> runWhenFocusedQueue s' = [])"
    using d q while_empty[of s1 call pre] by (auto simp: focusEventHandler_def)
  have b: "\<exists>s'. focusEventHandler call s = Some (Threw, s', pre @ [fn])
                \<and> runWhenFocusedQueue s' = post"
    if r: "rest = fn # post" and e: "ends_with call fn Threw" for fn post
  proof -
    obtain out s2 where c: "call fn (s1\<lparr>runWhenFocusedQueue := post\<rparr>) = (out, s2)"
      by (cases "call fn (s1\<lparr>runWhenFocusedQueue := post\<rparr>)")
    from ends_withD[OF e c] have o: "out = Threw" and q2: "runWhenFocusedQueue s2 = post"
      by simp_all
    have "focusEventHandler_while call pre s1 = Some (Threw, s2, pre @ [fn])"
      using while_threw[of s1 fn post call s2 pre] q r c o by simp
    with d q2 show ?thesis by (auto simp: focusEventHandler_def)
  qed
  from a b show ?thesis by blast
qed

text \<open>
  The amended C1 at concrete inputs: the queue [1, 2], where both closures return, and the queue
  [1, 0, 2], where closure 0 throws.
\<close>

theorem focusEventHandler_fifo_until_exception_witness:
  "runWhenFocusedQueue \<lparr>runWhenFocusedQueue = [1::nat, 2], hasFocus = True\<rparr> = [1, 2] @ []
   \<and> ends_with (failing_first :: (nat, unit) closure_call) 1 Returned
   \<and> ends_with (failing_first :: (nat, unit) closure_call) 2 Returned
   \<and> (\<exists>s'. focusEventHandler failing_first \<lparr>runWhenFocusedQueue = [1, 2], hasFocus = True\<rparr>
              = Some (Returned, s', [1, 2])
            \<and> runWhenFocusedQueue s' = [])
   \<and> runWhenFocusedQueue \<lparr>runWhenFocusedQueue = [1::nat, 0, 2], hasFocus = True\<rparr> = [1] @ [0, 2]
   \<and> ends_with (failing_first :: (nat, unit) closure_call) 0 Threw
   \<and> (\<exists>s'. focusEventHandler failing_first \<lparr>runWhenFocusedQueue = [1, 0, 2], hasFocus = True\<rparr>
              = Some (Threw, s', [1] @ [0])
            \<and> runWhenFocusedQueue s' = [2])"
proof -
  have e1: "ends_with (failing_first :: (nat, unit) closure_call) 1 Returned"
    and e2: "ends_with (failing_first :: (nat, unit) closure_call) 2 Returned"
    and e0: "ends_with (failing_first :: (nat, unit) closure_call) 0 Threw"
    by (simp_all add: ends_with_def failing_first_def)
  have all12: "\<forall>fn\<in>set [1, 2]. ends_with (failing_first :: (nat, unit) closure_call) fn Returned"
    using e1 e2 by simp
  have all1: "\<forall>fn\<in>set [1]. ends_with (failing_first :: (nat, unit) closure_call) fn Returned"
    using e1 by simp
  have q12: "runWhenFocusedQueue \<lparr>runWhenFocusedQueue = [1::nat, 2], hasFocus = True\<rparr> = [1, 2] @ []"
    and q102: "runWhenFocusedQueue \<lparr>runWhenFocusedQueue = [1::nat, 0, 2], hasFocus = True\<rparr> = [1] @ [0, 2]"
    by simp_all
  from focusEventHandler_fifo_until_exception[OF q12 all12]
  have a: "\<exists>s'. focusEventHandler failing_first \<lparr>runWhenFocusedQueue = [1, 2], hasFocus = True\<rparr>
              = Some (Returned, s', [1, 2])
            \<and> runWhenFocusedQueue s' = []"
    by simp
  from focusEventHandler_fifo_until_exception[OF q102 all1] e0
  have b: "\<exists>s'. focusEventHandler failing_first \<lparr>runWhenFocusedQueue = [1, 0, 2], hasFocus = True\<rparr>
              = Some (Threw, s', [1] @ [0])
            \<and> runWhenFocusedQueue s' = [2]"
    by blast
  from e1 e2 e0 a b q12 q102 show ?thesis by blast
qed

text \<open>
  What a call of the handler has done when it ends, whatever the actions do: its state is the
  one reached by calling the invoked actions one after the other; if it returned, the queue is
  empty; and if the actions only push, the invoked actions are those that were queued at the
  start followed by those that were appended meanwhile, in the order of appending.
\<close>

lemma while_runs_in_order:
  "focusEventHandler_while call acc s = Some r \<Longrightarrow>
     (\<exists>fns. snd (snd r) = acc @ fns
          \<and> fst (snd r) = run_in_order call fns s
          \<and> (fst r = Returned \<longrightarrow> only_pushes call \<longrightarrow>
                fns = runWhenFocusedQueue s @ appended_by call fns s))"
proof (induction call acc s r
    rule: focusEventHandler_while.raw_induct[rotated, consumes 1, case_names step])
  case (step loop call invoked s r)
  show ?case
  proof (cases "runWhenFocusedQueue s")
    case Nil
    with step(2) have "r = (Returned, s, invoked)" by simp
    with Nil show ?thesis by simp
  next
    case (Cons fn rest)
    obtain out s1 where c: "call fn (s\<lparr>runWhenFocusedQueue := rest\<rparr>) = (out, s1)"
      by (cases "call fn (s\<lparr>runWhenFocusedQueue := rest\<rparr>)")
    show ?thesis
    proof (cases out)
      case Threw
      with step(2) Cons c have "r = (Threw, s1, invoked @ [fn])" by simp
      with Cons c show ?thesis by simp
    next
      case Returned
      with step(2) Cons c have "loop call (invoked @ [fn]) s1 = Some r" by simp
      from step(1)[OF this] obtain fns where
        i: "snd (snd r) = (invoked @ [fn]) @ fns"
        and st: "fst (snd r) = run_in_order call fns s1"
        and ap: "fst r = Returned \<longrightarrow> only_pushes call \<longrightarrow>
                  fns = runWhenFocusedQueue s1 @ appended_by call fns s1"
        by blast
      have st': "fst (snd r) = run_in_order call (fn # fns) s"
        using st Cons c by simp
      have ap': "fn # fns = runWhenFocusedQueue s @ appended_by call (fn # fns) s"
        if ret: "fst r = Returned" and op: "only_pushes call"
      proof -
        from op have "prefix (runWhenFocusedQueue (s\<lparr>runWhenFocusedQueue := rest\<rparr>))
            (runWhenFocusedQueue (snd (call fn (s\<lparr>runWhenFocusedQueue := rest\<rparr>))))"
          unfolding only_pushes_def by blast
        with c have "prefix rest (runWhenFocusedQueue s1)" by simp
        then obtain new where q1: "runWhenFocusedQueue s1 = rest @ new"
          by (auto simp: prefix_def)
        from ap ret op have "fns = runWhenFocusedQueue s1 @ appended_by call fns s1" by blast
        with q1 Cons c show ?thesis by (simp add: Let_def)
      qed
      from i have "snd (snd r) = invoked @ (fn # fns)" by simp
      with st' ap' show ?thesis by blast
    qed
  qed
qed



subsection \<open>Properties of capability detection\<close>

lemma firefox_115_isFirefox: "isFirefox firefox_115"
  unfolding isFirefox_def firefox_115_def toLowerCase_def by code_simp

lemma legacy_chromium_not_Firefox: "\<not> isFirefox legacy_chromium"
  unfolding isFirefox_def legacy_chromium_def toLowerCase_def by code_simp

text \<open>
  C5, as the claim states it, fails. A Chromium of 2017 has \<^verbatim>\<open>navigator.clipboard\<close> with
  \<^verbatim>\<open>writeText\<close> but neither \<^verbatim>\<open>read\<close> nor \<^verbatim>\<open>write\<close>; its user agent does not contain
  firefox. Detection registers no handler at all: the mode is unsupported, not degraded.
\<close>

theorem initClipboard_unsupported_without_api:
  "\<not> clipboard_read_defined legacy_chromium \<and> \<not> clipboard_write_defined legacy_chromium
   \<and> mode_of (initClipboard legacy_chromium) = Unsupported"
  using legacy_chromium_not_Firefox
  by (simp add: initClipboard_def mode_of_def Let_def) (simp add: legacy_chromium_def)

text \<open>
  C5, amended. Capability detection maps every browser to exactly one of the three modes, and
  the mode is a function of the browser alone: degraded exactly when the user agent string
  contains firefox (in any letter case), whatever clipboard API the browser has; otherwise
  standard when \<^verbatim>\<open>navigator.clipboard\<close>, \<^verbatim>\<open>clipboard.read\<close> and \<^verbatim>\<open>clipboard.write\<close> are all
  defined; otherwise unsupported. So a browser lacking \<^verbatim>\<open>clipboard.read\<close> or
  \<^verbatim>\<open>clipboard.write\<close> gets the degraded mode only if it is Firefox, and the unsupported mode
  if it is not.
\<close>

theorem initClipboard_mode:
  "mode_of (initClipboard nav) =
     (if isFirefox nav then Degraded
      else if clipboard_defined nav \<and> clipboard_read_defined nav \<and> clipboard_write_defined nav
      then Standard else Unsupported)"
  by (simp add: initClipboard_def mode_of_def Let_def)

subsection \<open>Properties of the standard clipboard synchronisation\<close>

lemma is_equal_bin: "is_equal False (Some (Binary x)) (Binary y) \<longleftrightarrow> x = y"
  by (auto simp: is_equal_def list_all2_eq[symmetric])

lemma map_of_update: "map_of (AList.update k v al) k' = (if k' = k then Some v else map_of al k')"
  by (simp add: update_conv')

lemma is_equal_Some: "is_equal t a v \<Longrightarrow> \<exists>r. a = Some r"
  by (auto simp: is_equal_def split: if_splits clip_value.splits option.splits)

text \<open>For a value read for a kind, \<open>is_equal\<close> is equality with the stored entry.\<close>

lemma is_equal_decode:
  "is_equal (prefix ''text/'' kind) a (decode kind b) \<longleftrightarrow> a = Some (decode kind b)"
  by (auto simp: is_equal_def decode_def list_all2_eq[symmetric]
      split: option.splits clip_value.splits)

text \<open>
  What the handlers that run at an \<^verbatim>\<open>await\<close> leave alone: the client snapshot and what has
  been sent to the remote side.
\<close>

lemma call_closure_frame:
  "lastClientClipboardItems (snd (call_closure c s)) = lastClientClipboardItems s"
  "sentToRemote (snd (call_closure c s)) = sentToRemote s"
  "lastSentClipboardData (snd (call_closure c s)) = lastSentClipboardData s"
  "runWhenFocusedQueue (snd (call_closure c s)) = runWhenFocusedQueue s"
  by (cases c; simp split: option.splits)+

lemma run_in_order_frame:
  "lastClientClipboardItems (run_in_order call_closure fns s) = lastClientClipboardItems s
   \<and> sentToRemote (run_in_order call_closure fns s) = sentToRemote s
   \<and> lastSentClipboardData (run_in_order call_closure fns s) = lastSentClipboardData s"
  by (induction fns arbitrary: s) (simp_all add: call_closure_frame)

lemma focusEventHandler_frame:
  assumes "focusEventHandler call_closure s = Some (out, s', invoked)"
  shows "lastClientClipboardItems s' = lastClientClipboardItems s"
    and "sentToRemote s' = sentToRemote s"
    and "lastSentClipboardData s' = lastSentClipboardData s"
proof -
  from assms have "focusEventHandler_while call_closure [] s = Some (out, s', invoked)"
    by (simp add: focusEventHandler_def)
  from while_runs_in_order[OF this] have "s' = run_in_order call_closure invoked s" by simp
  with run_in_order_frame[of invoked s]
  show "lastClientClipboardItems s' = lastClientClipboardItems s"
    and "sentToRemote s' = sentToRemote s"
    and "lastSentClipboardData s' = lastSentClipboardData s"
    by simp_all
qed

text \<open>The component's closures push nothing, so the focus handler always ends.\<close>

lemma focusEventHandler_while_ends:
  "\<exists>r. focusEventHandler_while call_closure acc s = Some r"
proof (induction "runWhenFocusedQueue s" arbitrary: s acc)
  case Nil
  then show ?case using while_empty[of s call_closure acc] by simp
next
  case (Cons fn rest)
  obtain out s1 where c: "call_closure fn (s\<lparr>runWhenFocusedQueue := rest\<rparr>) = (out, s1)"
    by (cases "call_closure fn (s\<lparr>runWhenFocusedQueue := rest\<rparr>)")
  from call_closure_frame(4)[of fn "s\<lparr>runWhenFocusedQueue := rest\<rparr>"] c
  have q: "rest = runWhenFocusedQueue s1" by simp
  show ?case
  proof (cases out)
    case Threw
    with while_threw[of s fn rest call_closure s1 acc] Cons(2) c show ?thesis by simp
  next
    case Returned
    with while_returned[of s fn rest call_closure s1 acc] Cons(2) c
    have "focusEventHandler_while call_closure acc s
        = focusEventHandler_while call_closure (acc @ [fn]) s1" by simp
    with Cons(1)[OF q, of "acc @ [fn]"] show ?thesis by simp
  qed
qed

lemma focusEventHandler_ends: "focusEventHandler call_closure s \<noteq> None"
  using focusEventHandler_while_ends[of "[]" s] by (auto simp: focusEventHandler_def)

lemma onRemoteClipboardChanged_frame:
  "lastClientClipboardItems (onRemoteClipboardChanged newClipboardItem d s)
     = lastClientClipboardItems s"
  "sentToRemote (onRemoteClipboardChanged newClipboardItem d s) = sentToRemote s"
  "lastSentClipboardData (onRemoteClipboardChanged newClipboardItem d s) = lastSentClipboardData s"
  by (auto simp: onRemoteClipboardChanged_def runWhenWindowFocused_def Let_def
      split: option.splits outcome.splits prod.splits)

lemma handle_event_frame:
  "lastClientClipboardItems (handle_event newClipboardItem ev s) = lastClientClipboardItems s"
  "sentToRemote (handle_event newClipboardItem ev s) = sentToRemote s"
  "lastSentClipboardData (handle_event newClipboardItem ev s) = lastSentClipboardData s"
  by (cases ev; auto simp: handle_event_def onRemoteClipboardChanged_frame
      dest: focusEventHandler_frame split: option.splits)+

lemma handle_events_frame:
  "lastClientClipboardItems (foldl (\<lambda>s ev. handle_event newClipboardItem ev s) s evs)
     = lastClientClipboardItems s
   \<and> sentToRemote (foldl (\<lambda>s ev. handle_event newClipboardItem ev s) s evs) = sentToRemote s
   \<and> lastSentClipboardData (foldl (\<lambda>s ev. handle_event newClipboardItem ev s) s evs)
       = lastSentClipboardData s"
  by (induction evs arbitrary: s) (simp_all add: handle_event_frame)

lemma at_await_frame:
  "lastClientClipboardItems (fst (at_await env sa)) = lastClientClipboardItems (fst sa)"
  "sentToRemote (fst (at_await env sa)) = sentToRemote (fst sa)"
  "lastSentClipboardData (fst (at_await env sa)) = lastSentClipboardData (fst sa)"
  by (simp_all add: at_await_def handle_events_frame split: list.splits)

lemma at_await_quiet: "snd sa = [] \<Longrightarrow> at_await env sa = sa"
  by (simp add: at_await_def)

text \<open>One round of the loop behind its \<^verbatim>\<open>await\<close>s.\<close>

lemma compare_kind_frame:
  "sentToRemote (fst (compare_kind kind v st)) = sentToRemote (fst st)"
  "lastSentClipboardData (fst (compare_kind kind v st)) = lastSentClipboardData (fst st)"
  "lastReceivedClipboardData (fst (compare_kind kind v st)) = lastReceivedClipboardData (fst st)"
  by (simp_all add: compare_kind_def Let_def split: option.splits)

lemma compare_kind_trace:
  "snd (compare_kind kind v (s, same)) \<longleftrightarrow>
     same \<and> \<not> flagged \<lparr>kind_compared = kind, value_read = v,
                        snapshot_entry = map_of (lastClientClipboardItems s) kind,
                        received_entry = map_of (lastReceivedClipboardData s) kind\<rparr>"
  by (simp add: compare_kind_def flagged_def Let_def split: option.splits)

lemma compare_kind_client:
  "lastClientClipboardItems (fst (compare_kind kind v (s, same))) =
     (if adopted \<lparr>kind_compared = kind, value_read = v,
                  snapshot_entry = map_of (lastClientClipboardItems s) kind,
                  received_entry = map_of (lastReceivedClipboardData s) kind\<rparr>
      then AList.update kind (the (map_of (lastReceivedClipboardData s) kind))
             (lastClientClipboardItems s)
      else lastClientClipboardItems s)"
  by (auto simp: compare_kind_def adopted_def Let_def dest: is_equal_Some split: option.splits)

lemma for_each_kind_reject:
  "getType item kind = Rejects err \<Longrightarrow>
   for_each_kind env item (kind # kinds) (sa, vals, same, cmp)
     = (Some err, at_await env sa, vals, same, cmp)"
  by (simp add: Let_def)

lemma for_each_kind_step:
  "getType item kind = Resolves b \<Longrightarrow>
   for_each_kind env item (kind # kinds) (sa, vals, same, cmp) =
     for_each_kind env item kinds
       ((fst (compare_kind kind (decode kind b) (fst (at_await env (at_await env sa)), same)),
         snd (at_await env (at_await env sa))),
        AList.update kind (decode kind b) vals,
        snd (compare_kind kind (decode kind b) (fst (at_await env (at_await env sa)), same)),
        cmp @ [\<lparr>kind_compared = kind, value_read = decode kind b,
                 snapshot_entry =
                   map_of (lastClientClipboardItems (fst (at_await env (at_await env sa)))) kind,
                 received_entry =
                   map_of (lastReceivedClipboardData (fst (at_await env (at_await env sa)))) kind\<rparr>])"
  by (simp add: Let_def)

text \<open>
  The loop, whatever is handled at its \<^verbatim>\<open>await\<close>s: it sends nothing itself; it extends the
  trace by one comparison for each kind it gets to, with the value read for that kind; and
  \<^verbatim>\<open>sameValue\<close> stays set exactly when no comparison is flagged.
\<close>

lemma for_each_kind_frame:
  "for_each_kind env item kinds (sa, vals, same, cmp) = (e, sa', vals', same', cmp') \<Longrightarrow>
   sentToRemote (fst sa') = sentToRemote (fst sa)
   \<and> lastSentClipboardData (fst sa') = lastSentClipboardData (fst sa)"
proof (induction kinds arbitrary: sa vals same cmp)
  case Nil
  then show ?case by simp
next
  case (Cons kind kinds)
  show ?case
  proof (cases "getType item kind")
    case (Rejects err)
    with Cons.prems show ?thesis by (auto simp: for_each_kind_reject at_await_frame)
  next
    case (Resolves b)
    from Cons.prems have "for_each_kind env item kinds
       ((fst (compare_kind kind (decode kind b) (fst (at_await env (at_await env sa)), same)),
         snd (at_await env (at_await env sa))),
        AList.update kind (decode kind b) vals,
        snd (compare_kind kind (decode kind b) (fst (at_await env (at_await env sa)), same)),
        cmp @ [\<lparr>kind_compared = kind, value_read = decode kind b,
                 snapshot_entry =
                   map_of (lastClientClipboardItems (fst (at_await env (at_await env sa)))) kind,
                 received_entry =
                   map_of (lastReceivedClipboardData (fst (at_await env (at_await env sa)))) kind\<rparr>])
       = (e, sa', vals', same', cmp')"
      by (simp only: for_each_kind_step[OF Resolves])
    from Cons.IH[OF this] show ?thesis
      by (simp add: compare_kind_frame at_await_frame)
  qed
qed

lemma for_each_kind_trace:
  "for_each_kind env item kinds (sa, vals, same, cmp) = (e, sa', vals', same', cmp') \<Longrightarrow>
   \<exists>new. cmp' = cmp @ new
     \<and> (same' \<longleftrightarrow> same \<and> (\<forall>c\<in>set new. \<not> flagged c))
     \<and> (\<forall>c\<in>set new. kind_compared c \<in> set kinds
           \<and> (\<exists>b. getType item (kind_compared c) = Resolves b
                 \<and> value_read c = decode (kind_compared c) b))
     \<and> (e = None \<longrightarrow> map kind_compared new = kinds)"
proof (induction kinds arbitrary: sa vals same cmp)
  case Nil
  then show ?case by simp
next
  case (Cons kind kinds)
  show ?case
  proof (cases "getType item kind")
    case (Rejects err)
    with Cons.prems have "cmp' = cmp" "same' = same" "e = Some err"
      by (simp_all add: for_each_kind_reject)
    then show ?thesis by (intro exI[of _ "[]"]) simp
  next
    case (Resolves b)
    let ?s2 = "fst (at_await env (at_await env sa))"
    let ?c = "\<lparr>kind_compared = kind, value_read = decode kind b,
                 snapshot_entry = map_of (lastClientClipboardItems ?s2) kind,
                 received_entry = map_of (lastReceivedClipboardData ?s2) kind\<rparr>"
    from Cons.prems have "for_each_kind env item kinds
       ((fst (compare_kind kind (decode kind b) (?s2, same)),
         snd (at_await env (at_await env sa))),
        AList.update kind (decode kind b) vals,
        snd (compare_kind kind (decode kind b) (?s2, same)),
        cmp @ [?c])
       = (e, sa', vals', same', cmp')"
      by (simp only: for_each_kind_step[OF Resolves])
    from Cons.IH[OF this] obtain new where
      h: "cmp' = (cmp @ [?c]) @ new
        \<and> (same' \<longleftrightarrow> snd (compare_kind kind (decode kind b) (?s2, same))
                \<and> (\<forall>c\<in>set new. \<not> flagged c))
        \<and> (\<forall>c\<in>set new. kind_compared c \<in> set kinds
           \<and> (\<exists>b. getType item (kind_compared c) = Resolves b
                 \<and> value_read c = decode (kind_compared c) b))
        \<and> (e = None \<longrightarrow> map kind_compared new = kinds)"
      by (rule exE)
    note n = h[THEN conjunct1]
    note s = h[THEN conjunct2, THEN conjunct1]
    note k = h[THEN conjunct2, THEN conjunct2, THEN conjunct1]
    note m = h[THEN conjunct2, THEN conjunct2, THEN conjunct2]
    show ?thesis
    proof (intro exI[of _ "?c # new"] conjI)
      show "cmp' = cmp @ (?c # new)" using n by simp
      show "same' \<longleftrightarrow> same \<and> (\<forall>c\<in>set (?c # new). \<not> flagged c)"
        using s by (simp add: compare_kind_trace)
      show "\<forall>c\<in>set (?c # new). kind_compared c \<in> set (kind # kinds)
           \<and> (\<exists>b. getType item (kind_compared c) = Resolves b
                 \<and> value_read c = decode (kind_compared c) b)"
        using k Resolves by simp
      show "e = None \<longrightarrow> map kind_compared (?c # new) = kind # kinds"
        using m by simp
    qed
  qed
qed

lemma for_each_kind_vals:
  "for_each_kind env item kinds (sa, vals, same, cmp) = (None, sa', vals', same', cmp') \<Longrightarrow>
   vals' = foldl (\<lambda>vals kind.
              (case getType item kind of
                 Resolves b \<Rightarrow> AList.update kind (decode kind b) vals
               | Rejects err \<Rightarrow> vals)) vals kinds"
proof (induction kinds arbitrary: sa vals same cmp)
  case Nil
  then show ?case by simp
next
  case (Cons kind kinds)
  show ?case
  proof (cases "getType item kind")
    case (Rejects err)
    with Cons.prems show ?thesis by (simp add: for_each_kind_reject)
  next
    case (Resolves b)
    from Cons.prems have "for_each_kind env item kinds
       ((fst (compare_kind kind (decode kind b) (fst (at_await env (at_await env sa)), same)),
         snd (at_await env (at_await env sa))),
        AList.update kind (decode kind b) vals,
        snd (compare_kind kind (decode kind b) (fst (at_await env (at_await env sa)), same)),
        cmp @ [\<lparr>kind_compared = kind, value_read = decode kind b,
                 snapshot_entry =
                   map_of (lastClientClipboardItems (fst (at_await env (at_await env sa)))) kind,
                 received_entry =
                   map_of (lastReceivedClipboardData (fst (at_await env (at_await env sa)))) kind\<rparr>])
       = (None, sa', vals', same', cmp')"
      by (simp only: for_each_kind_step[OF Resolves])
    from Cons.IH[OF this] Resolves show ?thesis by simp
  qed
qed


text \<open>
  The snapshot after the loop, key by key: a key reads as before, or a comparison of that kind
  was adopted and the key holds the received entry of that comparison, which equals the value
  read. And a kind whose comparison was adopted holds that entry when the loop ends.
\<close>

lemma for_each_kind_client:
  "for_each_kind env item kinds (sa, vals, same, cmp) = (e, sa', vals', same', cmp') \<Longrightarrow>
   map_of (lastClientClipboardItems (fst sa')) k = map_of (lastClientClipboardItems (fst sa)) k
   \<or> (\<exists>c\<in>set (drop (length cmp) cmp'). kind_compared c = k \<and> adopted c
         \<and> \<not> is_equal (prefix ''text/'' k) (map_of (lastClientClipboardItems (fst sa)) k)
               (value_read c)
         \<and> map_of (lastClientClipboardItems (fst sa')) k = received_entry c)"
proof (induction kinds arbitrary: sa vals same cmp)
  case Nil
  then show ?case by simp
next
  case (Cons kind kinds)
  show ?case
  proof (cases "getType item kind")
    case (Rejects err)
    with Cons.prems have "sa' = at_await env sa" by (simp add: for_each_kind_reject)
    then show ?thesis by (simp add: at_await_frame)
  next
    case (Resolves b)
    let ?s2 = "fst (at_await env (at_await env sa))"
    let ?c = "\<lparr>kind_compared = kind, value_read = decode kind b,
                 snapshot_entry = map_of (lastClientClipboardItems ?s2) kind,
                 received_entry = map_of (lastReceivedClipboardData ?s2) kind\<rparr>"
    let ?s3 = "fst (compare_kind kind (decode kind b) (?s2, same))"
    have c2: "lastClientClipboardItems ?s2 = lastClientClipboardItems (fst sa)"
      by (simp add: at_await_frame)
    from Cons.prems have run: "for_each_kind env item kinds
       ((?s3, snd (at_await env (at_await env sa))),
        AList.update kind (decode kind b) vals,
        snd (compare_kind kind (decode kind b) (?s2, same)),
        cmp @ [?c])
       = (e, sa', vals', same', cmp')"
      by (simp only: for_each_kind_step[OF Resolves])
    from for_each_kind_trace[OF run] obtain new where
      h: "cmp' = (cmp @ [?c]) @ new
        \<and> (same' \<longleftrightarrow> snd (compare_kind kind (decode kind b) (?s2, same))
                \<and> (\<forall>c\<in>set new. \<not> flagged c))
        \<and> (\<forall>c\<in>set new. kind_compared c \<in> set kinds
           \<and> (\<exists>b. getType item (kind_compared c) = Resolves b
                 \<and> value_read c = decode (kind_compared c) b))
        \<and> (e = None \<longrightarrow> map kind_compared new = kinds)"
      by (rule exE)
    note n = h[THEN conjunct1]
    note vr = h[THEN conjunct2, THEN conjunct2, THEN conjunct1]
    have d: "drop (length cmp) cmp' = ?c # new" "drop (length (cmp @ [?c])) cmp' = new"
      using n by simp_all
    have ih: "map_of (lastClientClipboardItems (fst sa')) k = map_of (lastClientClipboardItems ?s3) k
       \<or> (\<exists>c\<in>set new. kind_compared c = k \<and> adopted c
             \<and> \<not> is_equal (prefix ''text/'' k) (map_of (lastClientClipboardItems ?s3) k)
                   (value_read c)
             \<and> map_of (lastClientClipboardItems (fst sa')) k = received_entry c)"
      using Cons.IH[OF run] by (simp only: d(2) fst_conv)
    show ?thesis
    proof (cases "adopted ?c \<and> k = kind")
      case False
      have same_k: "map_of (lastClientClipboardItems ?s3) k = map_of (lastClientClipboardItems (fst sa)) k"
      proof (cases "adopted ?c")
        case True
        with False have "k \<noteq> kind" by simp
        with True show ?thesis by (simp add: compare_kind_client c2 map_of_update)
      next
        case nad: False
        then show ?thesis by (simp add: compare_kind_client c2)
      qed
      from ih show ?thesis
      proof
        assume "map_of (lastClientClipboardItems (fst sa')) k = map_of (lastClientClipboardItems ?s3) k"
        with same_k show ?thesis by simp
      next
        assume "\<exists>c\<in>set new. kind_compared c = k \<and> adopted c
             \<and> \<not> is_equal (prefix ''text/'' k) (map_of (lastClientClipboardItems ?s3) k)
                   (value_read c)
             \<and> map_of (lastClientClipboardItems (fst sa')) k = received_entry c"
        then obtain c where "c \<in> set new" and "kind_compared c = k \<and> adopted c
             \<and> \<not> is_equal (prefix ''text/'' k) (map_of (lastClientClipboardItems ?s3) k)
                   (value_read c)
             \<and> map_of (lastClientClipboardItems (fst sa')) k = received_entry c"
          by (rule bexE)
        with same_k have "c \<in> set (?c # new)" and "kind_compared c = k \<and> adopted c
             \<and> \<not> is_equal (prefix ''text/'' k) (map_of (lastClientClipboardItems (fst sa)) k)
                   (value_read c)
             \<and> map_of (lastClientClipboardItems (fst sa')) k = received_entry c"
          by simp_all
        then show ?thesis unfolding d(1) by (intro disjI2 bexI)
      qed
    next
      case True
      then have ad: "adopted ?c" and kk: "k = kind" by simp_all
      from ad have eq: "map_of (lastReceivedClipboardData ?s2) kind = Some (decode kind b)"
        and ne: "\<not> is_equal (prefix ''text/'' kind)
                   (map_of (lastClientClipboardItems (fst sa)) kind) (decode kind b)"
        by (simp_all add: adopted_def is_equal_decode c2)
      have s3: "map_of (lastClientClipboardItems ?s3) kind = Some (decode kind b)"
        using ad eq by (simp add: compare_kind_client map_of_update)
      have stays: "map_of (lastClientClipboardItems (fst sa')) k = map_of (lastClientClipboardItems ?s3) k"
        using ih
      proof
        assume "\<exists>c\<in>set new. kind_compared c = k \<and> adopted c
             \<and> \<not> is_equal (prefix ''text/'' k) (map_of (lastClientClipboardItems ?s3) k)
                   (value_read c)
             \<and> map_of (lastClientClipboardItems (fst sa')) k = received_entry c"
        then obtain c where c: "c \<in> set new" and c': "kind_compared c = k \<and> adopted c
             \<and> \<not> is_equal (prefix ''text/'' k) (map_of (lastClientClipboardItems ?s3) k)
                   (value_read c)
             \<and> map_of (lastClientClipboardItems (fst sa')) k = received_entry c"
          by (rule bexE)
        from vr c have "\<exists>b. getType item (kind_compared c) = Resolves b
                 \<and> value_read c = decode (kind_compared c) b" by simp
        with c' kk Resolves have "value_read c = decode kind b" by auto
        with c' kk s3 have False by (simp add: is_equal_decode)
        then show ?thesis ..
      qed
      have "?c \<in> set (?c # new)" by simp
      moreover have "kind_compared ?c = k \<and> adopted ?c
         \<and> \<not> is_equal (prefix ''text/'' k) (map_of (lastClientClipboardItems (fst sa)) k)
               (value_read ?c)
         \<and> map_of (lastClientClipboardItems (fst sa')) k = received_entry ?c"
        using ad kk ne stays s3 eq by simp
      ultimately show ?thesis unfolding d(1) by (intro disjI2 bexI)
    qed
  qed
qed


text \<open>
  The loop when nothing is handled at its \<^verbatim>\<open>await\<close>s: the received record is the one of the
  state the loop starts in, and the loop changes nothing but the snapshot.
\<close>

lemma compare_kind_quiet:
  "getType item kind = Resolves b \<Longrightarrow>
   compare_kind kind (decode kind b) (s, same) =
     (s\<lparr>lastClientClipboardItems :=
          (if adopts item (lastReceivedClipboardData s) (lastClientClipboardItems s) kind
           then AList.update kind (the (map_of (lastReceivedClipboardData s) kind))
                  (lastClientClipboardItems s)
           else lastClientClipboardItems s)\<rparr>,
      same \<and> \<not> flags item (lastReceivedClipboardData s) (lastClientClipboardItems s) kind)"
  by (auto simp: compare_kind_def adopts_def flags_def Let_def dest: is_equal_Some
      split: option.splits)

lemma quiet_step:
  "getType item kind = Resolves b \<Longrightarrow>
   for_each_kind env item (kind # kinds) ((s, []), vals, same, cmp) =
     for_each_kind env item kinds
       ((s\<lparr>lastClientClipboardItems :=
            (if adopts item (lastReceivedClipboardData s) (lastClientClipboardItems s) kind
             then AList.update kind (the (map_of (lastReceivedClipboardData s) kind))
                    (lastClientClipboardItems s)
             else lastClientClipboardItems s)\<rparr>, []),
        AList.update kind (decode kind b) vals,
        same \<and> \<not> flags item (lastReceivedClipboardData s) (lastClientClipboardItems s) kind,
        cmp @ [\<lparr>kind_compared = kind, value_read = decode kind b,
                 snapshot_entry = map_of (lastClientClipboardItems s) kind,
                 received_entry = map_of (lastReceivedClipboardData s) kind\<rparr>])"
  by (simp only: for_each_kind_step at_await_quiet snd_conv fst_conv compare_kind_quiet)


lemma adopts_update_other:
  "k \<noteq> kind \<Longrightarrow> adopts item received (AList.update kind r client) k = adopts item received client k"
  by (auto simp: adopts_def map_of_update split: promised.splits)


lemma quiet_client:
  "for_each_kind env item kinds ((s, []), vals, same, cmp) = (e, sa', vals', same', cmp') \<Longrightarrow>
   map_of (lastClientClipboardItems (fst sa')) k = map_of (lastClientClipboardItems s) k
   \<or> (k \<in> set kinds
       \<and> adopts item (lastReceivedClipboardData s) (lastClientClipboardItems s) k
       \<and> map_of (lastClientClipboardItems (fst sa')) k = map_of (lastReceivedClipboardData s) k)"
proof (induction kinds arbitrary: s vals same cmp)
  case Nil
  then show ?case by auto
next
  case (Cons kind kinds)
  show ?case
  proof (cases "getType item kind")
    case (Rejects err)
    with Cons.prems have "sa' = (s, [])" by (simp add: for_each_kind_reject at_await_quiet)
    then show ?thesis by simp
  next
    case (Resolves b)
    let ?received = "lastReceivedClipboardData s"
    let ?client = "lastClientClipboardItems s"
    let ?client1 = "if adopts item ?received ?client kind
        then AList.update kind (the (map_of ?received kind)) ?client else ?client"
    let ?s1 = "s\<lparr>lastClientClipboardItems := ?client1\<rparr>"
    from Cons.prems
    have run: "for_each_kind env item kinds
            ((?s1, []), AList.update kind (decode kind b) vals,
             same \<and> \<not> flags item ?received ?client kind,
             cmp @ [\<lparr>kind_compared = kind, value_read = decode kind b,
                 snapshot_entry = map_of ?client kind,
                 received_entry = map_of ?received kind\<rparr>])
           = (e, sa', vals', same', cmp')"
      by (simp only: quiet_step[OF Resolves])
    have ih: "map_of (lastClientClipboardItems (fst sa')) k = map_of ?client1 k
       \<or> (k \<in> set kinds \<and> adopts item ?received ?client1 k
           \<and> map_of (lastClientClipboardItems (fst sa')) k = map_of ?received k)"
      using Cons.IH[OF run] by simp
    show ?thesis
    proof (cases "adopts item ?received ?client kind")
      case False
      with ih show ?thesis by auto
    next
      case True
      then obtain r where r: "map_of ?received kind = Some r"
        by (auto simp: adopts_def dest: is_equal_Some split: promised.splits)
      show ?thesis
      proof (cases "k = kind")
        case same_key: True
        from ih True r same_key show ?thesis
          by (auto simp: map_of_update)
      next
        case other: False
        from ih True r other show ?thesis
          by (auto simp: map_of_update adopts_update_other)
      qed
    qed
  qed
qed


text \<open>The run of \<^verbatim>\<open>onMonitorClipboard\<close> around the loop.\<close>

lemma monitor_catch_fields:
  "lastClientClipboardItems (monitor_catch (e, s)) = lastClientClipboardItems s"
  "sentToRemote (monitor_catch (e, s)) = sentToRemote s"
  "lastSentClipboardData (monitor_catch (e, s)) = lastSentClipboardData s"
  by (simp_all add: monitor_catch_def Let_def split: option.splits thrown.splits)

lemma onMonitorClipboard_fields:
  "lastClientClipboardItems (fst (onMonitorClipboard env s))
     = lastClientClipboardItems (fst (snd (monitor_try env s)))"
  "sentToRemote (fst (onMonitorClipboard env s)) = sentToRemote (fst (snd (monitor_try env s)))"
  "comparisons env s = snd (snd (monitor_try env s))"
  by (simp_all add: onMonitorClipboard_def comparisons_def Let_def monitor_catch_fields)

lemma monitor_try_skip:
  assumes "\<not> hasFocus s \<or> (\<exists>err. clipboard_read env = Rejects err) \<or> clipboard_read env = Resolves []
   \<or> (\<exists>item others. clipboard_read env = Resolves (item # others)
        \<and> \<not> list_ex (\<lambda>t. prefix ''text/'' t \<or> prefix ''image/png'' t) (types item))"
  shows "lastClientClipboardItems (fst (snd (monitor_try env s))) = lastClientClipboardItems s"
    and "sentToRemote (fst (snd (monitor_try env s))) = sentToRemote s"
    and "snd (snd (monitor_try env s)) = []"
  using assms at_await_frame(1,2)[of env "(s, meanwhile env)"]
  by (auto simp: monitor_try_def Let_def)

lemma monitor_try_loop:
  assumes "hasFocus s" and "clipboard_read env = Resolves (item # others)"
    and "list_ex (\<lambda>t. prefix ''text/'' t \<or> prefix ''image/png'' t) (types item)"
    and "for_each_kind env item (types item) (at_await env (s, meanwhile env), [], True, [])
           = (e, sa2, vals, sameValue, compared)"
  shows "snd (snd (monitor_try env s)) = compared"
    and "sameValue \<or> e \<noteq> None \<Longrightarrow>
           lastClientClipboardItems (fst (snd (monitor_try env s))) = lastClientClipboardItems (fst sa2)
         \<and> sentToRemote (fst (snd (monitor_try env s))) = sentToRemote s"
    and "\<not> sameValue \<Longrightarrow> e = None \<Longrightarrow>
           lastClientClipboardItems (fst (snd (monitor_try env s))) = vals"
proof -
  obtain s1 later where a: "at_await env (s, meanwhile env) = (s1, later)"
    by (cases "at_await env (s, meanwhile env)")
  from at_await_frame(2)[of env "(s, meanwhile env)"] a
  have s1: "sentToRemote s1 = sentToRemote s" by simp
  from for_each_kind_frame[OF assms(4)[unfolded a]] s1
  have sent: "sentToRemote (fst sa2) = sentToRemote s" by simp
  have u: "monitor_try env s =
     (case e of
        Some err \<Rightarrow> (Some err, fst sa2, compared)
      | None \<Rightarrow>
          if sameValue then (None, fst sa2, compared)
          else
            (let s3 = (fst sa2)\<lparr>lastClientClipboardItems := vals\<rparr>;
                 clipboardData = buildClipboardData vals
             in if isEmpty clipboardData then (None, s3, compared)
                else
                  (let s4 = s3\<lparr>lastSentClipboardData := Some (ClipboardData clipboardData),
                               sentToRemote := sentToRemote s3 @ [ClipboardData clipboardData]\<rparr>;
                       sa5 = at_await env (s4, snd sa2)
                   in case onClipboardChanged_result env of
                        Resolves u \<Rightarrow> (None, fst sa5, compared)
                      | Rejects err \<Rightarrow> (Some err, fst sa5, compared))))"
    using assms(1-3) by (simp add: monitor_try_def assms(4) Let_def split: option.splits)
  show "snd (snd (monitor_try env s)) = compared"
    by (cases e; cases sameValue; simp add: u Let_def split: promised.splits)
  show "sameValue \<or> e \<noteq> None \<Longrightarrow>
           lastClientClipboardItems (fst (snd (monitor_try env s))) = lastClientClipboardItems (fst sa2)
         \<and> sentToRemote (fst (snd (monitor_try env s))) = sentToRemote s"
    using sent by (cases e; cases sameValue; simp add: u)
  show "\<not> sameValue \<Longrightarrow> e = None \<Longrightarrow>
           lastClientClipboardItems (fst (snd (monitor_try env s))) = vals"
    by (simp add: u Let_def at_await_frame split: promised.splits)
qed

text \<open>The example states are reached from the initial state of the component.\<close>

lemma stale_html_state_reached:
  "onRemoteClipboardChanged construct b_data (fst (onMonitorClipboard rich_a_read sync_initial))
     = stale_html_state"
  by code_simp

lemma after_remote_hello_reached:
  "onRemoteClipboardChanged construct hello_data (fst (onMonitorClipboard plain_a_read sync_initial))
     = after_remote_hello"
  by code_simp

lemma hello_unwritten_reached:
  "foldl (\<lambda>s ev. handle_event construct ev s)
     (fst (onMonitorClipboard plain_a_read sync_initial))
     [Document_focus False, Remote_clipboard_changed hello_data, Document_focus True]
     = hello_unwritten"
  by code_simp

lemma toRecord_same: "clipboardDataToRecord d = clipboardDataToClipboardItemsRecord d"
  by (simp add: clipboardDataToRecord_def clipboardDataToClipboardItemsRecord_def)

text \<open>
  C2, as the claim states it, fails. The window has no focus, the last received record holds
  the plain text b, and the remote module reports the plain text hello. When the callback has
  returned, \<^verbatim>\<open>lastReceivedClipboardData\<close> still holds b: the assignment is inside the closure,
  which has only been queued.
\<close>

theorem onRemoteClipboardChanged_defers_recording:
  "clipboardDataToClipboardItemsRecord hello_data = Some [(''text/plain'', Text ''hello'')]
   \<and> lastReceivedClipboardData
        (onRemoteClipboardChanged construct hello_data (stale_html_state\<lparr>hasFocus := False\<rparr>))
       = [(''text/plain'', Text ''b'')]
   \<and> runWhenFocusedQueue
        (onRemoteClipboardChanged construct hello_data (stale_html_state\<lparr>hasFocus := False\<rparr>))
       = [WriteToClipboard hello_data [(''text/plain'', Text ''hello'')]]"
  by (simp add: onRemoteClipboardChanged_def runWhenWindowFocused_def hello_data_def
      stale_html_state_def clipboardDataToRecord_def clipboardDataToClipboardItemsRecord_def
      construct_def)

text \<open>
  C2, amended. On the standard inbound path the converted snapshot is recorded into
  \<^verbatim>\<open>lastReceivedClipboardData\<close> by the focus-gated action itself, immediately before that
  action issues the platform write. If the document has focus when
  \<^verbatim>\<open>onRemoteClipboardChanged\<close> runs, both happen at once, inside the callback. If it has not,
  the callback only queues the action and \<^verbatim>\<open>lastReceivedClipboardData\<close> keeps its old value;
  a polling tick in this state returns at once and compares nothing; and the snapshot is
  recorded when the focus handler drains the queue: after that drain it is the snapshot of
  this payload. (Here the payload's items can be read and the platform makes
  the \<^verbatim>\<open>ClipboardItem\<close>; the actions already queued return.)
\<close>

theorem onRemoteClipboardChanged_records_at_write:
  assumes conv: "clipboardDataToClipboardItemsRecord d = Some r"
    and made: "newClipboardItem r = Some clipboard_item"
  shows "(hasFocus s \<longrightarrow>
            lastReceivedClipboardData (onRemoteClipboardChanged newClipboardItem d s) = r
          \<and> clipboardWritten (onRemoteClipboardChanged newClipboardItem d s)
              = clipboardWritten s @ [clipboard_item])
       \<and> (\<not> hasFocus s \<longrightarrow>
            lastReceivedClipboardData (onRemoteClipboardChanged newClipboardItem d s)
              = lastReceivedClipboardData s
          \<and> clipboardWritten (onRemoteClipboardChanged newClipboardItem d s) = clipboardWritten s
          \<and> runWhenFocusedQueue (onRemoteClipboardChanged newClipboardItem d s)
              = runWhenFocusedQueue s @ [WriteToClipboard d clipboard_item]
          \<and> (\<forall>env. fst (onMonitorClipboard env (onRemoteClipboardChanged newClipboardItem d s))
                    = onRemoteClipboardChanged newClipboardItem d s)
          \<and> ((\<forall>c\<in>set (runWhenFocusedQueue s). ends_with call_closure c Returned) \<longrightarrow>
               (\<exists>s'. focusEventHandler call_closure
                         ((onRemoteClipboardChanged newClipboardItem d s)\<lparr>hasFocus := True\<rparr>)
                       = Some (Returned, s',
                           runWhenFocusedQueue s @ [WriteToClipboard d clipboard_item])
                    \<and> lastReceivedClipboardData s' = r)))"
proof -
  from conv have rec: "clipboardDataToRecord d = Some r" by (simp add: toRecord_same)
  have focused: "lastReceivedClipboardData (onRemoteClipboardChanged newClipboardItem d s) = r
          \<and> clipboardWritten (onRemoteClipboardChanged newClipboardItem d s)
              = clipboardWritten s @ [clipboard_item]"
    if "hasFocus s"
    using that conv rec made
    by (simp add: onRemoteClipboardChanged_def runWhenWindowFocused_def Let_def)
  have queued: "onRemoteClipboardChanged newClipboardItem d s
      = s\<lparr>runWhenFocusedQueue := runWhenFocusedQueue s @ [WriteToClipboard d clipboard_item]\<rparr>"
    if "\<not> hasFocus s"
    using that rec made
    by (simp add: onRemoteClipboardChanged_def runWhenWindowFocused_def Let_def)
  have idle_tick: "fst (onMonitorClipboard env (onRemoteClipboardChanged newClipboardItem d s))
                    = onRemoteClipboardChanged newClipboardItem d s"
    if nf: "\<not> hasFocus s" for env
    using queued[OF nf] nf
    by (simp add: onMonitorClipboard_def monitor_try_def monitor_catch_def Let_def)
  have drained: "\<exists>s'. focusEventHandler call_closure
                         ((onRemoteClipboardChanged newClipboardItem d s)\<lparr>hasFocus := True\<rparr>)
                       = Some (Returned, s',
                           runWhenFocusedQueue s @ [WriteToClipboard d clipboard_item])
                    \<and> lastReceivedClipboardData s' = r"
    if nf: "\<not> hasFocus s"
      and quiet: "\<forall>c\<in>set (runWhenFocusedQueue s). ends_with call_closure c Returned"
  proof -
    let ?t = "(onRemoteClipboardChanged newClipboardItem d s)\<lparr>hasFocus := True\<rparr>"
    let ?c = "WriteToClipboard d clipboard_item"
    have q: "runWhenFocusedQueue ?t = runWhenFocusedQueue s @ [?c]"
      using queued[OF nf] by simp
    from while_quiet_prefix[OF quiet q, of "[]"]
    obtain s1 where d1: "focusEventHandler_while call_closure [] ?t
          = focusEventHandler_while call_closure (runWhenFocusedQueue s) s1"
      and q1: "runWhenFocusedQueue s1 = [?c]" by auto
    let ?s2 = "s1\<lparr>runWhenFocusedQueue := [], lastReceivedClipboardData := r,
                   clipboardWritten := clipboardWritten s1 @ [clipboard_item]\<rparr>"
    have c2: "call_closure ?c (s1\<lparr>runWhenFocusedQueue := []\<rparr>) = (Returned, ?s2)"
      using conv by simp
    have "focusEventHandler_while call_closure (runWhenFocusedQueue s) s1
        = focusEventHandler_while call_closure (runWhenFocusedQueue s @ [?c]) ?s2"
      using while_returned[of s1 ?c "[]" call_closure ?s2 "runWhenFocusedQueue s"] q1 c2 by simp
    also have "\<dots> = Some (Returned, ?s2, runWhenFocusedQueue s @ [?c])"
      by (rule while_empty) simp
    finally show ?thesis using d1 by (auto simp: focusEventHandler_def)
  qed
  from focused queued idle_tick drained show ?thesis by auto
qed

text \<open>
  The amended C2 at concrete inputs: the payload hello arrives once with focus, and once
  without focus while an earlier write (of world) is still queued.
\<close>

theorem onRemoteClipboardChanged_records_at_write_witness:
  "clipboardDataToClipboardItemsRecord hello_data = Some [(''text/plain'', Text ''hello'')]
   \<and> construct [(''text/plain'', Text ''hello'')] = Some [(''text/plain'', Text ''hello'')]
   \<and> hasFocus after_remote_hello
   \<and> lastReceivedClipboardData (onRemoteClipboardChanged construct hello_data after_remote_hello)
       = [(''text/plain'', Text ''hello'')]
   \<and> \<not> hasFocus (stale_html_state\<lparr>hasFocus := False,
          runWhenFocusedQueue := [WriteToClipboard world_data [(''text/plain'', Text ''world'')]]\<rparr>)
   \<and> ends_with call_closure (WriteToClipboard world_data [(''text/plain'', Text ''world'')]) Returned
   \<and> lastReceivedClipboardData (onRemoteClipboardChanged construct hello_data
         (stale_html_state\<lparr>hasFocus := False,
          runWhenFocusedQueue := [WriteToClipboard world_data [(''text/plain'', Text ''world'')]]\<rparr>))
       = [(''text/plain'', Text ''b'')]
   \<and> (\<exists>s'. focusEventHandler call_closure ((onRemoteClipboardChanged construct hello_data
         (stale_html_state\<lparr>hasFocus := False,
          runWhenFocusedQueue := [WriteToClipboard world_data [(''text/plain'', Text ''world'')]]\<rparr>))
           \<lparr>hasFocus := True\<rparr>)
         = Some (Returned, s',
             [WriteToClipboard world_data [(''text/plain'', Text ''world'')],
              WriteToClipboard hello_data [(''text/plain'', Text ''hello'')]])
        \<and> lastReceivedClipboardData s' = [(''text/plain'', Text ''hello'')])"
proof -
  let ?u = "stale_html_state\<lparr>hasFocus := False,
          runWhenFocusedQueue := [WriteToClipboard world_data [(''text/plain'', Text ''world'')]]\<rparr>"
  have conv: "clipboardDataToClipboardItemsRecord hello_data = Some [(''text/plain'', Text ''hello'')]"
    by (simp add: clipboardDataToClipboardItemsRecord_def hello_data_def)
  have made: "construct [(''text/plain'', Text ''hello'')] = Some [(''text/plain'', Text ''hello'')]"
    by (simp add: construct_def)
  have f: "hasFocus after_remote_hello" by (simp add: after_remote_hello_def)
  have nf: "\<not> hasFocus ?u" by simp
  have quiet: "ends_with call_closure (WriteToClipboard world_data [(''text/plain'', Text ''world'')]) Returned"
    by (simp add: ends_with_def clipboardDataToClipboardItemsRecord_def world_data_def)
  have q: "runWhenFocusedQueue ?u = [WriteToClipboard world_data [(''text/plain'', Text ''world'')]]"
    by simp
  have old: "lastReceivedClipboardData ?u = [(''text/plain'', Text ''b'')]"
    by (simp add: stale_html_state_def)
  from onRemoteClipboardChanged_records_at_write[where newClipboardItem=construct and s=after_remote_hello, OF conv made] f
  have a: "lastReceivedClipboardData (onRemoteClipboardChanged construct hello_data after_remote_hello)
       = [(''text/plain'', Text ''hello'')]" by blast
  from onRemoteClipboardChanged_records_at_write[where newClipboardItem=construct and s="?u", OF conv made] nf quiet q old
  have b: "lastReceivedClipboardData (onRemoteClipboardChanged construct hello_data ?u)
        = [(''text/plain'', Text ''b'')]
     \<and> (\<exists>s'. focusEventHandler call_closure
           ((onRemoteClipboardChanged construct hello_data ?u)\<lparr>hasFocus := True\<rparr>)
         = Some (Returned, s',
             [WriteToClipboard world_data [(''text/plain'', Text ''world'')],
              WriteToClipboard hello_data [(''text/plain'', Text ''hello'')]])
        \<and> lastReceivedClipboardData s' = [(''text/plain'', Text ''hello'')])"
    by simp
  from conv made f a nf quiet b show ?thesis by blast
qed

lemma monitor_skip_cases:
  assumes "\<not> (\<exists>item others. hasFocus s \<and> clipboard_read env = Resolves (item # others)
              \<and> list_ex P (types item))"
  shows "\<not> hasFocus s \<or> (\<exists>err. clipboard_read env = Rejects err) \<or> clipboard_read env = Resolves []
     \<or> (\<exists>item others. clipboard_read env = Resolves (item # others) \<and> \<not> list_ex P (types item))"
proof (cases "clipboard_read env")
  case (Rejects err)
  then show ?thesis by simp
next
  case (Resolves v)
  show ?thesis
  proof (cases v)
    case Nil
    with Resolves show ?thesis by simp
  next
    case (Cons item others)
    with Resolves assms show ?thesis by simp
  qed
qed







text \<open>
  The client snapshot after a run: the complete record of the values read, or the old snapshot
  changed at kinds whose comparison was adopted.
\<close>

lemma snapshot_after_run:
  "(\<exists>item others. clipboard_read env = Resolves (item # others)
      \<and> lastClientClipboardItems (fst (onMonitorClipboard env s)) = observed_values item)
   \<or> (\<forall>k. map_of (lastClientClipboardItems (fst (onMonitorClipboard env s))) k
            = map_of (lastClientClipboardItems s) k
          \<or> (\<exists>c\<in>set (comparisons env s). kind_compared c = k \<and> adopted c
               \<and> \<not> is_equal (prefix ''text/'' k) (map_of (lastClientClipboardItems s) k)
                     (value_read c)
               \<and> map_of (lastClientClipboardItems (fst (onMonitorClipboard env s))) k
                   = received_entry c))"
proof (cases "\<exists>item others. hasFocus s \<and> clipboard_read env = Resolves (item # others)
                \<and> list_ex (\<lambda>t. prefix ''text/'' t \<or> prefix ''image/png'' t) (types item)")
  case False
  from monitor_try_skip(1)[OF monitor_skip_cases[OF False]] show ?thesis
    by (simp add: onMonitorClipboard_fields)
next
  case True
  then obtain item others where f: "hasFocus s"
    and rd: "clipboard_read env = Resolves (item # others)"
    and el: "list_ex (\<lambda>t. prefix ''text/'' t \<or> prefix ''image/png'' t) (types item)" by blast
  obtain s1 later where a: "at_await env (s, meanwhile env) = (s1, later)"
    by (cases "at_await env (s, meanwhile env)")
  from at_await_frame(1)[of env "(s, meanwhile env)"] a
  have s1: "lastClientClipboardItems s1 = lastClientClipboardItems s" by simp
  obtain e sa2 vals sameValue compared where
    loop: "for_each_kind env item (types item) ((s1, later), [], True, [])
             = (e, sa2, vals, sameValue, compared)"
    by (cases "for_each_kind env item (types item) ((s1, later), [], True, [])") auto
  note l = monitor_try_loop[OF f rd el loop[folded a]]
  have cmp: "comparisons env s = compared"
    using l(1) by (simp add: onMonitorClipboard_fields)
  show ?thesis
  proof (cases "sameValue \<or> e \<noteq> None")
    case True
    from l(2)[OF True]
    have c: "lastClientClipboardItems (fst (onMonitorClipboard env s)) = lastClientClipboardItems (fst sa2)"
      by (simp add: onMonitorClipboard_fields)
    have "map_of (lastClientClipboardItems (fst sa2)) k = map_of (lastClientClipboardItems s) k
       \<or> (\<exists>c\<in>set compared. kind_compared c = k \<and> adopted c
             \<and> \<not> is_equal (prefix ''text/'' k) (map_of (lastClientClipboardItems s) k)
                   (value_read c)
             \<and> map_of (lastClientClipboardItems (fst sa2)) k = received_entry c)" for k
      using for_each_kind_client[OF loop, of k] s1 by simp
    then have "\<forall>k. map_of (lastClientClipboardItems (fst sa2)) k = map_of (lastClientClipboardItems s) k
       \<or> (\<exists>c\<in>set compared. kind_compared c = k \<and> adopted c
             \<and> \<not> is_equal (prefix ''text/'' k) (map_of (lastClientClipboardItems s) k)
                   (value_read c)
             \<and> map_of (lastClientClipboardItems (fst sa2)) k = received_entry c)"
      by (rule allI)
    then show ?thesis unfolding c cmp by (rule disjI2)
  next
    case False
    then have ns: "\<not> sameValue" and en: "e = None" by auto
    from l(3)[OF ns en]
    have "lastClientClipboardItems (fst (onMonitorClipboard env s)) = vals"
      by (simp add: onMonitorClipboard_fields)
    moreover from for_each_kind_vals[OF loop[unfolded en]]
    have "vals = observed_values item" by (simp add: observed_values_def)
    ultimately show ?thesis using rd by auto
  qed
qed

lemma quiet_snapshot_after_run:
  assumes q: "meanwhile env = []"
  shows "(\<exists>item others. clipboard_read env = Resolves (item # others)
      \<and> lastClientClipboardItems (fst (onMonitorClipboard env s)) = observed_values item)
   \<or> (\<forall>k. map_of (lastClientClipboardItems (fst (onMonitorClipboard env s))) k
            = map_of (lastClientClipboardItems s) k
          \<or> (\<exists>item others. clipboard_read env = Resolves (item # others)
               \<and> k \<in> set (types item)
               \<and> adopts item (lastReceivedClipboardData s) (lastClientClipboardItems s) k
               \<and> map_of (lastClientClipboardItems (fst (onMonitorClipboard env s))) k
                   = map_of (lastReceivedClipboardData s) k))"
proof (cases "\<exists>item others. hasFocus s \<and> clipboard_read env = Resolves (item # others)
                \<and> list_ex (\<lambda>t. prefix ''text/'' t \<or> prefix ''image/png'' t) (types item)")
  case False
  from monitor_try_skip(1)[OF monitor_skip_cases[OF False]] show ?thesis
    by (simp add: onMonitorClipboard_fields)
next
  case True
  then obtain item others where f: "hasFocus s"
    and rd: "clipboard_read env = Resolves (item # others)"
    and el: "list_ex (\<lambda>t. prefix ''text/'' t \<or> prefix ''image/png'' t) (types item)" by blast
  have a: "at_await env (s, meanwhile env) = (s, [])"
    using q by (simp add: at_await_quiet)
  obtain e sa2 vals sameValue compared where
    loop: "for_each_kind env item (types item) ((s, []), [], True, [])
             = (e, sa2, vals, sameValue, compared)"
    by (cases "for_each_kind env item (types item) ((s, []), [], True, [])") auto
  note l = monitor_try_loop[OF f rd el loop[folded a]]
  show ?thesis
  proof (cases "sameValue \<or> e \<noteq> None")
    case True
    from l(2)[OF True]
    have c: "lastClientClipboardItems (fst (onMonitorClipboard env s)) = lastClientClipboardItems (fst sa2)"
      by (simp add: onMonitorClipboard_fields)
    have "map_of (lastClientClipboardItems (fst sa2)) k = map_of (lastClientClipboardItems s) k
          \<or> (k \<in> set (types item)
               \<and> adopts item (lastReceivedClipboardData s) (lastClientClipboardItems s) k
               \<and> map_of (lastClientClipboardItems (fst sa2)) k = map_of (lastReceivedClipboardData s) k)" for k
      using quiet_client[OF loop, of k] .
    with c rd show ?thesis by auto
  next
    case False
    then have ns: "\<not> sameValue" and en: "e = None" by auto
    from l(3)[OF ns en]
    have "lastClientClipboardItems (fst (onMonitorClipboard env s)) = vals"
      by (simp add: onMonitorClipboard_fields)
    moreover from for_each_kind_vals[OF loop[unfolded en]]
    have "vals = observed_values item" by (simp add: observed_values_def)
    ultimately show ?thesis using rd by auto
  qed
qed

text \<open>
  C4, as the claim states it, fails. The snapshot holds the plain text a and the HTML text of
  an earlier copy; the remote side has sent the plain text b, which is now on the local
  clipboard as its only representation. The run reads b, finds it equal to the received value
  and stores it under \<^verbatim>\<open>text/plain\<close>; no change is flagged, so the snapshot is not replaced.
  Afterwards the snapshot is neither the old one nor the record of the values read: one of its
  two keys has been updated.
\<close>

theorem onMonitorClipboard_partial_update:
  "lastClientClipboardItems stale_html_state
     = [(''text/plain'', Text ''a''), (''text/html'', Text ''<b>a</b>'')]
   \<and> clipboard_read plain_b_read = Resolves [plain_b_item]
   \<and> observed_values plain_b_item = [(''text/plain'', Text ''b'')]
   \<and> lastClientClipboardItems (fst (onMonitorClipboard plain_b_read stale_html_state))
     = [(''text/plain'', Text ''b''), (''text/html'', Text ''<b>a</b>'')]"
  by code_simp

text \<open>
  C4, amended. After a run of the polling loop the client snapshot is either the complete
  record of the values just read (when a kind was flagged as changed), or the old snapshot
  changed at most at kinds of the entry read whose value differed from the snapshot and equalled
  the last received value; at those kinds it holds the received value, and every other key
  reads as before. The last received value is the entry of \<^verbatim>\<open>lastReceivedClipboardData\<close> the
  value was compared with: the entry of the state the run starts in when nothing is handled at
  the \<^verbatim>\<open>await\<close>s of the run, and in every case the received entry of an adopted comparison
  of the trace.
\<close>

theorem onMonitorClipboard_snapshot_update:
  "((\<exists>item others. clipboard_read env = Resolves (item # others)
       \<and> lastClientClipboardItems (fst (onMonitorClipboard env s)) = observed_values item)
    \<or> (\<forall>k. map_of (lastClientClipboardItems (fst (onMonitorClipboard env s))) k
             = map_of (lastClientClipboardItems s) k
           \<or> (\<exists>c\<in>set (comparisons env s). kind_compared c = k \<and> adopted c
                \<and> \<not> is_equal (prefix ''text/'' k) (map_of (lastClientClipboardItems s) k)
                      (value_read c)
                \<and> map_of (lastClientClipboardItems (fst (onMonitorClipboard env s))) k
                    = received_entry c)))
   \<and> (meanwhile env = [] \<longrightarrow>
        (\<exists>item others. clipboard_read env = Resolves (item # others)
           \<and> lastClientClipboardItems (fst (onMonitorClipboard env s)) = observed_values item)
        \<or> (\<forall>k. map_of (lastClientClipboardItems (fst (onMonitorClipboard env s))) k
                 = map_of (lastClientClipboardItems s) k
               \<or> (\<exists>item others. clipboard_read env = Resolves (item # others)
                    \<and> k \<in> set (types item)
                    \<and> adopts item (lastReceivedClipboardData s) (lastClientClipboardItems s) k
                    \<and> map_of (lastClientClipboardItems (fst (onMonitorClipboard env s))) k
                        = map_of (lastReceivedClipboardData s) k)))"
proof (rule conjI)
  show "(\<exists>item others. clipboard_read env = Resolves (item # others)
       \<and> lastClientClipboardItems (fst (onMonitorClipboard env s)) = observed_values item)
    \<or> (\<forall>k. map_of (lastClientClipboardItems (fst (onMonitorClipboard env s))) k
             = map_of (lastClientClipboardItems s) k
           \<or> (\<exists>c\<in>set (comparisons env s). kind_compared c = k \<and> adopted c
                \<and> \<not> is_equal (prefix ''text/'' k) (map_of (lastClientClipboardItems s) k)
                      (value_read c)
                \<and> map_of (lastClientClipboardItems (fst (onMonitorClipboard env s))) k
                    = received_entry c))"
    by (rule snapshot_after_run)
  show "meanwhile env = [] \<longrightarrow>
        (\<exists>item others. clipboard_read env = Resolves (item # others)
           \<and> lastClientClipboardItems (fst (onMonitorClipboard env s)) = observed_values item)
        \<or> (\<forall>k. map_of (lastClientClipboardItems (fst (onMonitorClipboard env s))) k
                 = map_of (lastClientClipboardItems s) k
               \<or> (\<exists>item others. clipboard_read env = Resolves (item # others)
                    \<and> k \<in> set (types item)
                    \<and> adopts item (lastReceivedClipboardData s) (lastClientClipboardItems s) k
                    \<and> map_of (lastClientClipboardItems (fst (onMonitorClipboard env s))) k
                        = map_of (lastReceivedClipboardData s) k))"
    by (rule impI) (rule quiet_snapshot_after_run)
qed

text \<open>
  The amended C4 at the input of the counterexample, where nothing is handled at the
  \<^verbatim>\<open>await\<close>s: the snapshot is not the record of the values read, so it is the old snapshot
  changed at adopted kinds; \<^verbatim>\<open>text/plain\<close> holds the received value b and \<^verbatim>\<open>text/html\<close>
  reads as before.
\<close>

theorem onMonitorClipboard_snapshot_update_witness:
  "meanwhile plain_b_read = []
   \<and> clipboard_read plain_b_read = Resolves [plain_b_item]
   \<and> lastClientClipboardItems (fst (onMonitorClipboard plain_b_read stale_html_state))
       \<noteq> observed_values plain_b_item
   \<and> (\<forall>k. map_of (lastClientClipboardItems (fst (onMonitorClipboard plain_b_read stale_html_state))) k
             = map_of (lastClientClipboardItems stale_html_state) k
           \<or> (k \<in> set (types plain_b_item)
                \<and> adopts plain_b_item (lastReceivedClipboardData stale_html_state)
                     (lastClientClipboardItems stale_html_state) k
                \<and> map_of (lastClientClipboardItems
                           (fst (onMonitorClipboard plain_b_read stale_html_state))) k
                    = map_of (lastReceivedClipboardData stale_html_state) k))
   \<and> adopts plain_b_item (lastReceivedClipboardData stale_html_state)
        (lastClientClipboardItems stale_html_state) ''text/plain''
   \<and> map_of (lastClientClipboardItems (fst (onMonitorClipboard plain_b_read stale_html_state)))
        ''text/plain'' = Some (Text ''b'')
   \<and> map_of (lastClientClipboardItems (fst (onMonitorClipboard plain_b_read stale_html_state)))
        ''text/html'' = Some (Text ''<b>a</b>'')"
proof -
  have q: "meanwhile plain_b_read = []"
    and rd: "clipboard_read plain_b_read = Resolves [plain_b_item]"
    by (simp_all add: plain_b_read_def)
  have ne: "lastClientClipboardItems (fst (onMonitorClipboard plain_b_read stale_html_state))
       \<noteq> observed_values plain_b_item"
    by code_simp
  have ad: "adopts plain_b_item (lastReceivedClipboardData stale_html_state)
        (lastClientClipboardItems stale_html_state) ''text/plain''"
    by code_simp
  have v: "map_of (lastClientClipboardItems (fst (onMonitorClipboard plain_b_read stale_html_state)))
        ''text/plain'' = Some (Text ''b'')"
    "map_of (lastClientClipboardItems (fst (onMonitorClipboard plain_b_read stale_html_state)))
        ''text/html'' = Some (Text ''<b>a</b>'')"
    by code_simp+
  note t = onMonitorClipboard_snapshot_update[of plain_b_read stale_html_state,
      THEN conjunct2, THEN mp, OF q]
  from t rd ne
  have "\<forall>k. map_of (lastClientClipboardItems (fst (onMonitorClipboard plain_b_read stale_html_state))) k
             = map_of (lastClientClipboardItems stale_html_state) k
           \<or> (k \<in> set (types plain_b_item)
                \<and> adopts plain_b_item (lastReceivedClipboardData stale_html_state)
                     (lastClientClipboardItems stale_html_state) k
                \<and> map_of (lastClientClipboardItems
                           (fst (onMonitorClipboard plain_b_read stale_html_state))) k
                    = map_of (lastReceivedClipboardData stale_html_state) k)"
    by auto
  with q rd ne ad v show ?thesis by simp
qed

subsection \<open>Properties of the paste handler\<close>

lemma paste_for_each_le1: "length (paste_for_each clipItems) \<le> 1"
  by (induction clipItems)
    (auto simp: Let_def split: option.splits promised.splits)

lemma paste_for_each_skip:
  "\<forall>x\<in>set pre. passed_over x \<Longrightarrow> paste_for_each (pre @ rest) = paste_for_each rest"
  by (induction pre) (auto simp: passed_over_def Let_def)

text \<open>
  C6, as the claim states it, fails. The paste event carries an image item with a file and,
  behind it, a text item. The loop reaches the image item first, sets up the read of its file
  and breaks: the image is sent, although a text item exists on the payload, and the text item
  is not sent.
\<close>

theorem ffOnPasteHandler_image_before_text:
  "sentOnPaste (ffOnPasteHandler firefox_115 (Some [png_item, abc_item]))
     = [ClipboardData [ClipboardItem ''image/png'' (Binary [137, 80, 78, 71])]]"
  using firefox_115_isFirefox
  by (simp add: ffOnPasteHandler_def png_item_def abc_item_def addBinary_def isEmpty_def)

text \<open>
  What the loop sends, in full. If every item is passed over, nothing is sent. Otherwise the
  first item that is not passed over decides, and the items behind it are never looked at.
\<close>

lemma paste_for_each_none:
  "\<forall>x\<in>set clipItems. passed_over x \<Longrightarrow> paste_for_each clipItems = []"
  using paste_for_each_skip[of clipItems "[]"] by simp

lemma paste_for_each_first:
  assumes "\<forall>x\<in>set pre. passed_over x" and "\<not> passed_over clipItem"
  shows "paste_for_each (pre @ clipItem # post) =
     (if prefix ''text/'' (item_mime clipItem) then
        (case getAsString clipItem of
           None \<Rightarrow> []
         | Some str \<Rightarrow> [ClipboardData [ClipboardItem (item_mime clipItem) (Text str)]])
      else
        (case getAsFile clipItem of
           Some (Resolves buffer) \<Rightarrow>
             [ClipboardData [ClipboardItem (item_mime clipItem) (Binary buffer)]]
         | _ \<Rightarrow> []))"
proof -
  have "paste_for_each (pre @ clipItem # post) = paste_for_each (clipItem # post)"
    using assms(1) by (rule paste_for_each_skip)
  also have "\<dots> =
     (if prefix ''text/'' (item_mime clipItem) then
        (case getAsString clipItem of
           None \<Rightarrow> []
         | Some str \<Rightarrow> [ClipboardData [ClipboardItem (item_mime clipItem) (Text str)]])
      else
        (case getAsFile clipItem of
           Some (Resolves buffer) \<Rightarrow>
             [ClipboardData [ClipboardItem (item_mime clipItem) (Binary buffer)]]
         | _ \<Rightarrow> []))"
    using assms(2)
    by (auto simp: passed_over_def Let_def addText_def addBinary_def isEmpty_def
        split: option.splits promised.splits)
  finally show ?thesis .
qed

lemma paste_for_each_sent:
  assumes "d \<in> set (paste_for_each clipItems)"
  shows "\<exists>pre clipItem post. clipItems = pre @ clipItem # post
      \<and> (\<forall>x\<in>set pre. passed_over x) \<and> \<not> passed_over clipItem
      \<and> ((prefix ''text/'' (item_mime clipItem)
           \<and> (\<exists>str. getAsString clipItem = Some str
                \<and> d = ClipboardData [ClipboardItem (item_mime clipItem) (Text str)]))
         \<or> (\<not> prefix ''text/'' (item_mime clipItem) \<and> prefix ''image/'' (item_mime clipItem)
           \<and> (\<exists>buffer. getAsFile clipItem = Some (Resolves buffer)
                \<and> d = ClipboardData [ClipboardItem (item_mime clipItem) (Binary buffer)])))"
proof (cases "\<forall>x\<in>set clipItems. passed_over x")
  case True
  from paste_for_each_none[OF True] assms show ?thesis by simp
next
  case False
  then have "\<exists>x\<in>set clipItems. \<not> passed_over x" by blast
  from split_list_first_prop[OF this]
  obtain pre clipItem post where s: "clipItems = pre @ clipItem # post"
    and e: "\<not> passed_over clipItem" and p: "\<forall>x\<in>set pre. \<not> \<not> passed_over x"
    by blast
  from p have p': "\<forall>x\<in>set pre. passed_over x" by simp
  note f = paste_for_each_first[OF p' e, of post]
  show ?thesis
  proof (cases "prefix ''text/'' (item_mime clipItem)")
    case True
    with f assms s obtain str where "getAsString clipItem = Some str"
      and "d = ClipboardData [ClipboardItem (item_mime clipItem) (Text str)]"
      by (auto split: option.splits)
    with s p' e True show ?thesis by blast
  next
    case False
    with e have img: "prefix ''image/'' (item_mime clipItem)"
      by (auto simp: passed_over_def)
    from False f assms s obtain buffer where "getAsFile clipItem = Some (Resolves buffer)"
      and "d = ClipboardData [ClipboardItem (item_mime clipItem) (Binary buffer)]"
      by (auto split: option.splits promised.splits)
    with s p' e False img show ?thesis by blast
  qed
qed

text \<open>
  C6, amended. For every paste event the handler prevents default handling and forwards at most
  one item to the remote module; outside degraded mode it forwards nothing. In degraded mode the
  items of the event payload are taken in order, and the first one that is either a text item
  or an image item with a file decides alone; the items before it are passed over and the items
  behind it are not looked at. If it is a text item whose string is delivered, that string is
  sent as a single-entry clipboard-data object; if its string is not delivered, nothing is sent.
  If it is an image item, its bytes are read asynchronously and sent as a single-entry object;
  if the read fails, nothing is sent. If the event has no payload, or no item of the payload is
  a text item or an image item with a file, nothing is sent. So an image is sent only if no text
  item comes before it on the payload, a text item is sent only if neither a text item nor an
  image item with a file comes before it, and nothing but such a single-entry object is ever
  sent.
\<close>

theorem ffOnPasteHandler_forwards_first_eligible:
  "defaultPrevented (ffOnPasteHandler nav evt)
   \<and> length (sentOnPaste (ffOnPasteHandler nav evt)) \<le> 1
   \<and> (\<not> isFirefox nav \<longrightarrow> sentOnPaste (ffOnPasteHandler nav evt) = [])
   \<and> (isFirefox nav \<longrightarrow>
        (evt = None \<longrightarrow> sentOnPaste (ffOnPasteHandler nav evt) = [])
      \<and> (\<forall>clipItems. evt = Some clipItems \<and> (\<forall>x\<in>set clipItems. passed_over x) \<longrightarrow>
           sentOnPaste (ffOnPasteHandler nav evt) = [])
      \<and> (\<forall>pre clipItem post.
           evt = Some (pre @ clipItem # post) \<and> (\<forall>x\<in>set pre. passed_over x)
           \<and> \<not> passed_over clipItem \<longrightarrow>
           sentOnPaste (ffOnPasteHandler nav evt) =
             (if prefix ''text/'' (item_mime clipItem) then
                (case getAsString clipItem of
                   None \<Rightarrow> []
                 | Some str \<Rightarrow> [ClipboardData [ClipboardItem (item_mime clipItem) (Text str)]])
              else
                (case getAsFile clipItem of
                   Some (Resolves buffer) \<Rightarrow>
                     [ClipboardData [ClipboardItem (item_mime clipItem) (Binary buffer)]]
                 | _ \<Rightarrow> []))))
   \<and> (\<forall>d\<in>set (sentOnPaste (ffOnPasteHandler nav evt)).
        \<exists>pre clipItem post. evt = Some (pre @ clipItem # post)
          \<and> (\<forall>x\<in>set pre. \<not> prefix ''text/'' (item_mime x))
          \<and> ((prefix ''text/'' (item_mime clipItem)
               \<and> (\<forall>x\<in>set pre. prefix ''image/'' (item_mime x) \<longrightarrow> getAsFile x = None)
               \<and> (\<exists>str. getAsString clipItem = Some str
                    \<and> d = ClipboardData [ClipboardItem (item_mime clipItem) (Text str)]))
             \<or> (\<not> prefix ''text/'' (item_mime clipItem) \<and> prefix ''image/'' (item_mime clipItem)
               \<and> (\<exists>buffer. getAsFile clipItem = Some (Resolves buffer)
                    \<and> d = ClipboardData [ClipboardItem (item_mime clipItem) (Binary buffer)]))))"
proof -
  let ?sent = "sentOnPaste (ffOnPasteHandler nav evt)"
  have a: "defaultPrevented (ffOnPasteHandler nav evt)"
    by (simp add: ffOnPasteHandler_def)
  have b: "length ?sent \<le> 1"
    using paste_for_each_le1 by (simp add: ffOnPasteHandler_def split: option.splits)
  have nf: "?sent = []" if "\<not> isFirefox nav"
    using that by (simp add: ffOnPasteHandler_def)
  have none: "?sent = []" if "isFirefox nav" and "evt = None"
    using that by (simp add: ffOnPasteHandler_def)
  have loop: "?sent = paste_for_each clipItems" if "isFirefox nav" and "evt = Some clipItems"
    for clipItems
    using that by (simp add: ffOnPasteHandler_def)
  have c: "?sent = []"
    if "isFirefox nav" and "evt = Some clipItems" and "\<forall>x\<in>set clipItems. passed_over x"
    for clipItems
    using loop[OF that(1,2)] paste_for_each_none[OF that(3)] by simp
  have d: "?sent =
             (if prefix ''text/'' (item_mime clipItem) then
                (case getAsString clipItem of
                   None \<Rightarrow> []
                 | Some str \<Rightarrow> [ClipboardData [ClipboardItem (item_mime clipItem) (Text str)]])
              else
                (case getAsFile clipItem of
                   Some (Resolves buffer) \<Rightarrow>
                     [ClipboardData [ClipboardItem (item_mime clipItem) (Binary buffer)]]
                 | _ \<Rightarrow> []))"
    if "isFirefox nav" and "evt = Some (pre @ clipItem # post)"
      and "\<forall>x\<in>set pre. passed_over x" and "\<not> passed_over clipItem"
    for pre clipItem post
    using loop[OF that(1,2)] paste_for_each_first[OF that(3,4), of post] by simp
  have e: "\<exists>pre clipItem post. evt = Some (pre @ clipItem # post)
          \<and> (\<forall>x\<in>set pre. \<not> prefix ''text/'' (item_mime x))
          \<and> ((prefix ''text/'' (item_mime clipItem)
               \<and> (\<forall>x\<in>set pre. prefix ''image/'' (item_mime x) \<longrightarrow> getAsFile x = None)
               \<and> (\<exists>str. getAsString clipItem = Some str
                    \<and> d = ClipboardData [ClipboardItem (item_mime clipItem) (Text str)]))
             \<or> (\<not> prefix ''text/'' (item_mime clipItem) \<and> prefix ''image/'' (item_mime clipItem)
               \<and> (\<exists>buffer. getAsFile clipItem = Some (Resolves buffer)
                    \<and> d = ClipboardData [ClipboardItem (item_mime clipItem) (Binary buffer)])))"
    if m: "d \<in> set ?sent" for d
  proof -
    have ff: "isFirefox nav"
    proof (rule ccontr)
      assume "\<not> isFirefox nav"
      from nf[OF this] m show False by simp
    qed
    have "evt \<noteq> None"
    proof
      assume "evt = None"
      from none[OF ff this] m show False by simp
    qed
    then obtain clipItems where ev: "evt = Some clipItems" by auto
    from m loop[OF ff ev] have "d \<in> set (paste_for_each clipItems)" by simp
    from paste_for_each_sent[OF this] obtain pre clipItem post where
      s: "clipItems = pre @ clipItem # post"
      and p: "\<forall>x\<in>set pre. passed_over x"
      and k: "(prefix ''text/'' (item_mime clipItem)
           \<and> (\<exists>str. getAsString clipItem = Some str
                \<and> d = ClipboardData [ClipboardItem (item_mime clipItem) (Text str)]))
         \<or> (\<not> prefix ''text/'' (item_mime clipItem) \<and> prefix ''image/'' (item_mime clipItem)
           \<and> (\<exists>buffer. getAsFile clipItem = Some (Resolves buffer)
                \<and> d = ClipboardData [ClipboardItem (item_mime clipItem) (Binary buffer)]))"
      by blast
    have nt: "\<forall>x\<in>set pre. \<not> prefix ''text/'' (item_mime x)"
      using p by (simp add: passed_over_def)
    have nofile: "\<forall>x\<in>set pre. prefix ''image/'' (item_mime x) \<longrightarrow> getAsFile x = None"
      using p by (simp add: passed_over_def)
    from s ev have split: "evt = Some (pre @ clipItem # post)" by simp
    show ?thesis
      by (intro exI[of _ pre] exI[of _ clipItem] exI[of _ post] conjI split nt)
        (use k nofile in blast)
  qed
  have cd: "(evt = None \<longrightarrow> ?sent = [])
      \<and> (\<forall>clipItems. evt = Some clipItems \<and> (\<forall>x\<in>set clipItems. passed_over x) \<longrightarrow> ?sent = [])
      \<and> (\<forall>pre clipItem post.
           evt = Some (pre @ clipItem # post) \<and> (\<forall>x\<in>set pre. passed_over x)
           \<and> \<not> passed_over clipItem \<longrightarrow>
           ?sent =
             (if prefix ''text/'' (item_mime clipItem) then
                (case getAsString clipItem of
                   None \<Rightarrow> []
                 | Some str \<Rightarrow> [ClipboardData [ClipboardItem (item_mime clipItem) (Text str)]])
              else
                (case getAsFile clipItem of
                   Some (Resolves buffer) \<Rightarrow>
                     [ClipboardData [ClipboardItem (item_mime clipItem) (Binary buffer)]]
                 | _ \<Rightarrow> [])))"
    if ff: "isFirefox nav"
  proof (intro conjI impI allI)
    assume "evt = None"
    then show "?sent = []" by (rule none[OF ff])
  next
    fix clipItems
    assume "evt = Some clipItems \<and> (\<forall>x\<in>set clipItems. passed_over x)"
    then have "evt = Some clipItems" and "\<forall>x\<in>set clipItems. passed_over x" by simp_all
    then show "?sent = []" by (rule c[OF ff])
  next
    fix pre clipItem post
    assume "evt = Some (pre @ clipItem # post) \<and> (\<forall>x\<in>set pre. passed_over x)
           \<and> \<not> passed_over clipItem"
    then have "evt = Some (pre @ clipItem # post)" and "\<forall>x\<in>set pre. passed_over x"
      and "\<not> passed_over clipItem" by simp_all
    then show "?sent =
             (if prefix ''text/'' (item_mime clipItem) then
                (case getAsString clipItem of
                   None \<Rightarrow> []
                 | Some str \<Rightarrow> [ClipboardData [ClipboardItem (item_mime clipItem) (Text str)]])
              else
                (case getAsFile clipItem of
                   Some (Resolves buffer) \<Rightarrow>
                     [ClipboardData [ClipboardItem (item_mime clipItem) (Binary buffer)]]
                 | _ \<Rightarrow> []))"
      by (rule d[OF ff])
  qed
  show ?thesis
  proof (intro conjI)
    show "defaultPrevented (ffOnPasteHandler nav evt)" by (rule a)
    show "length ?sent \<le> 1" by (rule b)
    show "\<not> isFirefox nav \<longrightarrow> ?sent = []" by (rule impI) (rule nf)
    show "isFirefox nav \<longrightarrow>
        (evt = None \<longrightarrow> ?sent = [])
      \<and> (\<forall>clipItems. evt = Some clipItems \<and> (\<forall>x\<in>set clipItems. passed_over x) \<longrightarrow> ?sent = [])
      \<and> (\<forall>pre clipItem post.
           evt = Some (pre @ clipItem # post) \<and> (\<forall>x\<in>set pre. passed_over x)
           \<and> \<not> passed_over clipItem \<longrightarrow>
           ?sent =
             (if prefix ''text/'' (item_mime clipItem) then
                (case getAsString clipItem of
                   None \<Rightarrow> []
                 | Some str \<Rightarrow> [ClipboardData [ClipboardItem (item_mime clipItem) (Text str)]])
              else
                (case getAsFile clipItem of
                   Some (Resolves buffer) \<Rightarrow>
                     [ClipboardData [ClipboardItem (item_mime clipItem) (Binary buffer)]]
                 | _ \<Rightarrow> [])))"
      by (rule impI) (rule cd)
    show "\<forall>d\<in>set ?sent.
        \<exists>pre clipItem post. evt = Some (pre @ clipItem # post)
          \<and> (\<forall>x\<in>set pre. \<not> prefix ''text/'' (item_mime x))
          \<and> ((prefix ''text/'' (item_mime clipItem)
               \<and> (\<forall>x\<in>set pre. prefix ''image/'' (item_mime x) \<longrightarrow> getAsFile x = None)
               \<and> (\<exists>str. getAsString clipItem = Some str
                    \<and> d = ClipboardData [ClipboardItem (item_mime clipItem) (Text str)]))
             \<or> (\<not> prefix ''text/'' (item_mime clipItem) \<and> prefix ''image/'' (item_mime clipItem)
               \<and> (\<exists>buffer. getAsFile clipItem = Some (Resolves buffer)
                    \<and> d = ClipboardData [ClipboardItem (item_mime clipItem) (Binary buffer)])))"
      by (rule ballI) (rule e)
  qed
qed

text \<open>
  The amended C6 at concrete inputs: a text item behind an item of another kind; an image item
  in front of a text item; a text item whose string is not delivered, in front of an image item;
  and a payload with no text or image item.
\<close>

theorem ffOnPasteHandler_forwards_first_eligible_witness:
  "isFirefox firefox_115
   \<and> passed_over opaque_item \<and> \<not> passed_over abc_item \<and> \<not> passed_over png_item
   \<and> \<not> passed_over file_named_item
   \<and> defaultPrevented (ffOnPasteHandler firefox_115 (Some ([opaque_item] @ abc_item # [png_item])))
   \<and> sentOnPaste (ffOnPasteHandler firefox_115 (Some ([opaque_item] @ abc_item # [png_item])))
       = [ClipboardData [ClipboardItem ''text/plain'' (Text ''abc'')]]
   \<and> sentOnPaste (ffOnPasteHandler firefox_115 (Some ([] @ png_item # [abc_item])))
       = [ClipboardData [ClipboardItem ''image/png'' (Binary [137, 80, 78, 71])]]
   \<and> sentOnPaste (ffOnPasteHandler firefox_115 (Some ([] @ file_named_item # [png_item]))) = []
   \<and> sentOnPaste (ffOnPasteHandler firefox_115 (Some [opaque_item])) = []
   \<and> sentOnPaste (ffOnPasteHandler legacy_chromium (Some [abc_item])) = []"
proof -
  have ff: "isFirefox firefox_115" by (rule firefox_115_isFirefox)
  have nff: "\<not> isFirefox legacy_chromium" by (rule legacy_chromium_not_Firefox)
  have po: "passed_over opaque_item" by (simp add: passed_over_def opaque_item_def)
  have el: "\<not> passed_over abc_item" "\<not> passed_over png_item" "\<not> passed_over file_named_item"
    by (simp_all add: passed_over_def abc_item_def png_item_def file_named_item_def)
  note t1 = ffOnPasteHandler_forwards_first_eligible[of firefox_115
      "Some ([opaque_item] @ abc_item # [png_item])"]
  note t2 = ffOnPasteHandler_forwards_first_eligible[of firefox_115
      "Some ([] @ png_item # [abc_item])"]
  note t3 = ffOnPasteHandler_forwards_first_eligible[of firefox_115
      "Some ([] @ file_named_item # [png_item])"]
  note t4 = ffOnPasteHandler_forwards_first_eligible[of firefox_115 "Some [opaque_item]"]
  note t5 = ffOnPasteHandler_forwards_first_eligible[of legacy_chromium "Some [abc_item]"]
  note first1 = t1[THEN conjunct2, THEN conjunct2, THEN conjunct2, THEN conjunct1, THEN mp,
      OF ff, THEN conjunct2, THEN conjunct2, THEN spec, THEN spec, THEN spec, THEN mp]
  note first2 = t2[THEN conjunct2, THEN conjunct2, THEN conjunct2, THEN conjunct1, THEN mp,
      OF ff, THEN conjunct2, THEN conjunct2, THEN spec, THEN spec, THEN spec, THEN mp]
  note first3 = t3[THEN conjunct2, THEN conjunct2, THEN conjunct2, THEN conjunct1, THEN mp,
      OF ff, THEN conjunct2, THEN conjunct2, THEN spec, THEN spec, THEN spec, THEN mp]
  note none4 = t4[THEN conjunct2, THEN conjunct2, THEN conjunct2, THEN conjunct1, THEN mp,
      OF ff, THEN conjunct2, THEN conjunct1, THEN spec, THEN mp]
  note other5 = t5[THEN conjunct2, THEN conjunct2, THEN conjunct1, THEN mp, OF nff]
  have a: "defaultPrevented (ffOnPasteHandler firefox_115 (Some ([opaque_item] @ abc_item # [png_item])))"
    by (rule t1[THEN conjunct1])
  have b: "sentOnPaste (ffOnPasteHandler firefox_115 (Some ([opaque_item] @ abc_item # [png_item])))
       = [ClipboardData [ClipboardItem ''text/plain'' (Text ''abc'')]]"
    using first1[of "[opaque_item]" abc_item "[png_item]"] po el(1)
    by (simp add: abc_item_def)
  have c: "sentOnPaste (ffOnPasteHandler firefox_115 (Some ([] @ png_item # [abc_item])))
       = [ClipboardData [ClipboardItem ''image/png'' (Binary [137, 80, 78, 71])]]"
    using first2[of "[]" png_item "[abc_item]"] el(2)
    by (simp add: png_item_def)
  have d: "sentOnPaste (ffOnPasteHandler firefox_115 (Some ([] @ file_named_item # [png_item]))) = []"
    using first3[of "[]" file_named_item "[png_item]"] el(3)
    by (simp add: file_named_item_def)
  have e: "sentOnPaste (ffOnPasteHandler firefox_115 (Some [opaque_item])) = []"
    using none4[of "[opaque_item]"] po by simp
  have f: "sentOnPaste (ffOnPasteHandler legacy_chromium (Some [abc_item])) = []"
    by (rule other5)
  from ff po el a b c d e f show ?thesis by simp
qed

subsection \<open>Properties of the Firefox bridge\<close>

lemma ffWait_pending:
  assumes "ffRemoteClipboardData s = Some d"
  shows "ffRemoteClipboardData (fst (ffWaitForRemoteClipboardDataSet s)) = None"
    and "snd (ffWaitForRemoteClipboardDataSet s) = []"
    and "length (textWritten (fst (ffWaitForRemoteClipboardDataSet s))) \<le> length (textWritten s) + 1"
    and "ffPostponeKeyboardEvents (fst (ffWaitForRemoteClipboardDataSet s)) = ffPostponeKeyboardEvents s"
  using assms
  by (auto simp: ffWaitForRemoteClipboardDataSet_def Let_def
      split: option.splits clip_value.splits)

lemma ffWait_no_text_plain:
  assumes "ffRemoteClipboardData s = Some d"
    and "case items d of None \<Rightarrow> True | Some its \<Rightarrow> \<forall>it\<in>set its. mimeType it \<noteq> ''text/plain''"
  shows "textWritten (fst (ffWaitForRemoteClipboardDataSet s)) = textWritten s"
  using assms
  by (auto simp: ffWaitForRemoteClipboardDataSet_def Let_def find_Some_iff
      split: option.splits clip_value.splits)

lemma ffWait_none:
  assumes "ffRemoteClipboardData s = None"
  shows "ffWaitForRemoteClipboardDataSet s =
     (if ffRemoteClipboardDataRetriesLeft s > 0 then
        (s\<lparr>ffRemoteClipboardDataRetriesLeft := ffRemoteClipboardDataRetriesLeft s - 1\<rparr>,
         [(Call_ffWaitForRemoteClipboardDataSet, FF_REMOTE_CLIPBOARD_DATA_SET_RETRY_INTERVAL)])
      else (s, []))"
  using assms by (simp add: ffWaitForRemoteClipboardDataSet_def)

lemma keyboardEvent_none_written:
  assumes "ffRemoteClipboardData s = None"
  shows "textWritten (fst (snd (keyboardEvent nav send evt s))) = textWritten s"
  using assms
  by (auto simp: keyboardEvent_def ffWait_none Let_def split: outcome.splits)

text \<open>
  C10. A firing of the retry-wait function that finds a payload pending clears the holder before
  it reads the payload's items: the holder is empty afterwards in every case, also when reading
  the items throws, and no further timer is scheduled. A payload without a \<^verbatim>\<open>text/plain\<close>
  item (or whose items cannot be read) is dropped without a clipboard write, and it is gone for
  every later gesture: whatever key event \<^verbatim>\<open>keyboardEvent\<close> handles next, nothing is written.
\<close>

theorem ffWait_consumes_pending_payload:
  assumes "ffRemoteClipboardData s = Some d"
  shows "ffRemoteClipboardData (fst (ffWaitForRemoteClipboardDataSet s)) = None
     \<and> snd (ffWaitForRemoteClipboardDataSet s) = []
     \<and> ((case items d of None \<Rightarrow> True | Some its \<Rightarrow> \<forall>it\<in>set its. mimeType it \<noteq> ''text/plain'') \<longrightarrow>
          textWritten (fst (ffWaitForRemoteClipboardDataSet s)) = textWritten s
        \<and> (\<forall>nav send evt.
             textWritten (fst (snd (keyboardEvent nav send evt (fst (ffWaitForRemoteClipboardDataSet s)))))
               = textWritten s))"
proof -
  note p = ffWait_pending[OF assms]
  have "textWritten (fst (snd (keyboardEvent nav send evt (fst (ffWaitForRemoteClipboardDataSet s)))))
               = textWritten (fst (ffWaitForRemoteClipboardDataSet s))" for nav send evt
    using keyboardEvent_none_written[OF p(1)] .
  with p(1,2) ffWait_no_text_plain[OF assms] show ?thesis by auto
qed

text \<open>C10 at a concrete input: the pending payload holds a PNG image only.\<close>

theorem ffWait_consumes_pending_payload_witness:
  "ffRemoteClipboardData ((component ff_idle)\<lparr>ffRemoteClipboardData := Some png_data\<rparr>)
     = Some png_data
   \<and> items png_data = Some [ClipboardItem ''image/png'' (Binary [137, 80, 78, 71])]
   \<and> mimeType (ClipboardItem ''image/png'' (Binary [137, 80, 78, 71])) \<noteq> ''text/plain''
   \<and> ffRemoteClipboardData (fst (ffWaitForRemoteClipboardDataSet
        ((component ff_idle)\<lparr>ffRemoteClipboardData := Some png_data\<rparr>))) = None
   \<and> snd (ffWaitForRemoteClipboardDataSet
        ((component ff_idle)\<lparr>ffRemoteClipboardData := Some png_data\<rparr>)) = []
   \<and> textWritten (fst (ffWaitForRemoteClipboardDataSet
        ((component ff_idle)\<lparr>ffRemoteClipboardData := Some png_data\<rparr>))) = []
   \<and> textWritten (fst (snd (keyboardEvent firefox_115 delivers ctrl_c
        (fst (ffWaitForRemoteClipboardDataSet
          ((component ff_idle)\<lparr>ffRemoteClipboardData := Some png_data\<rparr>)))))) = []"
proof -
  let ?s = "(component ff_idle)\<lparr>ffRemoteClipboardData := Some png_data\<rparr>"
  have p: "ffRemoteClipboardData ?s = Some png_data" by simp
  have its: "items png_data = Some [ClipboardItem ''image/png'' (Binary [137, 80, 78, 71])]"
    by (simp add: png_data_def)
  have m: "mimeType (ClipboardItem ''image/png'' (Binary [137, 80, 78, 71])) \<noteq> ''text/plain''"
    by simp
  have no_plain: "case items png_data of None \<Rightarrow> True
      | Some its \<Rightarrow> \<forall>it\<in>set its. mimeType it \<noteq> ''text/plain''"
    by (simp add: png_data_def)
  have w0: "textWritten ?s = []" by (simp add: ff_idle_def)
  from ffWait_consumes_pending_payload[OF p] no_plain w0
  have "ffRemoteClipboardData (fst (ffWaitForRemoteClipboardDataSet ?s)) = None
    \<and> snd (ffWaitForRemoteClipboardDataSet ?s) = []
    \<and> textWritten (fst (ffWaitForRemoteClipboardDataSet ?s)) = []
    \<and> textWritten (fst (snd (keyboardEvent firefox_115 delivers ctrl_c
          (fst (ffWaitForRemoteClipboardDataSet ?s))))) = []"
    by simp
  with p its m show ?thesis by simp
qed

lemma remove1_last: "x \<notin> set xs \<Longrightarrow> remove1 x (xs @ [x]) = xs"
  by (simp add: remove1_append)

lemma ff_run_append: "ff_run nav send (evs @ evs') S = ff_run nav send evs' (ff_run nav send evs S)"
  by (simp add: ff_run_def)

lemma ff_run_Cons: "ff_run nav send (ev # evs) S = ff_run nav send evs (ff_step nav send S ev)"
  by (simp add: ff_run_def)

lemma ff_run_Nil: "ff_run nav send [] S = S"
  by (simp add: ff_run_def)

lemma ff_run_snoc: "ff_run nav send (evs @ [ev]) S = ff_step nav send (ff_run nav send evs S) ev"
  by (simp add: ff_run_def)

text \<open>The copy gesture: the synchronous first call of the wait function.\<close>

lemma copy_gesture_none:
  assumes "isFirefox nav" "browserHasClipboardAccess nav" "isCopyKeyboardEvent evt"
    and "\<not> ffPostponeKeyboardEvents (component S)"
    and "ffRemoteClipboardData (component S) = None"
  shows "pending (ff_step nav send S (KeyEvent evt True)) = pending S @ [retry_timer (handled S)]"
    and "fired (ff_step nav send S (KeyEvent evt True)) = fired S"
    and "textWritten (component (ff_step nav send S (KeyEvent evt True))) = textWritten (component S)"
    and "ffRemoteClipboardData (component (ff_step nav send S (KeyEvent evt True))) = None"
    and "ffRemoteClipboardDataRetriesLeft (component (ff_step nav send S (KeyEvent evt True))) = 29"
  using assms
  by (auto simp: captureKeys_def keyboardEvent_def ffWait_none Let_def schedule_def retry_timer_def
      isPasteKeyboardEvent_def isCopyKeyboardEvent_def FF_REMOTE_CLIPBOARD_DATA_SET_MAX_RETRIES_def
      split: outcome.splits)

lemma copy_gesture_some:
  assumes "isFirefox nav" "browserHasClipboardAccess nav" "isCopyKeyboardEvent evt"
    and "\<not> ffPostponeKeyboardEvents (component S)"
    and "ffRemoteClipboardData (component S) = Some d"
  shows "pending (ff_step nav send S (KeyEvent evt True)) = pending S"
    and "ffRemoteClipboardData (component (ff_step nav send S (KeyEvent evt True))) = None"
    and "length (textWritten (component (ff_step nav send S (KeyEvent evt True))))
           \<le> length (textWritten (component S)) + 1"
proof -
  let ?s = "(component S)\<lparr>ffRemoteClipboardDataRetriesLeft := FF_REMOTE_CLIPBOARD_DATA_SET_MAX_RETRIES\<rparr>"
  have d: "ffRemoteClipboardData ?s = Some d" using assms(5) by simp
  note w = ffWait_pending[OF d]
  have np: "\<not> isPasteKeyboardEvent evt"
    using assms(3) by (auto simp: isPasteKeyboardEvent_def isCopyKeyboardEvent_def)
  obtain s1 ts where w1: "ffWaitForRemoteClipboardDataSet ?s = (s1, ts)"
    by (cases "ffWaitForRemoteClipboardDataSet ?s")
  with w have f: "ffRemoteClipboardData s1 = None" "ts = []"
    "length (textWritten s1) \<le> length (textWritten (component S)) + 1" by simp_all
  from assms(1-4) np w1 f
  show "pending (ff_step nav send S (KeyEvent evt True)) = pending S"
    and "ffRemoteClipboardData (component (ff_step nav send S (KeyEvent evt True))) = None"
    and "length (textWritten (component (ff_step nav send S (KeyEvent evt True))))
           \<le> length (textWritten (component S)) + 1"
    by (auto simp: captureKeys_def keyboardEvent_def Let_def schedule_def split: outcome.splits)
qed

text \<open>A firing of the chain's timer that finds nothing pending.\<close>

lemma retry_fires_none:
  assumes "ffRemoteClipboardData (component S) = None"
    and "pending S = P @ [retry_timer n]" and "retry_timer n \<notin> set P"
  shows "ffRemoteClipboardData (component (ff_step nav send S (TimerFires (retry_timer n)))) = None"
    and "textWritten (component (ff_step nav send S (TimerFires (retry_timer n)))) = textWritten (component S)"
    and "fired (ff_step nav send S (TimerFires (retry_timer n))) = fired S @ [retry_timer n]"
    and "ffRemoteClipboardDataRetriesLeft (component S) > 0 \<Longrightarrow>
           pending (ff_step nav send S (TimerFires (retry_timer n))) = P @ [retry_timer n]
         \<and> ffRemoteClipboardDataRetriesLeft (component (ff_step nav send S (TimerFires (retry_timer n))))
             = ffRemoteClipboardDataRetriesLeft (component S) - 1"
    and "ffRemoteClipboardDataRetriesLeft (component S) = 0 \<Longrightarrow>
           pending (ff_step nav send S (TimerFires (retry_timer n))) = P"
  using assms
  by (auto simp: retry_timer_def ffWait_none schedule_def remove1_append)

lemma retry_fires_some:
  assumes "ffRemoteClipboardData (component S) = Some d"
    and "pending S = P @ [retry_timer n]" and "retry_timer n \<notin> set P"
  shows "ffRemoteClipboardData (component (ff_step nav send S (TimerFires (retry_timer n)))) = None"
    and "length (textWritten (component (ff_step nav send S (TimerFires (retry_timer n)))))
           \<le> length (textWritten (component S)) + 1"
    and "fired (ff_step nav send S (TimerFires (retry_timer n))) = fired S @ [retry_timer n]"
    and "pending (ff_step nav send S (TimerFires (retry_timer n))) = P"
proof -
  obtain s1 ts where w1: "ffWaitForRemoteClipboardDataSet (component S) = (s1, ts)"
    by (cases "ffWaitForRemoteClipboardDataSet (component S)")
  with ffWait_pending[OF assms(1)] have f: "ffRemoteClipboardData s1 = None" "ts = []"
    "length (textWritten s1) \<le> length (textWritten (component S)) + 1" by simp_all
  from assms(2,3) w1 f
  show "ffRemoteClipboardData (component (ff_step nav send S (TimerFires (retry_timer n)))) = None"
    and "length (textWritten (component (ff_step nav send S (TimerFires (retry_timer n)))))
           \<le> length (textWritten (component S)) + 1"
    and "fired (ff_step nav send S (TimerFires (retry_timer n))) = fired S @ [retry_timer n]"
    and "pending (ff_step nav send S (TimerFires (retry_timer n))) = P"
    by (auto simp: retry_timer_def schedule_def remove1_append)
qed

text \<open>The chain after k firings that found nothing.\<close>

lemma retry_chain_waiting:
  assumes "ffRemoteClipboardData (component S) = None"
    and "pending S = P @ [retry_timer n]" and "retry_timer n \<notin> set P"
    and "k \<le> ffRemoteClipboardDataRetriesLeft (component S)"
  shows "ffRemoteClipboardData (component (ff_run nav send (replicate k (TimerFires (retry_timer n))) S)) = None
     \<and> pending (ff_run nav send (replicate k (TimerFires (retry_timer n))) S) = P @ [retry_timer n]
     \<and> textWritten (component (ff_run nav send (replicate k (TimerFires (retry_timer n))) S))
         = textWritten (component S)
     \<and> fired (ff_run nav send (replicate k (TimerFires (retry_timer n))) S)
         = fired S @ replicate k (retry_timer n)
     \<and> ffRemoteClipboardDataRetriesLeft (component (ff_run nav send (replicate k (TimerFires (retry_timer n))) S))
         = ffRemoteClipboardDataRetriesLeft (component S) - k"
  using assms(4)
proof (induction k)
  case 0
  with assms show ?case by (simp add: ff_run_Nil)
next
  case (Suc k)
  let ?R = "ff_run nav send (replicate k (TimerFires (retry_timer n))) S"
  from Suc have ih: "ffRemoteClipboardData (component ?R) = None"
    "pending ?R = P @ [retry_timer n]"
    "textWritten (component ?R) = textWritten (component S)"
    "fired ?R = fired S @ replicate k (retry_timer n)"
    "ffRemoteClipboardDataRetriesLeft (component ?R) = ffRemoteClipboardDataRetriesLeft (component S) - k"
    by simp_all
  have pos: "ffRemoteClipboardDataRetriesLeft (component ?R) > 0"
    using ih(5) Suc.prems by simp
  have run: "ff_run nav send (replicate (Suc k) (TimerFires (retry_timer n))) S
      = ff_step nav send ?R (TimerFires (retry_timer n))"
    using ff_run_snoc[of nav send "replicate k (TimerFires (retry_timer n))" "TimerFires (retry_timer n)" S]
    by (simp add: replicate_append_same)
  from retry_fires_none(1,2,3)[OF ih(1) ih(2) assms(3), of nav send]
    retry_fires_none(4)[OF ih(1) ih(2) assms(3) pos, of nav send] ih run
  show ?case by (simp add: replicate_append_same)
qed

text \<open>
  C7. The claim: a copy or cut gesture starts a retry-wait chain with a budget of 30, and when
  no remote payload ever becomes pending the chain ends after exactly 30 timer firings with
  nothing written (the comment at \<^verbatim>\<open>FF_REMOTE_CLIPBOARD_DATA_SET_MAX_RETRIES\<close> says the same:
  3 seconds, 100 ms times 30). The code does not do this at a single Ctrl+C. The \<^verbatim>\<open>keydown\<close>
  and the \<^verbatim>\<open>keyup\<close> of the gesture are both handled by \<^verbatim>\<open>captureKeys\<close>, and both are copy
  key events, so each starts a chain. The budget is the one variable
  \<^verbatim>\<open>ffRemoteClipboardDataRetriesLeft\<close>: the second key event resets it and both chains count
  it down. No payload arrives, the timers fire in the order they were set, and the chain of the
  second key event ends at its 15th firing, the chain of the first at its 16th: neither has 30
  firings, and the wait is over after about half of the 3 seconds. Nothing is written.
\<close>

theorem overlapping_retry_chains:
  "pending (ff_run firefox_115 delivers ctrl_c_down_and_up ff_idle) = [retry_timer 0]
   \<and> count_list (fired (ff_run firefox_115 delivers ctrl_c_down_and_up ff_idle)) (retry_timer 1) = 15
   \<and> pending (ff_run firefox_115 delivers (ctrl_c_down_and_up @ [TimerFires (retry_timer 0)]) ff_idle)
       = []
   \<and> count_list (fired (ff_run firefox_115 delivers
         (ctrl_c_down_and_up @ [TimerFires (retry_timer 0)]) ff_idle)) (retry_timer 0) = 16
   \<and> textWritten (component (ff_run firefox_115 delivers
         (ctrl_c_down_and_up @ [TimerFires (retry_timer 0)]) ff_idle)) = []"
  by code_simp

text \<open>
  A chain that runs alone does what the claim says. Here a copy or cut key event is followed
  by the firings of its own timer and by nothing else, but for the arrival of a payload. If no
  payload becomes pending, the chain's timer is pending again after each of the first 29
  firings and not after the 30th: the chain ends after exactly 30 timer firings, and nothing
  has been written. If a payload becomes pending after k of these firings (k < 30), the next
  firing consumes it and schedules nothing: the chain ends there, after k + 1 firings whatever
  budget is left, with at most one clipboard write. If a payload is already pending when the
  key event is handled, it is consumed at once and no timer is set.
\<close>

lemma retry_chain_isolated:
  assumes ff: "isFirefox nav" and acc: "browserHasClipboardAccess nav"
    and cp: "isCopyKeyboardEvent evt"
    and np: "\<not> ffPostponeKeyboardEvents (component S)"
    and fresh: "retry_timer (handled S) \<notin> set (pending S)"
  shows "(ffRemoteClipboardData (component S) = None \<longrightarrow>
           (\<forall>k<30.
              pending (ff_run nav send
                  (KeyEvent evt True # replicate k (TimerFires (retry_timer (handled S)))) S)
                = pending S @ [retry_timer (handled S)]
            \<and> textWritten (component (ff_run nav send
                  (KeyEvent evt True # replicate k (TimerFires (retry_timer (handled S)))) S))
                = textWritten (component S))
         \<and> pending (ff_run nav send
                (KeyEvent evt True # replicate 30 (TimerFires (retry_timer (handled S)))) S)
              = pending S
         \<and> fired (ff_run nav send
                (KeyEvent evt True # replicate 30 (TimerFires (retry_timer (handled S)))) S)
              = fired S @ replicate 30 (retry_timer (handled S))
         \<and> textWritten (component (ff_run nav send
                (KeyEvent evt True # replicate 30 (TimerFires (retry_timer (handled S)))) S))
              = textWritten (component S)
         \<and> (\<forall>k<30. \<forall>d its. items d = Some its \<longrightarrow>
              pending (ff_run nav send
                  (KeyEvent evt True # replicate k (TimerFires (retry_timer (handled S)))
                     @ [RemoteClipboardChanged d, TimerFires (retry_timer (handled S))]) S)
                = pending S
            \<and> fired (ff_run nav send
                  (KeyEvent evt True # replicate k (TimerFires (retry_timer (handled S)))
                     @ [RemoteClipboardChanged d, TimerFires (retry_timer (handled S))]) S)
                = fired S @ replicate (Suc k) (retry_timer (handled S))
            \<and> ffRemoteClipboardData (component (ff_run nav send
                  (KeyEvent evt True # replicate k (TimerFires (retry_timer (handled S)))
                     @ [RemoteClipboardChanged d, TimerFires (retry_timer (handled S))]) S))
                = None
            \<and> length (textWritten (component (ff_run nav send
                  (KeyEvent evt True # replicate k (TimerFires (retry_timer (handled S)))
                     @ [RemoteClipboardChanged d, TimerFires (retry_timer (handled S))]) S)))
                \<le> length (textWritten (component S)) + 1))
     \<and> (\<forall>d. ffRemoteClipboardData (component S) = Some d \<longrightarrow>
           pending (ff_step nav send S (KeyEvent evt True)) = pending S
         \<and> ffRemoteClipboardData (component (ff_step nav send S (KeyEvent evt True))) = None
         \<and> length (textWritten (component (ff_step nav send S (KeyEvent evt True))))
             \<le> length (textWritten (component S)) + 1)"
proof -
  let ?c = "retry_timer (handled S)"
  let ?S1 = "ff_step nav send S (KeyEvent evt True)"
  let ?R = "\<lambda>k. ff_run nav send (replicate k (TimerFires ?c)) ?S1"
  have waiting: "pending (ff_run nav send (KeyEvent evt True # replicate k (TimerFires ?c)) S)
                = pending S @ [?c]
            \<and> textWritten (component (ff_run nav send (KeyEvent evt True # replicate k (TimerFires ?c)) S))
                = textWritten (component S)"
    and gives_up: "pending (ff_run nav send (KeyEvent evt True # replicate 30 (TimerFires ?c)) S) = pending S
         \<and> fired (ff_run nav send (KeyEvent evt True # replicate 30 (TimerFires ?c)) S)
              = fired S @ replicate 30 ?c
         \<and> textWritten (component (ff_run nav send (KeyEvent evt True # replicate 30 (TimerFires ?c)) S))
              = textWritten (component S)"
    and arrives: "pending (ff_run nav send
                  (KeyEvent evt True # replicate k (TimerFires ?c) @ [RemoteClipboardChanged d, TimerFires ?c]) S)
                = pending S
            \<and> fired (ff_run nav send
                  (KeyEvent evt True # replicate k (TimerFires ?c) @ [RemoteClipboardChanged d, TimerFires ?c]) S)
                = fired S @ replicate (Suc k) ?c
            \<and> ffRemoteClipboardData (component (ff_run nav send
                  (KeyEvent evt True # replicate k (TimerFires ?c) @ [RemoteClipboardChanged d, TimerFires ?c]) S))
                = None
            \<and> length (textWritten (component (ff_run nav send
                  (KeyEvent evt True # replicate k (TimerFires ?c) @ [RemoteClipboardChanged d, TimerFires ?c]) S)))
                \<le> length (textWritten (component S)) + 1"
    if none: "ffRemoteClipboardData (component S) = None" and k: "k < 30" and d: "items d = Some its"
    for k d its
  proof -
    note g = copy_gesture_none[OF ff acc cp np none, of send]
    have le: "j \<le> ffRemoteClipboardDataRetriesLeft (component ?S1)" if "j < 30" for j
      using that g(5) by simp
    note w = retry_chain_waiting[OF g(4) g(1) fresh]
    from w[OF le[OF k], of nav send] g(2,3)
    show "pending (ff_run nav send (KeyEvent evt True # replicate k (TimerFires ?c)) S)
                = pending S @ [?c]
            \<and> textWritten (component (ff_run nav send (KeyEvent evt True # replicate k (TimerFires ?c)) S))
                = textWritten (component S)"
      by (simp add: ff_run_Cons)
    have w29: "ffRemoteClipboardData (component (?R 29)) = None"
      "pending (?R 29) = pending S @ [?c]"
      "textWritten (component (?R 29)) = textWritten (component S)"
      "fired (?R 29) = fired S @ replicate 29 ?c"
      "ffRemoteClipboardDataRetriesLeft (component (?R 29)) = 0"
      using w[of 29 nav send] g(2,3,5) by simp_all
    have r30: "ff_run nav send (KeyEvent evt True # replicate 30 (TimerFires ?c)) S
        = ff_step nav send (?R 29) (TimerFires ?c)"
    proof -
      have "replicate (Suc 29) (TimerFires ?c) = replicate 29 (TimerFires ?c) @ [TimerFires ?c]"
        by (simp only: replicate_Suc replicate_append_same)
      moreover have "(30::nat) = Suc 29" by simp
      ultimately have "replicate 30 (TimerFires ?c) = replicate 29 (TimerFires ?c) @ [TimerFires ?c]"
        by (simp only:)
      then show ?thesis by (simp only: ff_run_Cons ff_run_snoc)
    qed
    from retry_fires_none(2,3)[OF w29(1) w29(2) fresh, of nav send]
      retry_fires_none(5)[OF w29(1) w29(2) fresh w29(5), of nav send] w29(3,4)
    show "pending (ff_run nav send (KeyEvent evt True # replicate 30 (TimerFires ?c)) S) = pending S
         \<and> fired (ff_run nav send (KeyEvent evt True # replicate 30 (TimerFires ?c)) S)
              = fired S @ replicate 30 ?c
         \<and> textWritten (component (ff_run nav send (KeyEvent evt True # replicate 30 (TimerFires ?c)) S))
              = textWritten (component S)"
    proof -
      have "replicate (Suc 29) ?c = replicate 29 ?c @ [?c]"
        by (simp only: replicate_Suc replicate_append_same)
      moreover have "(30::nat) = Suc 29" by simp
      ultimately have r: "replicate 30 ?c = replicate 29 ?c @ [?c]" by (simp only:)
      from retry_fires_none(2,3)[OF w29(1) w29(2) fresh, of nav send]
        retry_fires_none(5)[OF w29(1) w29(2) fresh w29(5), of nav send] w29(3,4)
      show ?thesis by (simp only: r30 r) simp
    qed
    let ?A = "ff_step nav send (?R k) (RemoteClipboardChanged d)"
    note wk = w[OF le[OF k], of nav send]
    have a: "ffRemoteClipboardData (component ?A) = Some d" "pending ?A = pending S @ [?c]"
      "textWritten (component ?A) = textWritten (component S)"
      "fired ?A = fired S @ replicate k ?c"
      using wk d g(2,3) by (simp_all add: ffOnRemoteClipboardChanged_def)
    have run: "ff_run nav send
          (KeyEvent evt True # replicate k (TimerFires ?c) @ [RemoteClipboardChanged d, TimerFires ?c]) S
        = ff_step nav send ?A (TimerFires ?c)"
      by (simp add: ff_run_Cons ff_run_append ff_run_Nil)
    from retry_fires_some[OF a(1) a(2) fresh, of nav send] a(3,4)
    show "pending (ff_run nav send
                  (KeyEvent evt True # replicate k (TimerFires ?c) @ [RemoteClipboardChanged d, TimerFires ?c]) S)
                = pending S
            \<and> fired (ff_run nav send
                  (KeyEvent evt True # replicate k (TimerFires ?c) @ [RemoteClipboardChanged d, TimerFires ?c]) S)
                = fired S @ replicate (Suc k) ?c
            \<and> ffRemoteClipboardData (component (ff_run nav send
                  (KeyEvent evt True # replicate k (TimerFires ?c) @ [RemoteClipboardChanged d, TimerFires ?c]) S))
                = None
            \<and> length (textWritten (component (ff_run nav send
                  (KeyEvent evt True # replicate k (TimerFires ?c) @ [RemoteClipboardChanged d, TimerFires ?c]) S)))
                \<le> length (textWritten (component S)) + 1"
      by (simp add: run replicate_append_same)
  qed
  have present: "pending ?S1 = pending S
         \<and> ffRemoteClipboardData (component ?S1) = None
         \<and> length (textWritten (component ?S1)) \<le> length (textWritten (component S)) + 1"
    if "ffRemoteClipboardData (component S) = Some d" for d
    using copy_gesture_some[OF ff acc cp np that, of send] by simp
  have its: "items (ClipboardData []) = Some []" by simp
  show ?thesis
  proof (intro conjI impI allI)
    fix k :: nat
    assume "ffRemoteClipboardData (component S) = None" and "k < 30"
    from waiting[OF this its]
    show "pending (ff_run nav send (KeyEvent evt True # replicate k (TimerFires ?c)) S)
            = pending S @ [?c]"
      and "textWritten (component (ff_run nav send (KeyEvent evt True # replicate k (TimerFires ?c)) S))
            = textWritten (component S)"
      by simp_all
  next
    assume none: "ffRemoteClipboardData (component S) = None"
    have z: "(0::nat) < 30" by simp
    from gives_up[OF none z its]
    show "pending (ff_run nav send (KeyEvent evt True # replicate 30 (TimerFires ?c)) S) = pending S"
      and "fired (ff_run nav send (KeyEvent evt True # replicate 30 (TimerFires ?c)) S)
              = fired S @ replicate 30 ?c"
      and "textWritten (component (ff_run nav send (KeyEvent evt True # replicate 30 (TimerFires ?c)) S))
              = textWritten (component S)"
      by simp_all
  next
    fix k :: nat and d its
    assume "ffRemoteClipboardData (component S) = None" and "k < 30" and "items d = Some its"
    from arrives[OF this]
    show "pending (ff_run nav send
                  (KeyEvent evt True # replicate k (TimerFires ?c) @ [RemoteClipboardChanged d, TimerFires ?c]) S)
                = pending S"
      and "fired (ff_run nav send
                  (KeyEvent evt True # replicate k (TimerFires ?c) @ [RemoteClipboardChanged d, TimerFires ?c]) S)
                = fired S @ replicate (Suc k) ?c"
      and "ffRemoteClipboardData (component (ff_run nav send
                  (KeyEvent evt True # replicate k (TimerFires ?c) @ [RemoteClipboardChanged d, TimerFires ?c]) S))
                = None"
      and "length (textWritten (component (ff_run nav send
                  (KeyEvent evt True # replicate k (TimerFires ?c) @ [RemoteClipboardChanged d, TimerFires ?c]) S)))
                \<le> length (textWritten (component S)) + 1"
      by simp_all
  next
    fix d
    assume "ffRemoteClipboardData (component S) = Some d"
    from present[OF this]
    show "pending ?S1 = pending S"
      and "ffRemoteClipboardData (component ?S1) = None"
      and "length (textWritten (component ?S1)) \<le> length (textWritten (component S)) + 1"
      by simp_all
  qed
qed

text \<open>
  The same at concrete inputs: Ctrl+C on the idle bridge, then 29 and 30 firings with no
  payload, and a payload arriving after 2 firings.
\<close>

lemma retry_chain_isolated_example:
  "isFirefox firefox_115 \<and> browserHasClipboardAccess firefox_115 \<and> isCopyKeyboardEvent ctrl_c
   \<and> \<not> ffPostponeKeyboardEvents (component ff_idle)
   \<and> retry_timer (handled ff_idle) \<notin> set (pending ff_idle)
   \<and> ffRemoteClipboardData (component ff_idle) = None
   \<and> pending (ff_run firefox_115 delivers
         (KeyEvent ctrl_c True # replicate 29 (TimerFires (retry_timer (handled ff_idle)))) ff_idle)
       = pending ff_idle @ [retry_timer (handled ff_idle)]
   \<and> pending (ff_run firefox_115 delivers
         (KeyEvent ctrl_c True # replicate 30 (TimerFires (retry_timer (handled ff_idle)))) ff_idle)
       = pending ff_idle
   \<and> fired (ff_run firefox_115 delivers
         (KeyEvent ctrl_c True # replicate 30 (TimerFires (retry_timer (handled ff_idle)))) ff_idle)
       = fired ff_idle @ replicate 30 (retry_timer (handled ff_idle))
   \<and> items hello_data = Some [ClipboardItem ''text/plain'' (Text ''hello'')]
   \<and> pending (ff_run firefox_115 delivers
         (KeyEvent ctrl_c True # replicate 2 (TimerFires (retry_timer (handled ff_idle)))
            @ [RemoteClipboardChanged hello_data, TimerFires (retry_timer (handled ff_idle))]) ff_idle)
       = pending ff_idle
   \<and> fired (ff_run firefox_115 delivers
         (KeyEvent ctrl_c True # replicate 2 (TimerFires (retry_timer (handled ff_idle)))
            @ [RemoteClipboardChanged hello_data, TimerFires (retry_timer (handled ff_idle))]) ff_idle)
       = fired ff_idle @ replicate (Suc 2) (retry_timer (handled ff_idle))"
proof -
  have ff: "isFirefox firefox_115" by (rule firefox_115_isFirefox)
  have acc: "browserHasClipboardAccess firefox_115"
    by (simp add: browserHasClipboardAccess_def firefox_115_def)
  have cp: "isCopyKeyboardEvent ctrl_c" by (simp add: isCopyKeyboardEvent_def ctrl_c_def)
  have np: "\<not> ffPostponeKeyboardEvents (component ff_idle)" by (simp add: ff_idle_def)
  have fresh: "retry_timer (handled ff_idle) \<notin> set (pending ff_idle)" by (simp add: ff_idle_def)
  have none: "ffRemoteClipboardData (component ff_idle) = None" by (simp add: ff_idle_def)
  have its: "items hello_data = Some [ClipboardItem ''text/plain'' (Text ''hello'')]"
    by (simp add: hello_data_def)
  have k29: "(29::nat) < 30" and k2: "(2::nat) < 30" by simp_all
  note t = retry_chain_isolated[OF ff acc cp np fresh, of delivers]
  from t none k29 k2 its ff acc cp np fresh show ?thesis by blast
qed

lemma ffWait_keeps_keys:
  "ffPostponeKeyboardEvents (fst (ffWaitForRemoteClipboardDataSet s)) = ffPostponeKeyboardEvents s"
  "ffDelayedKeyboardEvents (fst (ffWaitForRemoteClipboardDataSet s)) = ffDelayedKeyboardEvents s"
  "keyboardEventsSent (fst (ffWaitForRemoteClipboardDataSet s)) = keyboardEventsSent s"
  by (auto simp: ffWaitForRemoteClipboardDataSet_def Let_def
      split: option.splits clip_value.splits)

lemma keyboardEvent_delivers:
  assumes "send evt = Returned"
  shows "fst (keyboardEvent nav send evt s) = Returned"
    and "keyboardEventsSent (fst (snd (keyboardEvent nav send evt s))) = keyboardEventsSent s @ [evt]"
    and "ffPostponeKeyboardEvents (fst (snd (keyboardEvent nav send evt s))) = ffPostponeKeyboardEvents s"
    and "ffDelayedKeyboardEvents (fst (snd (keyboardEvent nav send evt s))) = ffDelayedKeyboardEvents s"
proof -
  let ?s = "s\<lparr>ffRemoteClipboardDataRetriesLeft := FF_REMOTE_CLIPBOARD_DATA_SET_MAX_RETRIES\<rparr>"
  obtain s1 ts where w: "ffWaitForRemoteClipboardDataSet ?s = (s1, ts)"
    by (cases "ffWaitForRemoteClipboardDataSet ?s")
  with ffWait_keeps_keys[of ?s]
  have k: "ffPostponeKeyboardEvents s1 = ffPostponeKeyboardEvents s"
    "ffDelayedKeyboardEvents s1 = ffDelayedKeyboardEvents s"
    "keyboardEventsSent s1 = keyboardEventsSent s" by simp_all
  from assms w k
  show "fst (keyboardEvent nav send evt s) = Returned"
    and "keyboardEventsSent (fst (snd (keyboardEvent nav send evt s))) = keyboardEventsSent s @ [evt]"
    and "ffPostponeKeyboardEvents (fst (snd (keyboardEvent nav send evt s))) = ffPostponeKeyboardEvents s"
    and "ffDelayedKeyboardEvents (fst (snd (keyboardEvent nav send evt s))) = ffDelayedKeyboardEvents s"
    by (simp_all add: keyboardEvent_def Let_def)
qed

lemma simulate_for_each_delivers:
  assumes "\<forall>e\<in>set evts. send e = Returned"
  shows "fst (simulate_for_each nav send evts (s, ts)) = Returned
     \<and> keyboardEventsSent (fst (snd (simulate_for_each nav send evts (s, ts))))
         = keyboardEventsSent s @ evts
     \<and> ffPostponeKeyboardEvents (fst (snd (simulate_for_each nav send evts (s, ts))))
         = ffPostponeKeyboardEvents s
     \<and> ffDelayedKeyboardEvents (fst (snd (simulate_for_each nav send evts (s, ts))))
         = ffDelayedKeyboardEvents s"
  using assms
proof (induction evts arbitrary: s ts)
  case Nil
  then show ?case by simp
next
  case (Cons evt evts)
  from Cons.prems have ok: "send evt = Returned" and rest: "\<forall>e\<in>set evts. send e = Returned"
    by simp_all
  obtain out s1 ts1 where k: "keyboardEvent nav send evt s = (out, s1, ts1)"
    by (cases "keyboardEvent nav send evt s")
  with keyboardEvent_delivers[where send=send and evt=evt and nav=nav and s=s, OF ok]
  have f: "out = Returned" "keyboardEventsSent s1 = keyboardEventsSent s @ [evt]"
    "ffPostponeKeyboardEvents s1 = ffPostponeKeyboardEvents s"
    "ffDelayedKeyboardEvents s1 = ffDelayedKeyboardEvents s" by simp_all
  from Cons.IH[OF rest, of s1 "ts @ ts1"] k f show ?case by simp
qed

lemma ffSimulate_delivers:
  assumes "\<forall>e\<in>set (ffDelayedKeyboardEvents s). send e = Returned"
  shows "fst (ffSimulateDelayedKeyEvents nav send s) = Returned"
    and "keyboardEventsSent (fst (snd (ffSimulateDelayedKeyEvents nav send s)))
          = keyboardEventsSent s @ ffDelayedKeyboardEvents s"
    and "\<not> ffPostponeKeyboardEvents (fst (snd (ffSimulateDelayedKeyEvents nav send s)))"
    and "ffDelayedKeyboardEvents (fst (snd (ffSimulateDelayedKeyEvents nav send s))) = []"
proof -
  obtain out s1 ts1 where l: "simulate_for_each nav send (ffDelayedKeyboardEvents s) (s, []) = (out, s1, ts1)"
    by (cases "simulate_for_each nav send (ffDelayedKeyboardEvents s) (s, [])")
  with simulate_for_each_delivers[OF assms, of nav s "[]"]
  have f: "out = Returned" "keyboardEventsSent s1 = keyboardEventsSent s @ ffDelayedKeyboardEvents s"
    by simp_all
  from l f
  show "fst (ffSimulateDelayedKeyEvents nav send s) = Returned"
    and "keyboardEventsSent (fst (snd (ffSimulateDelayedKeyEvents nav send s)))
          = keyboardEventsSent s @ ffDelayedKeyboardEvents s"
    and "\<not> ffPostponeKeyboardEvents (fst (snd (ffSimulateDelayedKeyEvents nav send s)))"
    and "ffDelayedKeyboardEvents (fst (snd (ffSimulateDelayedKeyEvents nav send s))) = []"
    by (simp_all add: ffSimulateDelayedKeyEvents_def)
qed

lemma release_replays:
  assumes "is_release S ev"
    and "\<forall>e\<in>set (ffDelayedKeyboardEvents (component S)). send e = Returned"
  shows "keyboardEventsSent (component (ff_step nav send S ev))
          = keyboardEventsSent (component S) @ ffDelayedKeyboardEvents (component S)"
    and "\<not> ffPostponeKeyboardEvents (component (ff_step nav send S ev))"
    and "ffDelayedKeyboardEvents (component (ff_step nav send S ev)) = []"
proof -
  obtain out s1 ts1 where l: "ffSimulateDelayedKeyEvents nav send (component S) = (out, s1, ts1)"
    by (cases "ffSimulateDelayedKeyEvents nav send (component S)")
  with ffSimulate_delivers[OF assms(2), of nav]
  have f: "out = Returned"
    "keyboardEventsSent s1 = keyboardEventsSent (component S) @ ffDelayedKeyboardEvents (component S)"
    "\<not> ffPostponeKeyboardEvents s1" "ffDelayedKeyboardEvents s1 = []" by simp_all
  from assms(1) l f
  show "keyboardEventsSent (component (ff_step nav send S ev))
          = keyboardEventsSent (component S) @ ffDelayedKeyboardEvents (component S)"
    and "\<not> ffPostponeKeyboardEvents (component (ff_step nav send S ev))"
    and "ffDelayedKeyboardEvents (component (ff_step nav send S ev)) = []"
    by (cases ev; auto simp: is_release_def ffOnRemoteReceivedFormatList_def)+
qed

lemma release_when_empty:
  assumes "release_event ev"
    and "ffDelayedKeyboardEvents (component S) = []"
  shows "keyboardEventsSent (component (ff_step nav send S ev)) = keyboardEventsSent (component S)"
  using assms
  by (cases ev) (auto simp: ffOnRemoteReceivedFormatList_def ffSimulateDelayedKeyEvents_def)

lemma buffering_keys:
  assumes "ffPostponeKeyboardEvents (component S)"
  shows "ffPostponeKeyboardEvents (component (ff_run nav send (map (\<lambda>e. KeyEvent e True) ks) S))
     \<and> ffDelayedKeyboardEvents (component (ff_run nav send (map (\<lambda>e. KeyEvent e True) ks) S))
         = ffDelayedKeyboardEvents (component S) @ ks
     \<and> keyboardEventsSent (component (ff_run nav send (map (\<lambda>e. KeyEvent e True) ks) S))
         = keyboardEventsSent (component S)
     \<and> pending (ff_run nav send (map (\<lambda>e. KeyEvent e True) ks) S) = pending S"
  using assms
proof (induction ks arbitrary: S)
  case Nil
  then show ?case by (simp add: ff_run_Nil)
next
  case (Cons k ks)
  let ?S1 = "ff_step nav send S (KeyEvent k True)"
  from Cons.prems have s1: "ffPostponeKeyboardEvents (component ?S1)"
    "ffDelayedKeyboardEvents (component ?S1) = ffDelayedKeyboardEvents (component S) @ [k]"
    "keyboardEventsSent (component ?S1) = keyboardEventsSent (component S)"
    "pending ?S1 = pending S"
    by (simp_all add: captureKeys_def schedule_def)
  from Cons.IH[OF s1(1)] s1 show ?case by (simp add: ff_run_Cons)
qed

text \<open>
  C8. The claim: once a paste key event has started buffering, the buffered key events are
  replayed at whichever comes first of the remote format-list signal and the fixed 1000 ms
  timeout (the comments at \<^verbatim>\<open>FF_LOCAL_CLIPBOARD_COPY_TIMEOUT\<close> and at the \<^verbatim>\<open>setTimeout\<close>
  in \<^verbatim>\<open>captureKeys\<close> say the same: the timeout is that of the paste it was set for). The
  code does not do this when two pastes follow each other within the timeout. Ctrl+V (event 0)
  starts buffering and sets its timeout; the format-list signal (event 1) releases the buffer;
  the timeout of event 0 stays pending, since it is never cancelled. A second Ctrl+V (event 2)
  starts buffering again and sets its own timeout, and the key A (event 3) is buffered behind
  it. Now the timeout of event 0 fires: both buffered events are replayed. No format-list
  signal has come since event 2, and the 1000 ms timeout of event 2 is still pending.
\<close>

theorem stale_postpone_timer_releases_early:
  "keyboardEventsSent (component (ff_run firefox_115 delivers paste_signal_paste ff_idle)) = [ctrl_v]
   \<and> ffDelayedKeyboardEvents (component (ff_run firefox_115 delivers paste_signal_paste ff_idle))
       = [ctrl_v, key_a]
   \<and> pending (ff_run firefox_115 delivers paste_signal_paste ff_idle)
       = [postpone_timer 0, postpone_timer 2]
   \<and> keyboardEventsSent (component (ff_run firefox_115 delivers
         (paste_signal_paste @ [TimerFires (postpone_timer 0)]) ff_idle)) = [ctrl_v, ctrl_v, key_a]
   \<and> pending (ff_run firefox_115 delivers
         (paste_signal_paste @ [TimerFires (postpone_timer 0)]) ff_idle) = [postpone_timer 2]"
  by code_simp

text \<open>
  A single paste does what the claim says. Once a paste key event has started buffering, every
  key event captured after it is queued and none is delivered, until the release: the
  format-list signal of the remote module, or the firing of a pending timer of
  \<^verbatim>\<open>ffSimulateDelayedKeyEvents\<close>. At the release the buffered events are delivered to the
  remote session in their order of arrival, each once, and buffering ends; a later signal or
  timer firing delivers none of them again. (Here the remote module accepts every buffered
  event.)
\<close>

lemma postponed_keys_replayed_once:
  assumes ff: "isFirefox nav" and paste: "isPasteKeyboardEvent p"
    and idle: "\<not> ffPostponeKeyboardEvents (component S)"
    and ok: "\<forall>e\<in>set (p # ks). send e = Returned"
    and B: "B = ff_run nav send (KeyEvent p True # map (\<lambda>e. KeyEvent e True) ks) S"
    and rel: "is_release B release"
  shows "keyboardEventsSent (component B) = keyboardEventsSent (component S)
     \<and> ffPostponeKeyboardEvents (component B)
     \<and> ffDelayedKeyboardEvents (component B) = p # ks
     \<and> postpone_timer (handled S) \<in> set (pending B)
     \<and> keyboardEventsSent (component (ff_step nav send B release))
         = keyboardEventsSent (component S) @ p # ks
     \<and> \<not> ffPostponeKeyboardEvents (component (ff_step nav send B release))
     \<and> ffDelayedKeyboardEvents (component (ff_step nav send B release)) = []
     \<and> (\<forall>again. release_event again \<longrightarrow>
          keyboardEventsSent (component (ff_step nav send (ff_step nav send B release) again))
            = keyboardEventsSent (component S) @ p # ks)"
proof -
  let ?S1 = "ff_step nav send S (KeyEvent p True)"
  from ff paste idle have s1: "ffPostponeKeyboardEvents (component ?S1)"
    "ffDelayedKeyboardEvents (component ?S1) = [p]"
    "keyboardEventsSent (component ?S1) = keyboardEventsSent (component S)"
    "pending ?S1 = pending S @ [postpone_timer (handled S)]"
    by (simp_all add: captureKeys_def schedule_def postpone_timer_def)
  from buffering_keys[OF s1(1), of nav send ks] s1 B
  have b: "ffPostponeKeyboardEvents (component B)"
    "ffDelayedKeyboardEvents (component B) = p # ks"
    "keyboardEventsSent (component B) = keyboardEventsSent (component S)"
    "pending B = pending S @ [postpone_timer (handled S)]"
    by (simp_all add: ff_run_Cons)
  have ok': "\<forall>e\<in>set (ffDelayedKeyboardEvents (component B)). send e = Returned"
    using ok b(2) by simp
  note r = release_replays[OF rel ok', of nav]
  have again: "keyboardEventsSent (component (ff_step nav send (ff_step nav send B release) again))
            = keyboardEventsSent (component S) @ p # ks"
    if "release_event again" for again
    using release_when_empty[OF that r(3), of nav send] r(1) b by simp
  from b r again show ?thesis by simp
qed

text \<open>
  The same at concrete inputs: Ctrl+V and the key A on the idle bridge, released by the signal,
  by the timeout, and by the signal followed by the timeout.
\<close>

lemma postponed_keys_replayed_once_example:
  "isFirefox firefox_115 \<and> isPasteKeyboardEvent ctrl_v
   \<and> \<not> ffPostponeKeyboardEvents (component ff_idle)
   \<and> delivers ctrl_v = Returned \<and> delivers key_a = Returned
   \<and> is_release (ff_run firefox_115 delivers [KeyEvent ctrl_v True, KeyEvent key_a True] ff_idle)
        RemoteReceivedFormatList
   \<and> is_release (ff_run firefox_115 delivers [KeyEvent ctrl_v True, KeyEvent key_a True] ff_idle)
        (TimerFires (postpone_timer 0))
   \<and> keyboardEventsSent (component
        (ff_run firefox_115 delivers [KeyEvent ctrl_v True, KeyEvent key_a True] ff_idle)) = []
   \<and> keyboardEventsSent (component (ff_step firefox_115 delivers
        (ff_run firefox_115 delivers [KeyEvent ctrl_v True, KeyEvent key_a True] ff_idle)
        RemoteReceivedFormatList)) = [ctrl_v, key_a]
   \<and> keyboardEventsSent (component (ff_step firefox_115 delivers
        (ff_run firefox_115 delivers [KeyEvent ctrl_v True, KeyEvent key_a True] ff_idle)
        (TimerFires (postpone_timer 0)))) = [ctrl_v, key_a]
   \<and> keyboardEventsSent (component (ff_step firefox_115 delivers
        (ff_step firefox_115 delivers
          (ff_run firefox_115 delivers [KeyEvent ctrl_v True, KeyEvent key_a True] ff_idle)
          RemoteReceivedFormatList)
        (TimerFires (postpone_timer 0)))) = [ctrl_v, key_a]"
proof -
  let ?B = "ff_run firefox_115 delivers [KeyEvent ctrl_v True, KeyEvent key_a True] ff_idle"
  have ff: "isFirefox firefox_115" by (rule firefox_115_isFirefox)
  have paste: "isPasteKeyboardEvent ctrl_v" by (simp add: isPasteKeyboardEvent_def ctrl_v_def)
  have idle: "\<not> ffPostponeKeyboardEvents (component ff_idle)" by (simp add: ff_idle_def)
  have d: "delivers ctrl_v = Returned" "delivers key_a = Returned" by (simp_all add: delivers_def)
  have ok: "\<forall>e\<in>set (ctrl_v # [key_a]). delivers e = Returned" by (simp add: delivers_def)
  have B: "?B = ff_run firefox_115 delivers (KeyEvent ctrl_v True # map (\<lambda>e. KeyEvent e True) [key_a]) ff_idle"
    by simp
  have h0: "handled ff_idle = 0" "keyboardEventsSent (component ff_idle) = []"
    by (simp_all add: ff_idle_def)
  have rel1: "is_release ?B RemoteReceivedFormatList" by (simp add: is_release_def)
  note t1 = postponed_keys_replayed_once[OF ff paste idle ok B rel1]
  from t1 h0 have mem: "postpone_timer 0 \<in> set (pending ?B)" by simp
  then have rel2: "is_release ?B (TimerFires (postpone_timer 0))"
    by (simp add: is_release_def postpone_timer_def)
  note t2 = postponed_keys_replayed_once[OF ff paste idle ok B rel2]
  have again: "release_event (TimerFires (postpone_timer 0))"
    by (simp add: postpone_timer_def)
  from t1 again have twice: "keyboardEventsSent (component (ff_step firefox_115 delivers
        (ff_step firefox_115 delivers ?B RemoteReceivedFormatList)
        (TimerFires (postpone_timer 0)))) = keyboardEventsSent (component ff_idle) @ ctrl_v # [key_a]"
    by blast
  from t1 t2 twice h0 ff paste idle d rel1 rel2 show ?thesis by simp
qed

text \<open>
  When \<^verbatim>\<open>sendKeyboardEvent\<close> throws during a replay, \<^verbatim>\<open>ffSimulateDelayedKeyEvents\<close> is
  left before it empties the buffer, so the next release replays the buffer from its start:
  here the remote module throws on the key A, the signal delivers Ctrl+V and fails at A, and
  the timeout delivers Ctrl+V a second time.
\<close>

lemma replay_after_failed_send_repeats:
  "keyboardEventsSent (component (ff_run firefox_115 rejects_key_a
      [KeyEvent ctrl_v True, KeyEvent key_a True, RemoteReceivedFormatList] ff_idle)) = [ctrl_v]
   \<and> keyboardEventsSent (component (ff_run firefox_115 rejects_key_a
      [KeyEvent ctrl_v True, KeyEvent key_a True, RemoteReceivedFormatList,
       TimerFires (postpone_timer 0)] ff_idle)) = [ctrl_v, ctrl_v]"
  by code_simp

end
